theory Spec2Isabelle
  imports Complex_Main
begin

section \<open>The decimal arithmetic the script runs on\<close>

text \<open>
  \<^verbatim>\<open>compute_eclp_derived_params.py\<close> computes with Python's \<^verbatim>\<open>decimal.Decimal\<close>
  under the default context with the precision set to 200 digits.  A finite
  \<^verbatim>\<open>Decimal\<close> is a sign, a coefficient and an exponent and stands for
  \<open>(-1)^sign * coefficient * 10^exponent\<close>.  The default context rounds half-even,
  has \<open>Emax = 999999\<close>, \<open>Emin = -999999\<close>, and traps \<^verbatim>\<open>InvalidOperation\<close>,
  \<^verbatim>\<open>DivisionByZero\<close> and \<^verbatim>\<open>Overflow\<close>: these are raised as exceptions, so no
  NaN and no infinity is ever a value of the script.  The other signals (\<^verbatim>\<open>Inexact\<close>,
  \<^verbatim>\<open>Rounded\<close>, \<^verbatim>\<open>Subnormal\<close>, \<^verbatim>\<open>Underflow\<close>, \<^verbatim>\<open>Clamped\<close>) only set flags that
  the script never reads.
\<close>

datatype error = InvalidOperation | DivisionByZero | Overflow

record decimal =
  dsign :: bool
  dint :: nat
  dexp :: int

record dcontext =
  prec :: nat
  Emax :: int
  Emin :: int

definition ebind :: "error + 'a \<Rightarrow> ('a \<Rightarrow> error + 'b) \<Rightarrow> error + 'b" where
  "ebind m f = (case m of Inl e \<Rightarrow> Inl e | Inr x \<Rightarrow> f x)"

definition Etiny :: "dcontext \<Rightarrow> int" where
  "Etiny ctx = Emin ctx - int (prec ctx) + 1"

definition Etop :: "dcontext \<Rightarrow> int" where
  "Etop ctx = Emax ctx - int (prec ctx) + 1"

text \<open>\<^verbatim>\<open>len(str(n))\<close>: the number of decimal digits of a coefficient.\<close>

fun ndigits :: "nat \<Rightarrow> nat" where
  "ndigits n = (if n < 10 then 1 else Suc (ndigits (n div 10)))"

declare ndigits.simps [simp del]

text \<open>
  \<^verbatim>\<open>_round_half_even\<close>: whether a coefficient \<open>c\<close> that loses its \<open>k\<close> low digits is
  rounded up (away from zero).  An exact half goes to the even neighbour.
\<close>

definition round_up_half_even :: "nat \<Rightarrow> nat \<Rightarrow> bool" where
  "round_up_half_even c k =
     (let q = c div 10 ^ k; r = c mod 10 ^ k; h = 5 * 10 ^ (k - 1)
      in if r = h \<and> even q then False else h \<le> r)"

text \<open>
  \<^verbatim>\<open>Decimal._fix\<close>: fit an exact result into the context.  A zero only has its
  exponent clamped.  A result whose adjusted exponent exceeds \<open>Emax\<close> raises
  \<^verbatim>\<open>Overflow\<close>; one with more than \<open>prec\<close> digits, or below \<open>Etiny\<close>, is rounded.
\<close>

definition dec_fix :: "dcontext \<Rightarrow> decimal \<Rightarrow> error + decimal" where
  "dec_fix ctx x =
     (if dint x = 0
      then Inr (x\<lparr>dexp := min (max (dexp x) (Etiny ctx)) (Emax ctx)\<rparr>)
      else
        let exp_min0 = int (ndigits (dint x)) + dexp x - int (prec ctx) in
        if Etop ctx < exp_min0 then Inl Overflow
        else
          let exp_min = (if exp_min0 < Etiny ctx then Etiny ctx else exp_min0) in
          if dexp x < exp_min then
            let digits = int (ndigits (dint x)) + dexp x - exp_min;
                c = (if digits < 0 then 1 else dint x);
                e = (if digits < 0 then exp_min - 1 else dexp x);
                k = nat (exp_min - e);
                up = round_up_half_even c k;
                coeff = (if up then c div 10 ^ k + 1 else c div 10 ^ k);
                carry = (up \<and> prec ctx < ndigits coeff);
                coeff' = (if carry then coeff div 10 else coeff);
                exp_min' = (if carry then exp_min + 1 else exp_min)
            in if Etop ctx < exp_min' then Inl Overflow
               else Inr \<lparr>dsign = dsign x, dint = coeff', dexp = exp_min'\<rparr>
          else Inr x)"

text \<open>\<^verbatim>\<open>Decimal(n)\<close> for a non-negative integer (or a string of digits).\<close>

definition Decimal :: "nat \<Rightarrow> decimal" where
  "Decimal n = \<lparr>dsign = False, dint = n, dexp = 0\<rparr>"

text \<open>
  \<^verbatim>\<open>__mul__\<close>: the exact product, then \<^verbatim>\<open>_fix\<close>.  The source's shortcuts for a zero
  operand and for a coefficient \<^verbatim>\<open>'1'\<close> build the same triple.
\<close>

definition dec_mul :: "dcontext \<Rightarrow> decimal \<Rightarrow> decimal \<Rightarrow> error + decimal" where
  "dec_mul ctx x y =
     dec_fix ctx \<lparr>dsign = (dsign x \<noteq> dsign y), dint = dint x * dint y, dexp = dexp x + dexp y\<rparr>"

text \<open>
  \<^verbatim>\<open>_normalize\<close>: bring two non-zero operands to a common exponent.  An operand too
  small to matter after rounding is replaced by a single low digit, so that the
  power of ten stays small.
\<close>

definition dec_normalize :: "nat \<Rightarrow> nat \<times> int \<Rightarrow> nat \<times> int \<Rightarrow> (nat \<times> int) \<times> (nat \<times> int)" where
  "dec_normalize p op1 op2 =
     (let tmp = (if snd op1 < snd op2 then op2 else op1);
          other = (if snd op1 < snd op2 then op1 else op2);
          e = snd tmp + min (- 1) (int (ndigits (fst tmp)) - int p - 2);
          other' = (if int (ndigits (fst other)) + snd other - 1 < e then (1, e) else other);
          tmp' = (fst tmp * 10 ^ nat (snd tmp - snd other'), snd other')
      in if snd op1 < snd op2 then (other', tmp') else (tmp', other'))"

text \<open>\<^verbatim>\<open>__add__\<close> under a rounding mode other than \<^verbatim>\<open>ROUND_FLOOR\<close>.\<close>

definition dec_add :: "dcontext \<Rightarrow> decimal \<Rightarrow> decimal \<Rightarrow> error + decimal" where
  "dec_add ctx x y =
     (let e = min (dexp x) (dexp y) in
      if dint x = 0 \<and> dint y = 0
      then dec_fix ctx \<lparr>dsign = (dsign x \<and> dsign y), dint = 0, dexp = e\<rparr>
      else if dint x = 0
      then (let e' = max e (dexp y - int (prec ctx) - 1)
            in dec_fix ctx \<lparr>dsign = dsign y, dint = dint y * 10 ^ nat (dexp y - e'), dexp = e'\<rparr>)
      else if dint y = 0
      then (let e' = max e (dexp x - int (prec ctx) - 1)
            in dec_fix ctx \<lparr>dsign = dsign x, dint = dint x * 10 ^ nat (dexp x - e'), dexp = e'\<rparr>)
      else
        (case dec_normalize (prec ctx) (dint x, dexp x) (dint y, dexp y) of
           ((c1, e1), (c2, e2)) \<Rightarrow>
             if dsign x \<noteq> dsign y then
               (if c1 = c2 then dec_fix ctx \<lparr>dsign = False, dint = 0, dexp = e\<rparr>
                else if c1 < c2 then dec_fix ctx \<lparr>dsign = dsign y, dint = c2 - c1, dexp = e2\<rparr>
                else dec_fix ctx \<lparr>dsign = dsign x, dint = c1 - c2, dexp = e1\<rparr>)
             else dec_fix ctx \<lparr>dsign = dsign x, dint = c1 + c2, dexp = e1\<rparr>))"

text \<open>\<^verbatim>\<open>__sub__\<close>: \<^verbatim>\<open>self.__add__(other.copy_negate())\<close>.\<close>

definition dec_sub :: "dcontext \<Rightarrow> decimal \<Rightarrow> decimal \<Rightarrow> error + decimal" where
  "dec_sub ctx x y = dec_add ctx x (y\<lparr>dsign := \<not> dsign y\<rparr>)"

text \<open>
  The loop of \<^verbatim>\<open>__truediv__\<close> for an exact quotient:
  \<^verbatim>\<open>while exp < ideal_exp and coeff % 10 == 0: coeff //= 10; exp += 1\<close>.
\<close>

function strip_zeros :: "nat \<Rightarrow> int \<Rightarrow> int \<Rightarrow> nat \<times> int" where
  "strip_zeros coeff e ideal =
     (if e < ideal \<and> coeff mod 10 = 0 then strip_zeros (coeff div 10) (e + 1) ideal
      else (coeff, e))"
  by pat_completeness auto
termination
  by (relation "measure (\<lambda>(coeff, e, ideal). nat (ideal - e))") auto

declare strip_zeros.simps [simp del]

text \<open>
  \<^verbatim>\<open>__truediv__\<close>: the quotient to \<open>prec + 1\<close> digits, with the last digit moved off 0
  and 5 when the division is inexact, so that the rounding in \<^verbatim>\<open>_fix\<close> is correct.
\<close>

definition dec_div :: "dcontext \<Rightarrow> decimal \<Rightarrow> decimal \<Rightarrow> error + decimal" where
  "dec_div ctx x y =
     (let sg = (dsign x \<noteq> dsign y) in
      if dint y = 0 then (if dint x = 0 then Inl InvalidOperation else Inl DivisionByZero)
      else if dint x = 0 then dec_fix ctx \<lparr>dsign = sg, dint = 0, dexp = dexp x - dexp y\<rparr>
      else
        let shift = int (ndigits (dint y)) - int (ndigits (dint x)) + int (prec ctx) + 1;
            e = dexp x - dexp y - shift;
            num = (if 0 \<le> shift then dint x * 10 ^ nat shift else dint x);
            den = (if 0 \<le> shift then dint y else dint y * 10 ^ nat (- shift));
            coeff = num div den;
            remainder = num mod den
        in if remainder \<noteq> 0
           then dec_fix ctx \<lparr>dsign = sg, dint = (if coeff mod 5 = 0 then coeff + 1 else coeff), dexp = e\<rparr>
           else (case strip_zeros coeff e (dexp x - dexp y) of
                   (coeff', e') \<Rightarrow> dec_fix ctx \<lparr>dsign = sg, dint = coeff', dexp = e'\<rparr>))"

text \<open>
  The Newton iteration of \<^verbatim>\<open>Decimal.sqrt\<close>:
  \<^verbatim>\<open>while True: q = c//n; if n <= q: break; else: n = n + q >> 1\<close>.
\<close>

function isqrt_newton :: "nat \<Rightarrow> nat \<Rightarrow> nat" where
  "isqrt_newton c n =
     (let q = c div n in if n \<le> q then n else isqrt_newton c ((n + q) div 2))"
  by pat_completeness auto
termination
  by (relation "measure (\<lambda>(c, n). n)") auto

declare isqrt_newton.simps [simp del]

text \<open>
  \<^verbatim>\<open>Decimal.sqrt\<close>: the integer square root of the coefficient scaled to \<open>prec + 1\<close>
  base-100 digits, with the same last-digit correction as the division.
\<close>

definition dec_sqrt :: "dcontext \<Rightarrow> decimal \<Rightarrow> error + decimal" where
  "dec_sqrt ctx x =
     (if dint x = 0 then dec_fix ctx \<lparr>dsign = dsign x, dint = 0, dexp = dexp x div 2\<rparr>
      else if dsign x then Inl InvalidOperation
      else
        let p = prec ctx + 1;
            odd_exp = (dexp x mod 2 = 1);
            c = (if odd_exp then dint x * 10 else dint x);
            l = (if odd_exp then ndigits (dint x) div 2 + 1 else (ndigits (dint x) + 1) div 2);
            shift = int p - int l;
            c' = (if 0 \<le> shift then c * 100 ^ nat shift else c div 100 ^ nat (- shift));
            exact0 = (0 \<le> shift \<or> c mod 100 ^ nat (- shift) = 0);
            e = dexp x div 2 - shift;
            n = isqrt_newton c' (10 ^ p);
            exact = (exact0 \<and> n * n = c')
        in if exact
           then dec_fix ctx \<lparr>dsign = False,
                          dint = (if 0 \<le> shift then n div 10 ^ nat shift else n * 10 ^ nat (- shift)),
                          dexp = e + shift\<rparr>
           else dec_fix ctx \<lparr>dsign = False, dint = (if n mod 5 = 0 then n + 1 else n), dexp = e\<rparr>)"

text \<open>
  \<^verbatim>\<open>x ** n\<close> for a positive Python integer \<open>n\<close>.  CPython's \<^verbatim>\<open>decimal\<close> is the C
  implementation (libmpdec), whose integer power is square-and-multiply in a work
  context of precision \<open>prec + digits(n) + 2\<close>, followed by one rounding to the
  context: \<^verbatim>\<open>x ** 2\<close> is \<open>x * x\<close> rounded to \<open>prec + 3\<close> digits and then to \<open>prec\<close>.
  A zero base gives \<open>0\<close> and a base of magnitude one gives \<open>1\<close> with the exponent
  \<open>max (n * exp) (1 - prec)\<close>.  The loop stops once a product has underflowed to zero.
\<close>

fun bits_msb :: "nat \<Rightarrow> bool list" where
  "bits_msb n = (if n = 0 then [] else bits_msb (n div 2) @ [odd n])"

declare bits_msb.simps [simp del]

fun pow_uint :: "dcontext \<Rightarrow> decimal \<Rightarrow> bool list \<Rightarrow> decimal \<Rightarrow> error + decimal" where
  "pow_uint w base [] r = Inr r"
| "pow_uint w base (b # bs) r =
     ebind (dec_mul w r r) (\<lambda>r1.
     ebind (if b then dec_mul w r1 base else Inr r1) (\<lambda>r2.
     if dint r2 = 0 then Inr r2 else pow_uint w base bs r2))"

definition work_context :: "dcontext \<Rightarrow> nat \<Rightarrow> dcontext" where
  "work_context ctx n = ctx\<lparr>prec := prec ctx + ndigits n + 2\<rparr>"

definition dec_pow :: "dcontext \<Rightarrow> decimal \<Rightarrow> nat \<Rightarrow> error + decimal" where
  "dec_pow ctx x n =
     (let resultsign = (dsign x \<and> odd n) in
      if dint x = 0 then (if n = 0 then Inl InvalidOperation
                          else Inr \<lparr>dsign = resultsign, dint = 0, dexp = 0\<rparr>)
      else if n = 0 then Inr \<lparr>dsign = False, dint = 1, dexp = 0\<rparr>
      else if dexp x \<le> 0 \<and> dint x = 10 ^ nat (- dexp x) then
        (let shift = min (n * nat (- dexp x)) (prec ctx - 1)
         in Inr \<lparr>dsign = resultsign, dint = 10 ^ shift, dexp = - int shift\<rparr>)
      else
        let w = work_context ctx n;
            base = x\<lparr>dsign := False\<rparr>
        in ebind (pow_uint w base (tl (bits_msb n)) base) (\<lambda>r.
           dec_fix ctx (r\<lparr>dsign := resultsign\<rparr>)))"

text \<open>\<^verbatim>\<open>int(x)\<close>: \<^verbatim>\<open>Decimal.__int__\<close> drops the fractional digits.\<close>

definition dec_int :: "decimal \<Rightarrow> int" where
  "dec_int x =
     (let sg = (if dsign x then - 1 else 1) in
      if 0 \<le> dexp x then sg * int (dint x) * 10 ^ nat (dexp x)
      else sg * int (dint x div 10 ^ nat (- dexp x)))"


section \<open>The script\<close>

text \<open>
  The script is translated once, over the arithmetic it computes with: the operations
  it applies to its numbers.  \<open>decimal_arith\<close> is the \<^verbatim>\<open>Decimal\<close> arithmetic of a
  context; \<open>real_arith\<close> is exact arithmetic on the reals with the same errors for a
  zero divisor and a negative radicand.
\<close>

record 'a arith =
  ar_const :: "nat \<Rightarrow> 'a"
  ar_add :: "'a \<Rightarrow> 'a \<Rightarrow> error + 'a"
  ar_sub :: "'a \<Rightarrow> 'a \<Rightarrow> error + 'a"
  ar_mul :: "'a \<Rightarrow> 'a \<Rightarrow> error + 'a"
  ar_div :: "'a \<Rightarrow> 'a \<Rightarrow> error + 'a"
  ar_sqrt :: "'a \<Rightarrow> error + 'a"
  ar_pow :: "'a \<Rightarrow> nat \<Rightarrow> error + 'a"
  ar_int :: "'a \<Rightarrow> int"

definition decimal_arith :: "dcontext \<Rightarrow> decimal arith" where
  "decimal_arith ctx =
     \<lparr>ar_const = Decimal, ar_add = dec_add ctx, ar_sub = dec_sub ctx, ar_mul = dec_mul ctx,
      ar_div = dec_div ctx, ar_sqrt = dec_sqrt ctx, ar_pow = dec_pow ctx, ar_int = dec_int\<rparr>"

text \<open>\<^verbatim>\<open>getcontext().prec = 200\<close> on the default context.\<close>

definition py_context :: dcontext where
  "py_context = \<lparr>prec = 200, Emax = 999999, Emin = - 999999\<rparr>"

definition py_arith :: "decimal arith" where
  "py_arith = decimal_arith py_context"

definition trunc_toward_zero :: "real \<Rightarrow> int" where
  "trunc_toward_zero x = (if 0 \<le> x then \<lfloor>x\<rfloor> else \<lceil>x\<rceil>)"

definition real_arith :: "real arith" where
  "real_arith =
     \<lparr>ar_const = real,
      ar_add = (\<lambda>x y. Inr (x + y)),
      ar_sub = (\<lambda>x y. Inr (x - y)),
      ar_mul = (\<lambda>x y. Inr (x * y)),
      ar_div = (\<lambda>x y. if y = 0 then (if x = 0 then Inl InvalidOperation else Inl DivisionByZero)
                         else Inr (x / y)),
      ar_sqrt = (\<lambda>x. if x < 0 then Inl InvalidOperation else Inr (sqrt x)),
      ar_pow = (\<lambda>x n. if x = 0 \<and> n = 0 then Inl InvalidOperation else Inr (x ^ n)),
      ar_int = trunc_toward_zero\<rparr>"

text \<open>\<^verbatim>\<open>SCALE_38 = Decimal(10) ** 38\<close>\<close>

definition SCALE_38 :: "'a arith \<Rightarrow> error + 'a" where
  "SCALE_38 A = ar_pow A (ar_const A 10) 38"

text \<open>Step 1: \<^verbatim>\<open>dSq = c * c + s * s\<close>, \<^verbatim>\<open>d = dSq.sqrt()\<close>.\<close>

definition step1 :: "'a arith \<Rightarrow> 'a \<Rightarrow> 'a \<Rightarrow> error + 'a \<times> 'a" where
  "step1 A c s =
     ebind (ar_mul A c c) (\<lambda>cc.
     ebind (ar_mul A s s) (\<lambda>ss.
     ebind (ar_add A cc ss) (\<lambda>dSq.
     ebind (ar_sqrt A dSq) (\<lambda>d.
     Inr (dSq, d)))))"

text \<open>
  Step 2: \<^verbatim>\<open>compute_tau(p)\<close>; the globals \<open>c\<close>, \<open>s\<close>, \<open>lam\<close>, \<open>d\<close> it reads are arguments.
  The operations are in Python's order of evaluation.
\<close>

definition compute_tau :: "'a arith \<Rightarrow> 'a \<Rightarrow> 'a \<Rightarrow> 'a \<Rightarrow> 'a \<Rightarrow> 'a \<Rightarrow> error + 'a \<times> 'a" where
  "compute_tau A c s lam d p =
     ebind (ar_div A c d) (\<lambda>c_over_d.
     ebind (ar_div A s d) (\<lambda>s_over_d.
     ebind (ar_mul A p s_over_d) (\<lambda>ps.
     ebind (ar_add A c_over_d ps) (\<lambda>a1.
     ebind (ar_pow A a1 2) (\<lambda>a1_sq.
     ebind (ar_pow A lam 2) (\<lambda>lam_sq.
     ebind (ar_div A a1_sq lam_sq) (\<lambda>term1.
     ebind (ar_mul A p c_over_d) (\<lambda>pc.
     ebind (ar_sub A pc s_over_d) (\<lambda>a2.
     ebind (ar_pow A a2 2) (\<lambda>term2.
     ebind (ar_add A term1 term2) (\<lambda>radicand.
     ebind (ar_sqrt A radicand) (\<lambda>root.
     ebind (ar_div A (ar_const A 1) root) (\<lambda>dFactor.
     ebind (ar_mul A p c) (\<lambda>pc'.
     ebind (ar_sub A pc' s) (\<lambda>x0.
     ebind (ar_mul A x0 dFactor) (\<lambda>tau_x.
     ebind (ar_mul A s p) (\<lambda>sp.
     ebind (ar_add A c sp) (\<lambda>y0.
     ebind (ar_mul A y0 dFactor) (\<lambda>y1.
     ebind (ar_div A y1 lam) (\<lambda>tau_y.
     Inr (tau_x, tau_y)))))))))))))))))))))"

text \<open>Step 3: the shape coefficients \<open>(u, v, w, z)\<close>.\<close>

definition shape_coefficients ::
  "'a arith \<Rightarrow> 'a \<Rightarrow> 'a \<Rightarrow> 'a \<times> 'a \<Rightarrow> 'a \<times> 'a \<Rightarrow> error + 'a \<times> 'a \<times> 'a \<times> 'a" where
  "shape_coefficients A c s tauAlpha tauBeta =
     (case (tauAlpha, tauBeta) of ((tauAlpha_x, tauAlpha_y), (tauBeta_x, tauBeta_y)) \<Rightarrow>
     ebind (ar_mul A s c) (\<lambda>sc.
     ebind (ar_sub A tauBeta_x tauAlpha_x) (\<lambda>dx.
     ebind (ar_mul A sc dx) (\<lambda>u.
     ebind (ar_mul A s s) (\<lambda>ss.
     ebind (ar_mul A ss tauBeta_y) (\<lambda>v1.
     ebind (ar_mul A c c) (\<lambda>cc.
     ebind (ar_mul A cc tauAlpha_y) (\<lambda>v2.
     ebind (ar_add A v1 v2) (\<lambda>v.
     ebind (ar_mul A s c) (\<lambda>sc'.
     ebind (ar_sub A tauBeta_y tauAlpha_y) (\<lambda>dy.
     ebind (ar_mul A sc' dy) (\<lambda>w.
     ebind (ar_mul A c c) (\<lambda>cc'.
     ebind (ar_mul A cc' tauBeta_x) (\<lambda>z1.
     ebind (ar_mul A s s) (\<lambda>ss'.
     ebind (ar_mul A ss' tauAlpha_x) (\<lambda>z2.
     ebind (ar_add A z1 z2) (\<lambda>z.
     Inr (u, v, w, z))))))))))))))))))"

text \<open>Step 4: \<^verbatim>\<open>to_int38(val)\<close> is \<^verbatim>\<open>int(val * SCALE_38)\<close>.\<close>

definition to_int38 :: "'a arith \<Rightarrow> 'a \<Rightarrow> 'a \<Rightarrow> error + int" where
  "to_int38 A scale val = ebind (ar_mul A val scale) (\<lambda>scaled. Inr (ar_int A scaled))"

record 'a derived =
  val_tauAlpha :: "'a \<times> 'a"
  val_tauBeta :: "'a \<times> 'a"
  val_uvwz :: "'a \<times> 'a \<times> 'a \<times> 'a"
  val_dSq :: 'a

record constants =
  tauAlpha_x_38 :: int
  tauAlpha_y_38 :: int
  tauBeta_x_38 :: int
  tauBeta_y_38 :: int
  u_38 :: int
  v_38 :: int
  w_38 :: int
  z_38 :: int
  dSq_38 :: int

definition derive :: "'a arith \<Rightarrow> 'a \<Rightarrow> 'a \<Rightarrow> 'a \<Rightarrow> 'a \<Rightarrow> 'a \<Rightarrow> error + 'a derived" where
  "derive A alpha beta c s lam =
     ebind (step1 A c s) (\<lambda>(dSq, d).
     ebind (compute_tau A c s lam d alpha) (\<lambda>tauAlpha.
     ebind (compute_tau A c s lam d beta) (\<lambda>tauBeta.
     ebind (shape_coefficients A c s tauAlpha tauBeta) (\<lambda>uvwz.
     Inr \<lparr>val_tauAlpha = tauAlpha, val_tauBeta = tauBeta, val_uvwz = uvwz, val_dSq = dSq\<rparr>))))"

definition scale_all :: "'a arith \<Rightarrow> 'a \<Rightarrow> 'a derived \<Rightarrow> error + constants" where
  "scale_all A scale r =
     (case val_uvwz r of (u, v, w, z) \<Rightarrow>
     ebind (to_int38 A scale (fst (val_tauAlpha r))) (\<lambda>k1.
     ebind (to_int38 A scale (snd (val_tauAlpha r))) (\<lambda>k2.
     ebind (to_int38 A scale (fst (val_tauBeta r))) (\<lambda>k3.
     ebind (to_int38 A scale (snd (val_tauBeta r))) (\<lambda>k4.
     ebind (to_int38 A scale u) (\<lambda>k5.
     ebind (to_int38 A scale v) (\<lambda>k6.
     ebind (to_int38 A scale w) (\<lambda>k7.
     ebind (to_int38 A scale z) (\<lambda>k8.
     ebind (to_int38 A scale (val_dSq r)) (\<lambda>k9.
     Inr \<lparr>tauAlpha_x_38 = k1, tauAlpha_y_38 = k2, tauBeta_x_38 = k3, tauBeta_y_38 = k4,
          u_38 = k5, v_38 = k6, w_38 = k7, z_38 = k8, dSq_38 = k9\<rparr>))))))))))"

text \<open>The nine constants the script prints, from the five parameters.\<close>

definition script :: "'a arith \<Rightarrow> 'a \<Rightarrow> 'a \<Rightarrow> 'a \<Rightarrow> 'a \<Rightarrow> 'a \<Rightarrow> error + constants" where
  "script A alpha beta c s lam =
     ebind (SCALE_38 A) (\<lambda>scale.
     ebind (derive A alpha beta c s lam) (\<lambda>r.
     scale_all A scale r))"

text \<open>
  The sanity section: \<^verbatim>\<open>(tau_x**2 + (tau_y * lam)**2).sqrt()\<close> for both points, and
  \<open>dSq\<close> again.
\<close>

definition sanity_norm :: "'a arith \<Rightarrow> 'a \<Rightarrow> 'a \<times> 'a \<Rightarrow> error + 'a" where
  "sanity_norm A lam tau =
     ebind (ar_pow A (fst tau) 2) (\<lambda>x2.
     ebind (ar_mul A (snd tau) lam) (\<lambda>yl.
     ebind (ar_pow A yl 2) (\<lambda>y2.
     ebind (ar_add A x2 y2) (\<lambda>n2.
     ar_sqrt A n2))))"

definition sanity_checks :: "'a arith \<Rightarrow> 'a \<Rightarrow> 'a \<Rightarrow> 'a \<Rightarrow> 'a \<Rightarrow> 'a \<Rightarrow> error + 'a \<times> 'a \<times> 'a" where
  "sanity_checks A alpha beta c s lam =
     ebind (derive A alpha beta c s lam) (\<lambda>r.
     ebind (sanity_norm A lam (val_tauAlpha r)) (\<lambda>na.
     ebind (sanity_norm A lam (val_tauBeta r)) (\<lambda>nb.
     Inr (na, nb, val_dSq r))))"

text \<open>
  The parameters hard-coded in the source, each an 18-decimal integer divided by
  \<open>10^18\<close>, and the run of the script on them.
\<close>

definition with_hard_coded ::
  "'a arith \<Rightarrow> ('a \<Rightarrow> 'a \<Rightarrow> 'a \<Rightarrow> 'a \<Rightarrow> 'a \<Rightarrow> error + 'b) \<Rightarrow> error + 'b" where
  "with_hard_coded A f =
     ebind (ar_div A (ar_const A 1035905000000000000) (ar_const A 1000000000000000000)) (\<lambda>alpha.
     ebind (ar_div A (ar_const A 1144947000000000000) (ar_const A 1000000000000000000)) (\<lambda>beta.
     ebind (ar_div A (ar_const A 1000000000000000000) (ar_const A 1000000000000000000)) (\<lambda>c.
     ebind (ar_div A (ar_const A 0) (ar_const A 1000000000000000000)) (\<lambda>s.
     ebind (ar_div A (ar_const A 50000000000000000000) (ar_const A 1000000000000000000)) (\<lambda>lam.
     f alpha beta c s lam)))))"

definition main :: "error + constants" where
  "main = with_hard_coded py_arith (script py_arith)"

definition main_sanity :: "error + decimal \<times> decimal \<times> decimal" where
  "main_sanity = with_hard_coded py_arith (sanity_checks py_arith)"

section \<open>Notions the properties are stated with\<close>

text \<open>The number a finite \<^verbatim>\<open>Decimal\<close> stands for.\<close>

definition dec_val :: "decimal \<Rightarrow> real" where
  "dec_val x = (if dsign x then - 1 else 1) * real (dint x) * 10 powi dexp x"

text \<open>The range of Solidity's \<^verbatim>\<open>int256\<close>.\<close>

definition in_int256 :: "int \<Rightarrow> bool" where
  "in_int256 n \<longleftrightarrow> - (2 ^ 255) \<le> n \<and> n \<le> 2 ^ 255 - 1"

text \<open>
  A value as the context's arithmetic returns it: at most \<open>prec\<close> digits, and an
  exponent not below \<open>Etiny\<close>.
\<close>

definition context_value :: "dcontext \<Rightarrow> decimal \<Rightarrow> bool" where
  "context_value ctx x \<longleftrightarrow> ndigits (dint x) \<le> prec ctx \<and> Etiny ctx \<le> dexp x"

text \<open>The nine values that step 4 passes to \<^verbatim>\<open>to_int38\<close>, in the order of the source.\<close>

definition scaled_values :: "'a derived \<Rightarrow> 'a list" where
  "scaled_values r =
     (case val_uvwz r of (u, v, w, z) \<Rightarrow>
        [fst (val_tauAlpha r), snd (val_tauAlpha r), fst (val_tauBeta r), snd (val_tauBeta r),
         u, v, w, z, val_dSq r])"

text \<open>
  The reference algorithm of the specification, written as the formulas it states.
  An operand is evaluated before the operation that uses it, left operand first.
\<close>

definition lift1 :: "('a \<Rightarrow> error + 'a) \<Rightarrow> error + 'a \<Rightarrow> error + 'a" where
  "lift1 f m = ebind m f"

definition lift2 :: "('a \<Rightarrow> 'a \<Rightarrow> error + 'a) \<Rightarrow> error + 'a \<Rightarrow> error + 'a \<Rightarrow> error + 'a" where
  "lift2 f m n = ebind m (\<lambda>x. ebind n (\<lambda>y. f x y))"

text \<open>\<open>dFactor = 1 / sqrt(((c/d + p*s/d)^2) / lambda^2 + (p*c/d - s/d)^2)\<close>\<close>

definition spec_dFactor :: "'a arith \<Rightarrow> 'a \<Rightarrow> 'a \<Rightarrow> 'a \<Rightarrow> 'a \<Rightarrow> 'a \<Rightarrow> error + 'a" where
  "spec_dFactor A c s lam d p =
     lift2 (ar_div A) (Inr (ar_const A 1))
       (lift1 (ar_sqrt A)
          (lift2 (ar_add A)
             (lift2 (ar_div A)
                (lift1 (\<lambda>x. ar_pow A x 2)
                   (lift2 (ar_add A) (ar_div A c d) (lift2 (ar_mul A) (Inr p) (ar_div A s d))))
                (ar_pow A lam 2))
             (lift1 (\<lambda>x. ar_pow A x 2)
                (lift2 (ar_sub A) (lift2 (ar_mul A) (Inr p) (ar_div A c d)) (ar_div A s d)))))"

text \<open>\<open>tau.x = (p*c - s) * dFactor\<close> and \<open>tau.y = (c + s*p) * dFactor / lambda\<close>\<close>

definition spec_tau :: "'a arith \<Rightarrow> 'a \<Rightarrow> 'a \<Rightarrow> 'a \<Rightarrow> 'a \<Rightarrow> 'a \<Rightarrow> error + 'a \<times> 'a" where
  "spec_tau A c s lam d p =
     ebind (spec_dFactor A c s lam d p) (\<lambda>dFactor.
     ebind (lift2 (ar_mul A) (lift2 (ar_sub A) (ar_mul A p c) (Inr s)) (Inr dFactor)) (\<lambda>tau_x.
     ebind (lift2 (ar_div A)
              (lift2 (ar_mul A) (lift2 (ar_add A) (Inr c) (ar_mul A s p)) (Inr dFactor))
              (Inr lam)) (\<lambda>tau_y.
     Inr (tau_x, tau_y))))"

text \<open>
  \<open>u = s*c*(tauBeta.x - tauAlpha.x)\<close>, \<open>v = s^2*tauBeta.y + c^2*tauAlpha.y\<close>,
  \<open>w = s*c*(tauBeta.y - tauAlpha.y)\<close>, \<open>z = c^2*tauBeta.x + s^2*tauAlpha.x\<close>,
  the squares of \<open>c\<close> and \<open>s\<close> being the products \<open>c*c\<close> and \<open>s*s\<close>.
\<close>

definition spec_shape ::
  "'a arith \<Rightarrow> 'a \<Rightarrow> 'a \<Rightarrow> 'a \<times> 'a \<Rightarrow> 'a \<times> 'a \<Rightarrow> error + 'a \<times> 'a \<times> 'a \<times> 'a" where
  "spec_shape A c s tauAlpha tauBeta =
     ebind (lift2 (ar_mul A) (ar_mul A s c) (ar_sub A (fst tauBeta) (fst tauAlpha))) (\<lambda>u.
     ebind (lift2 (ar_add A)
              (lift2 (ar_mul A) (ar_mul A s s) (Inr (snd tauBeta)))
              (lift2 (ar_mul A) (ar_mul A c c) (Inr (snd tauAlpha)))) (\<lambda>v.
     ebind (lift2 (ar_mul A) (ar_mul A s c) (ar_sub A (snd tauBeta) (snd tauAlpha))) (\<lambda>w.
     ebind (lift2 (ar_add A)
              (lift2 (ar_mul A) (ar_mul A c c) (Inr (fst tauBeta)))
              (lift2 (ar_mul A) (ar_mul A s s) (Inr (fst tauAlpha)))) (\<lambda>z.
     Inr (u, v, w, z)))))"

section \<open>Evaluation rules for the decimal operations\<close>

lemma ndigits_eqI:
  "0 < L \<Longrightarrow> 10 ^ (L - 1) \<le> n \<Longrightarrow> n < 10 ^ L \<Longrightarrow> ndigits n = L"
proof (induction L arbitrary: n)
  case 0
  then show ?case by simp
next
  case (Suc L)
  show ?case
  proof (cases "L = 0")
    case True
    with Suc.prems show ?thesis by (simp add: ndigits.simps)
  next
    case False
    then obtain L' where L: "L = Suc L'" by (cases L) auto
    from Suc.prems L have ge: "10 * 10 ^ L' \<le> n" by simp
    moreover have "(1::nat) \<le> 10 ^ L'" by simp
    ultimately have n10: "\<not> n < 10" by linarith
    from ge have "10 ^ L' \<le> n div 10" by simp
    moreover from Suc.prems have "n div 10 < 10 ^ L" by (simp add: less_mult_imp_div_less mult.commute)
    ultimately have "ndigits (n div 10) = L" using Suc.IH[of "n div 10"] L by simp
    with n10 show ?thesis by (subst ndigits.simps) simp
  qed
qed

lemma ndigits_pos: "0 < ndigits n"
  by (subst ndigits.simps) simp

lemma ndigits_upper: "n < 10 ^ ndigits n"
proof (induction n rule: ndigits.induct)
  case (1 n)
  show ?case
  proof (cases "n < 10")
    case True
    then show ?thesis by (subst ndigits.simps) simp
  next
    case False
    with 1 have "n div 10 < 10 ^ ndigits (n div 10)" by simp
    then have "n < 10 * 10 ^ ndigits (n div 10)" by simp
    with False show ?thesis by (subst ndigits.simps) simp
  qed
qed

lemma ndigits_lower: "n \<noteq> 0 \<Longrightarrow> 10 ^ (ndigits n - 1) \<le> n"
proof (induction n rule: ndigits.induct)
  case (1 n)
  show ?case
  proof (cases "n < 10")
    case True
    with 1 show ?thesis by (subst ndigits.simps) simp
  next
    case False
    then have "n div 10 \<noteq> 0" by simp
    with 1 False have "10 ^ (ndigits (n div 10) - 1) \<le> n div 10" by simp
    then have "10 * 10 ^ (ndigits (n div 10) - 1) \<le> n" by simp
    moreover obtain m where "ndigits (n div 10) = Suc m"
      using ndigits_pos[of "n div 10"] by (cases "ndigits (n div 10)") auto
    ultimately have "10 ^ ndigits (n div 10) \<le> n" by simp
    with False show ?thesis by (subst ndigits.simps) simp
  qed
qed

lemma ndigits_le: "0 < p \<Longrightarrow> n < 10 ^ p \<Longrightarrow> ndigits n \<le> p"
proof (cases "n = 0")
  case True
  assume "0 < p"
  with True show ?thesis by (simp add: ndigits.simps)
next
  case False
  assume "n < 10 ^ p"
  with ndigits_lower[OF False] have "(10::nat) ^ (ndigits n - 1) < 10 ^ p"
    by (rule le_less_trans)
  then have "ndigits n - 1 < p" by simp
  then show ?thesis by simp
qed

lemma py_context_simps:
  "prec py_context = 200" "Emax py_context = 999999" "Emin py_context = - 999999"
  "Etiny py_context = - 1000198" "Etop py_context = 999800"
  by (simp_all add: py_context_def Etiny_def Etop_def)

lemma dec_fix_zero:
  "dec_fix ctx \<lparr>dsign = sg, dint = 0, dexp = e\<rparr> =
     Inr \<lparr>dsign = sg, dint = 0, dexp = min (max e (Etiny ctx)) (Emax ctx)\<rparr>"
  by (simp add: dec_fix_def)

lemma dec_fix_id:
  assumes "c \<noteq> 0" and "ndigits c = L" and "L \<le> prec ctx" and "Etiny ctx \<le> e"
    and "int L + e - int (prec ctx) \<le> Etop ctx"
  shows "dec_fix ctx \<lparr>dsign = sg, dint = c, dexp = e\<rparr> = Inr \<lparr>dsign = sg, dint = c, dexp = e\<rparr>"
  using assms by (simp add: dec_fix_def Let_def)

lemma round_up_half_even_iff:
  assumes "0 < k" and "c = q * 10 ^ k + r" and "r < 10 ^ k"
  shows "round_up_half_even c k \<longleftrightarrow> 10 ^ k < 2 * r \<or> (2 * r = 10 ^ k \<and> odd q)"
proof -
  obtain k' where k: "k = Suc k'" using assms(1) by (cases k) auto
  have q: "c div 10 ^ k = q" using assms(2,3) by simp
  have r: "c mod 10 ^ k = r" using assms(2,3) by simp
  have h: "2 * (5 * 10 ^ (k - 1)) = (10::nat) ^ k" by (simp add: k)
  show ?thesis
    unfolding round_up_half_even_def Let_def q r using h by auto
qed

lemma dec_fix_round:
  assumes nd: "ndigits c = L" and lt: "prec ctx < L" and k: "k = L - prec ctx"
    and lo: "Etiny ctx \<le> e + int k" and hi: "e + int k \<le> Etop ctx"
    and c: "c = q * 10 ^ k + r" and r: "r < 10 ^ k"
    and q': "q' = (if 10 ^ k < 2 * r \<or> (2 * r = 10 ^ k \<and> odd q) then q + 1 else q)"
    and nocarry: "q' < 10 ^ prec ctx" and ppos: "0 < prec ctx"
  shows "dec_fix ctx \<lparr>dsign = sg, dint = c, dexp = e\<rparr> = Inr \<lparr>dsign = sg, dint = q', dexp = e + int k\<rparr>"
proof -
  have kpos: "0 < k" using lt k by simp
  have c0: "c \<noteq> 0"
  proof
    assume "c = 0"
    then have "ndigits c = 1" by (simp add: ndigits.simps)
    with nd lt ppos show False by simp
  qed
  have e0: "int (ndigits c) + e - int (prec ctx) = e + int k" using nd k lt by simp
  have up: "round_up_half_even c k \<longleftrightarrow> 10 ^ k < 2 * r \<or> (2 * r = 10 ^ k \<and> odd q)"
    by (rule round_up_half_even_iff[OF kpos c r])
  have qd: "c div 10 ^ k = q" using c r by simp
  have ndq: "ndigits q' \<le> prec ctx" by (rule ndigits_le[OF ppos nocarry])
  have dg: "\<not> int L + e - (e + int k) < 0" using k lt by simp
  show ?thesis
  proof (cases "10 ^ k < 2 * r \<or> (2 * r = 10 ^ k \<and> odd q)")
    case True
    with q' have eq: "q' = q + 1" by simp
    from True up have u: "round_up_half_even c k" by simp
    from ndq eq have nc: "\<not> prec ctx < ndigits (q + 1)" by simp
    show ?thesis
      unfolding dec_fix_def Let_def
      using c0 e0 lo hi kpos u qd dg nd nc eq
      by (simp add: not_less)
  next
    case False
    with q' have eq: "q' = q" by simp
    from False up have u: "\<not> round_up_half_even c k" by simp
    show ?thesis
      unfolding dec_fix_def Let_def
      using c0 e0 lo hi kpos u qd dg nd eq
      by (simp add: not_less)
  qed
qed

lemma div_mod_eqI:
  fixes n :: nat
  assumes "n = m * a + b" and "b < m"
  shows "n div m = a" and "n mod m = b"
  using assms by simp_all

lemma strip_zeros_pow:
  assumes "e + int j \<le> ideal" and "c mod 10 \<noteq> 0 \<or> e + int j = ideal"
  shows "strip_zeros (c * 10 ^ j) e ideal = (c, e + int j)"
  using assms
proof (induction j arbitrary: e)
  case 0
  then show ?case by (subst strip_zeros.simps) auto
next
  case (Suc j)
  have "strip_zeros (c * 10 ^ Suc j) e ideal = strip_zeros (c * 10 ^ j) (e + 1) ideal"
    using Suc.prems(1) by (subst strip_zeros.simps) simp
  also have "\<dots> = (c, e + 1 + int j)"
  proof (rule Suc.IH)
    show "e + 1 + int j \<le> ideal" using Suc.prems(1) by simp
    show "c mod 10 \<noteq> 0 \<or> e + 1 + int j = ideal" using Suc.prems(2) by auto
  qed
  finally show ?case by simp
qed

lemma isqrt_newton_eq:
  assumes "r * r \<le> c" and "c < (r + 1) * (r + 1)" and "r \<le> n"
  shows "isqrt_newton c n = r"
  using assms
proof (induction c n rule: isqrt_newton.induct)
  case (1 c n)
  note lo = 1(2) and hi = 1(3) and rn = 1(4)
  show ?case
  proof (cases "n \<le> c div n")
    case True
    have "n \<le> r"
    proof (rule ccontr)
      assume "\<not> n \<le> r"
      then have h: "r + 1 \<le> n" by simp
      have "(r + 1) * (r + 1) \<le> n * n" by (rule mult_le_mono[OF h h])
      also have "n * n \<le> n * (c div n)" using True by (rule mult_le_mono2)
      also have "\<dots> \<le> c" by (rule times_div_less_eq_dividend)
      finally have "(r + 1) * (r + 1) \<le> c" .
      then show False using hi by (meson leD)
    qed
    with rn have "n = r" by simp
    with True show ?thesis by (subst isqrt_newton.simps) (simp add: Let_def)
  next
    case False
    then have lt: "c div n < n" by simp
    then have npos: "0 < n" by (cases n) auto
    have ge: "r \<le> (n + c div n) div 2"
    proof (rule ccontr)
      assume "\<not> r \<le> (n + c div n) div 2"
      then have "(n + c div n) div 2 < r" by simp
      then have a: "n + c div n < 2 * r" by simp
      have "c < n + n * (c div n)"
        using npos by (rule dividend_less_times_div)
      then have "c < n * (c div n + 1)" by simp
      also have "\<dots> \<le> n * (2 * r - n)"
        using a by (intro mult_le_mono2) simp
      also have "\<dots> \<le> r * r"
      proof -
        obtain t where t: "n = r + t" using rn le_Suc_ex by blast
        from a t have "t \<le> r" by simp
        then obtain u where u: "r = t + u" using le_Suc_ex by blast
        have "n * (2 * r - n) = (t + u + t) * u" by (simp add: t u)
        also have "\<dots> \<le> (t + u) * (t + u)"
          by (simp add: add_mult_distrib add_mult_distrib2)
        also have "\<dots> = r * r" by (simp add: u)
        finally show ?thesis .
      qed
      finally have "c < r * r" .
      then show False using lo by (meson leD)
    qed
    have "isqrt_newton c ((n + c div n) div 2) = r"
      by (rule 1(1)[OF refl False lo hi ge])
    with False show ?thesis by (subst isqrt_newton.simps) (simp add: Let_def)
  qed
qed

lemma dec_fix_keep:
  assumes "ndigits c = L" and "c \<noteq> 0" and "L \<le> prec ctx" and "Etiny ctx \<le> e"
    and "int L + e - int (prec ctx) \<le> Etop ctx"
  shows "dec_fix ctx \<lparr>dsign = sg, dint = c, dexp = e\<rparr> = Inr \<lparr>dsign = sg, dint = c, dexp = e\<rparr>"
  using assms by (simp add: dec_fix_def Let_def)

lemma dec_fix_roundI:
  assumes "ndigits c = L" and "prec ctx < L" and "k = L - prec ctx"
    and "Etiny ctx \<le> e'" and "e' \<le> Etop ctx" and "e' = e + int k"
    and "c = q * 10 ^ k + r" and "r < 10 ^ k"
    and "q' = (if 10 ^ k < 2 * r \<or> (2 * r = 10 ^ k \<and> odd q) then q + 1 else q)"
    and "q' < 10 ^ prec ctx" and "0 < prec ctx"
  shows "dec_fix ctx \<lparr>dsign = sg, dint = c, dexp = e\<rparr> = Inr \<lparr>dsign = sg, dint = q', dexp = e'\<rparr>"
  using dec_fix_round[of c L ctx k e q r q' sg] assms by simp

lemma dec_mulI:
  assumes "dint x * dint y = P"
    and "dec_fix ctx \<lparr>dsign = (dsign x \<noteq> dsign y), dint = P, dexp = dexp x + dexp y\<rparr> = res"
  shows "dec_mul ctx x y = res"
  using assms by (simp add: dec_mul_def)

lemma dec_div_inexactI:
  assumes "cx \<noteq> 0" and "cy \<noteq> 0" and "ndigits cx = Lx" and "ndigits cy = Ly"
    and "shift = Ly + prec ctx + 1 - Lx" and "Lx \<le> Ly + prec ctx + 1"
    and "cx * 10 ^ shift = cy * coeff + rem" and "rem < cy" and "rem \<noteq> 0"
    and "coeff = 5 * a + b" and "b < 5"
    and "coeff' = (if b = 0 then coeff + 1 else coeff)"
    and "dec_fix ctx \<lparr>dsign = (sx \<noteq> sy), dint = coeff', dexp = ex - ey - int shift\<rparr> = res"
  shows "dec_div ctx \<lparr>dsign = sx, dint = cx, dexp = ex\<rparr> \<lparr>dsign = sy, dint = cy, dexp = ey\<rparr> = res"
proof -
  have sh: "int (ndigits cy) - int (ndigits cx) + int (prec ctx) + 1 = int shift"
    using assms(3-6) by simp
  have d: "cx * 10 ^ shift div cy = coeff" and m: "cx * 10 ^ shift mod cy = rem"
    using assms(7,8) by simp_all
  have m5: "coeff mod 5 = b" using assms(10,11) by simp
  have c5: "(if coeff mod 5 = 0 then coeff + 1 else coeff) = coeff'"
    unfolding m5 assms(12) ..
  have nn: "nat (int shift) = shift" by simp
  have ns: "0 \<le> int shift" by simp
  show ?thesis
    unfolding dec_div_def Let_def decimal.select_convs sh
    by (simp only: ns nn if_False if_True not_False_eq_True d m c5 assms(1,2,9,13))
qed

lemma dec_div_exactI:
  assumes "cx \<noteq> 0" and "cy \<noteq> 0" and "ndigits cx = Lx" and "ndigits cy = Ly"
    and "shift = Ly + prec ctx + 1 - Lx" and "Lx \<le> Ly + prec ctx + 1"
    and "cx * 10 ^ shift = cy * (c' * 10 ^ j)"
    and "j \<le> shift" and "c' mod 10 \<noteq> 0 \<or> j = shift"
    and "e' = ex - ey - int shift + int j"
    and "dec_fix ctx \<lparr>dsign = (sx \<noteq> sy), dint = c', dexp = e'\<rparr> = res"
  shows "dec_div ctx \<lparr>dsign = sx, dint = cx, dexp = ex\<rparr> \<lparr>dsign = sy, dint = cy, dexp = ey\<rparr> = res"
proof -
  have sh: "int (ndigits cy) - int (ndigits cx) + int (prec ctx) + 1 = int shift"
    using assms(3-6) by simp
  have d: "cx * 10 ^ shift div cy = c' * 10 ^ j" and m: "cx * 10 ^ shift mod cy = 0"
    using assms(2,7) by simp_all
  have st: "strip_zeros (c' * 10 ^ j) (ex - ey - int shift) (ex - ey) = (c', e')"
    unfolding assms(10) using assms(8,9) by (intro strip_zeros_pow) auto
  have nn: "nat (int shift) = shift" by simp
  have ns: "0 \<le> int shift" by simp
  show ?thesis
    unfolding dec_div_def Let_def decimal.select_convs sh
    by (simp only: ns nn if_False if_True not_True_eq_False d m st prod.case assms(1,2,11) refl)
qed

lemma dec_sqrt_inexactI:
  assumes "cx \<noteq> 0" and "ndigits cx = L"
    and "c = (if ex mod 2 = 1 then cx * 10 else cx)"
    and "l = (if ex mod 2 = 1 then L div 2 + 1 else (L + 1) div 2)"
    and "shift = prec ctx + 1 - l" and "l \<le> prec ctx + 1"
    and "c * 100 ^ shift = n * n + rem" and "rem \<le> 2 * n" and "rem \<noteq> 0"
    and "n \<le> 10 ^ (prec ctx + 1)"
    and "n = 5 * a + b" and "b < 5"
    and "n' = (if b = 0 then n + 1 else n)"
    and "dec_fix ctx \<lparr>dsign = False, dint = n', dexp = ex div 2 - int shift\<rparr> = res"
  shows "dec_sqrt ctx \<lparr>dsign = False, dint = cx, dexp = ex\<rparr> = res"
proof -
  have sh: "int (prec ctx + 1) - int l = int shift" using assms(5,6) by simp
  have lo: "n * n \<le> c * 100 ^ shift" using assms(7) by simp
  have hi: "c * 100 ^ shift < (n + 1) * (n + 1)" using assms(7,8) by simp
  have rt: "isqrt_newton (c * 100 ^ shift) (10 ^ (prec ctx + 1)) = n"
    by (rule isqrt_newton_eq[OF lo hi assms(10)])
  have ne: "n * n \<noteq> c * 100 ^ shift" using assms(7,9) by simp
  have m5: "n mod 5 = b" using assms(11,12) by simp
  have c5: "(if n mod 5 = 0 then n + 1 else n) = n'"
    unfolding m5 assms(13) ..
  have cc: "(if ex mod 2 = 1 then cx * 10 else cx) = c" using assms(3) by simp
  have ll: "(if ex mod 2 = 1 then ndigits cx div 2 + 1 else (ndigits cx + 1) div 2) = l"
    using assms(2,4) by simp
  have nn: "nat (int shift) = shift" by simp
  have ns: "0 \<le> int shift" by simp
  show ?thesis
    unfolding dec_sqrt_def Let_def decimal.select_convs cc ll sh nn
    using assms(1) by (simp only: ns if_False if_True simp_thms rt ne c5 assms(14))
qed

lemma dec_sqrt_exactI:
  assumes "cx \<noteq> 0" and "ndigits cx = L"
    and "c = (if ex mod 2 = 1 then cx * 10 else cx)"
    and "l = (if ex mod 2 = 1 then L div 2 + 1 else (L + 1) div 2)"
    and "shift = prec ctx + 1 - l" and "l \<le> prec ctx + 1"
    and "c = m * m"
    and "m * 10 ^ shift \<le> 10 ^ (prec ctx + 1)"
    and "dec_fix ctx \<lparr>dsign = False, dint = m, dexp = ex div 2\<rparr> = res"
  shows "dec_sqrt ctx \<lparr>dsign = False, dint = cx, dexp = ex\<rparr> = res"
proof -
  define n where "n = m * 10 ^ shift"
  have sh: "int (prec ctx + 1) - int l = int shift" using assms(5,6) by simp
  have "(100::nat) ^ shift = 10 ^ shift * 10 ^ shift"
    by (simp add: power_mult_distrib[symmetric])
  then have sq: "c * 100 ^ shift = n * n"
    unfolding n_def assms(7) by simp
  have lo: "n * n \<le> c * 100 ^ shift" using sq by simp
  have hi: "c * 100 ^ shift < (n + 1) * (n + 1)" using sq by simp
  have rt: "isqrt_newton (c * 100 ^ shift) (10 ^ (prec ctx + 1)) = n"
    by (rule isqrt_newton_eq[OF lo hi]) (use assms(8) in \<open>simp add: n_def\<close>)
  have dv: "n div 10 ^ shift = m" by (simp add: n_def)
  have cc: "(if ex mod 2 = 1 then cx * 10 else cx) = c" using assms(3) by simp
  have ll: "(if ex mod 2 = 1 then ndigits cx div 2 + 1 else (ndigits cx + 1) div 2) = l"
    using assms(2,4) by simp
  have nn: "nat (int shift) = shift" by simp
  have ns: "0 \<le> int shift" by simp
  have ee: "ex div 2 - int shift + int shift = ex div 2" by simp
  have sq': "n * n = c * 100 ^ shift" using sq by simp
  show ?thesis
    unfolding dec_sqrt_def Let_def decimal.select_convs cc ll sh nn
    using assms(1) by (simp only: ns if_False if_True simp_thms rt sq' dv ee assms(9))
qed

lemma bits_msb_2: "bits_msb 2 = [True, False]"
  by (simp add: bits_msb.simps)

lemma bits_msb_38: "bits_msb 38 = [True, False, False, True, True, False]"
  by (simp add: bits_msb.simps)

lemma dec_pow2I:
  assumes "c \<noteq> 0" and "\<not> (e \<le> 0 \<and> c = 10 ^ nat (- e))"
    and "dec_mul (work_context ctx 2) \<lparr>dsign = False, dint = c, dexp = e\<rparr>
           \<lparr>dsign = False, dint = c, dexp = e\<rparr> = Inr r1"
    and "dec_fix ctx (r1\<lparr>dsign := False\<rparr>) = res"
  shows "dec_pow ctx \<lparr>dsign = sg, dint = c, dexp = e\<rparr> 2 = res"
  unfolding dec_pow_def Let_def using assms
  by (auto simp add: bits_msb_2 ebind_def)

lemma dec_intI:
  assumes "e < 0" and "c = 10 ^ nat (- e) * n + r" and "r < 10 ^ nat (- e)"
    and "res = (if sg then - int n else int n)"
  shows "dec_int \<lparr>dsign = sg, dint = c, dexp = e\<rparr> = res"
proof -
  have "c div 10 ^ nat (- e) = n" using assms(2,3) by simp
  then show ?thesis using assms(1,4) by (simp add: dec_int_def)
qed

section \<open>General facts\<close>

subsection \<open>Results and errors\<close>

lemma ebind_simps:
  "ebind (Inr v) f = f v" "ebind (Inl err) f = Inl err"
  by (simp_all add: ebind_def)

lemma ebind_assoc: "ebind (ebind m f) g = ebind m (\<lambda>x. ebind (f x) g)"
  by (cases m) (simp_all add: ebind_def)

lemma ebind_Inr_iff: "ebind m f = Inr y \<longleftrightarrow> (\<exists>x. m = Inr x \<and> f x = Inr y)"
  by (cases m) (simp_all add: ebind_def)

subsection \<open>The value of a decimal\<close>

lemma dec_val_zero_iff: "dec_val x = 0 \<longleftrightarrow> dint x = 0"
  by (simp add: dec_val_def)


lemma dec_val_neg_exp:
  "e < 0 \<Longrightarrow> dec_val \<lparr>dsign = sg, dint = c, dexp = e\<rparr> =
     (if sg then - 1 else 1) * real c / 10 ^ nat (- e)"
  by (simp add: dec_val_def power_int_def power_one_over inverse_eq_divide)

lemma dec_val_zero_coeff: "dint x = 0 \<Longrightarrow> dec_val x = 0"
  by (simp add: dec_val_def)

subsection \<open>A zero operand\<close>

lemma dec_fix_zero_coeff: "dec_fix ctx x = Inr z \<Longrightarrow> dint x = 0 \<Longrightarrow> dint z = 0"
  by (auto simp add: dec_fix_def)

lemma dec_mul_zero_coeff:
  "dec_mul ctx x y = Inr z \<Longrightarrow> dint x = 0 \<or> dint y = 0 \<Longrightarrow> dint z = 0"
  unfolding dec_mul_def by (erule dec_fix_zero_coeff) auto

lemma dec_int_zero_coeff: "dint z = 0 \<Longrightarrow> dec_int z = 0"
  by (simp add: dec_int_def)

lemma to_int38_zero_coeff:
  "to_int38 (decimal_arith ctx) sc z = Inr n \<Longrightarrow> dint z = 0 \<Longrightarrow> n = 0"
  by (auto simp add: to_int38_def decimal_arith_def ebind_Inr_iff
      dest!: dec_mul_zero_coeff intro: dec_int_zero_coeff)

lemma shape_coefficients_zero_s:
  assumes "shape_coefficients (decimal_arith ctx) c s ta tb = Inr (u, v, w, z)" and "dint s = 0"
  shows "dint u = 0 \<and> dint w = 0"
proof -
  obtain tax tay tbx tby where ta: "ta = (tax, tay)" and tb: "tb = (tbx, tby)"
    by (cases ta, cases tb) auto
  from assms(1) obtain sc dx sc' dy
    where sc: "dec_mul ctx s c = Inr sc" and u: "dec_mul ctx sc dx = Inr u"
      and sc': "dec_mul ctx s c = Inr sc'" and w: "dec_mul ctx sc' dy = Inr w"
    unfolding shape_coefficients_def ta tb
    by (auto simp add: decimal_arith_def ebind_Inr_iff)
  from sc assms(2) have "dint sc = 0" by (auto dest: dec_mul_zero_coeff)
  with u have "dint u = 0" by (auto dest: dec_mul_zero_coeff)
  moreover from sc' assms(2) have "dint sc' = 0" by (auto dest: dec_mul_zero_coeff)
  with w have "dint w = 0" by (auto dest: dec_mul_zero_coeff)
  ultimately show ?thesis by simp
qed

subsection \<open>What the context returns\<close>

lemma ndigits_zero: "ndigits 0 = 1"
  by (simp add: ndigits.simps)

lemma dec_fix_context_value:
  assumes "dec_fix ctx y = Inr x" and "0 < prec ctx" and "Etiny ctx \<le> Emax ctx"
  shows "context_value ctx x"
proof (cases "dint y = 0")
  case True
  with assms show ?thesis
    by (auto simp add: dec_fix_def context_value_def ndigits_zero)
next
  case False
  define L where "L = ndigits (dint y)"
  define exp_min0 where "exp_min0 = int L + dexp y - int (prec ctx)"
  define exp_min where "exp_min = (if exp_min0 < Etiny ctx then Etiny ctx else exp_min0)"
  have em: "Etiny ctx \<le> exp_min" "exp_min0 \<le> exp_min" by (simp_all add: exp_min_def)
  show ?thesis
  proof (cases "dexp y < exp_min")
    case keep: False
    with False assms(1) have "x = y"
      by (simp add: dec_fix_def Let_def L_def exp_min0_def exp_min_def split: if_splits)
    moreover have "L \<le> prec ctx" using keep em(2) by (simp add: exp_min0_def)
    ultimately show ?thesis using keep em(1) by (simp add: context_value_def L_def)
  next
    case round: True
    define digits where "digits = int L + dexp y - exp_min"
    define c where "c = (if digits < 0 then 1 else dint y)"
    define e where "e = (if digits < 0 then exp_min - 1 else dexp y)"
    define k where "k = nat (exp_min - e)"
    define coeff where "coeff = (if round_up_half_even c k then c div 10 ^ k + 1 else c div 10 ^ k)"
    define carry where "carry \<longleftrightarrow> round_up_half_even c k \<and> prec ctx < ndigits coeff"
    have x: "dint x = (if carry then coeff div 10 else coeff)"
      "dexp x = (if carry then exp_min + 1 else exp_min)"
      using assms(1) False round
      unfolding dec_fix_def Let_def carry_def coeff_def k_def e_def c_def digits_def
        exp_min_def exp_min0_def L_def
      by (auto split: if_splits)
    have dle: "digits \<le> int (prec ctx)" using em(2) by (simp add: digits_def exp_min0_def)
    have q: "c div 10 ^ k < 10 ^ prec ctx"
    proof (cases "digits < 0")
      case True
      then have "c = 1" "k = 1" by (simp_all add: c_def k_def e_def)
      then show ?thesis by simp
    next
      case nn: False
      then have ck: "c = dint y" "e = dexp y" by (simp_all add: c_def e_def)
      have kL: "int k = int L - digits" using round by (simp add: k_def ck digits_def)
      have "dint y < 10 ^ L" unfolding L_def by (rule ndigits_upper)
      also have "L = nat digits + k" using kL nn by simp
      finally have "c < 10 ^ nat digits * 10 ^ k" by (simp add: ck power_add)
      then have "c div 10 ^ k < 10 ^ nat digits"
        by (simp add: less_mult_imp_div_less)
      also have "(10::nat) ^ nat digits \<le> 10 ^ prec ctx"
        using dle by (intro power_increasing) simp_all
      finally show ?thesis .
    qed
    have nd: "ndigits (if carry then coeff div 10 else coeff) \<le> prec ctx"
    proof (cases carry)
      case True
      then have "coeff = c div 10 ^ k + 1" by (simp add: carry_def coeff_def)
      with q have "coeff \<le> 10 ^ prec ctx" by simp
      moreover obtain p where p: "prec ctx = Suc p" using assms(2) by (cases "prec ctx") auto
      ultimately have "coeff div 10 \<le> 10 ^ p" by simp
      also have "(10::nat) ^ p < 10 ^ prec ctx" by (simp add: p)
      finally have "coeff div 10 < 10 ^ prec ctx" .
      with True show ?thesis using assms(2) by (simp add: ndigits_le)
    next
      case nc: False
      show ?thesis
      proof (cases "round_up_half_even c k")
        case True
        with nc show ?thesis by (simp add: carry_def)
      next
        case False
        then have "coeff = c div 10 ^ k" by (simp add: coeff_def)
        with q nc show ?thesis using assms(2) by (simp add: ndigits_le)
      qed
    qed
    show ?thesis using nd em(1) by (auto simp add: x context_value_def)
  qed
qed

lemma py_fix_context_value:
  "dec_fix py_context y = Inr x \<Longrightarrow> context_value py_context x"
  by (erule dec_fix_context_value) (simp_all add: py_context_simps)

lemma dec_mul_context_value:
  "dec_mul py_context a b = Inr x \<Longrightarrow> context_value py_context x"
  unfolding dec_mul_def by (rule py_fix_context_value)

lemma dec_add_context_value:
  "dec_add py_context a b = Inr x \<Longrightarrow> context_value py_context x"
  unfolding dec_add_def Let_def
  by (auto split: if_splits prod.splits dest: py_fix_context_value)

lemma dec_div_context_value:
  "dec_div py_context a b = Inr x \<Longrightarrow> context_value py_context x"
  unfolding dec_div_def Let_def
  by (auto split: if_splits prod.splits dest: py_fix_context_value)

lemma compute_tau_context_value:
  assumes "compute_tau py_arith c s lam d p = Inr (tx, ty)"
  shows "context_value py_context tx \<and> context_value py_context ty"
proof -
  from assms obtain x0 dF y1 where "dec_mul py_context x0 dF = Inr tx"
    and "dec_div py_context y1 lam = Inr ty"
    unfolding compute_tau_def py_arith_def
    by (auto simp add: decimal_arith_def ebind_Inr_iff)
  then show ?thesis by (auto dest: dec_mul_context_value dec_div_context_value)
qed

lemma shape_coefficients_context_value:
  assumes "shape_coefficients py_arith c s ta tb = Inr (u, v, w, z)"
  shows "context_value py_context u \<and> context_value py_context v
    \<and> context_value py_context w \<and> context_value py_context z"
proof -
  obtain tax tay tbx tby where ta: "ta = (tax, tay)" and tb: "tb = (tbx, tby)"
    by (cases ta, cases tb) auto
  from assms obtain sc dx v1 v2 sc' dy z1 z2
    where "dec_mul py_context sc dx = Inr u" and "dec_add py_context v1 v2 = Inr v"
      and "dec_mul py_context sc' dy = Inr w" and "dec_add py_context z1 z2 = Inr z"
    unfolding shape_coefficients_def ta tb py_arith_def
    by (auto simp add: decimal_arith_def ebind_Inr_iff)
  then show ?thesis by (auto dest: dec_mul_context_value dec_add_context_value)
qed

lemma step1_context_value:
  assumes "step1 py_arith c s = Inr (dSq, d)"
  shows "context_value py_context dSq"
proof -
  from assms obtain cc ss where "dec_add py_context cc ss = Inr dSq"
    unfolding step1_def py_arith_def
    by (auto simp add: decimal_arith_def ebind_Inr_iff)
  then show ?thesis by (rule dec_add_context_value)
qed

lemma derive_context_value:
  assumes "derive py_arith alpha beta c s lam = Inr r" and "x \<in> set (scaled_values r)"
  shows "context_value py_context x"
proof -
  from assms(1) obtain dSq d ta tb uvwz where s1: "step1 py_arith c s = Inr (dSq, d)"
    and ta: "compute_tau py_arith c s lam d alpha = Inr ta"
    and tb: "compute_tau py_arith c s lam d beta = Inr tb"
    and sh: "shape_coefficients py_arith c s ta tb = Inr uvwz"
    and r: "r = \<lparr>val_tauAlpha = ta, val_tauBeta = tb, val_uvwz = uvwz, val_dSq = dSq\<rparr>"
    unfolding derive_def by (auto simp add: ebind_Inr_iff)
  obtain u v w z where uvwz: "uvwz = (u, v, w, z)" by (cases uvwz) auto
  from ta have "context_value py_context (fst ta) \<and> context_value py_context (snd ta)"
    by (cases ta) (auto dest: compute_tau_context_value)
  moreover from tb have "context_value py_context (fst tb) \<and> context_value py_context (snd tb)"
    by (cases tb) (auto dest: compute_tau_context_value)
  moreover note shape_coefficients_context_value[OF sh[unfolded uvwz]] step1_context_value[OF s1]
  ultimately show ?thesis using assms(2) by (auto simp add: scaled_values_def r uvwz)
qed

lemma ndigits_mult_pow10:
  assumes "c \<noteq> 0"
  shows "ndigits (c * 10 ^ k) = ndigits c + k"
proof (rule ndigits_eqI)
  show "0 < ndigits c + k" using ndigits_pos[of c] by simp
  have "10 ^ (ndigits c - 1) * 10 ^ k \<le> c * 10 ^ k"
    using ndigits_lower[OF assms] by (rule mult_le_mono1)
  moreover have "ndigits c + k - 1 = (ndigits c - 1) + k" using ndigits_pos[of c] by simp
  ultimately show "10 ^ (ndigits c + k - 1) \<le> c * 10 ^ k" by (simp add: power_add)
  have "c * 10 ^ k < 10 ^ ndigits c * 10 ^ k"
    using ndigits_upper[of c] by simp
  then show "c * 10 ^ k < 10 ^ (ndigits c + k)" by (simp add: power_add)
qed

subsection \<open>Scaling by \<open>10^38\<close> and truncation\<close>

lemma scaling_overflows:
  assumes "dint x \<noteq> 0" and "999999 < int (ndigits (dint x)) + dexp x + 37"
  shows "dec_mul py_context x \<lparr>dsign = False, dint = 10 ^ 38, dexp = 0\<rparr> = Inl Overflow"
proof -
  define c' where "c' = dint x * 10 ^ 38"
  have nd: "ndigits c' = ndigits (dint x) + 38"
    unfolding c'_def by (rule ndigits_mult_pow10[OF assms(1)])
  have c0: "c' \<noteq> 0" using assms(1) by (simp add: c'_def)
  have "dec_mul py_context x \<lparr>dsign = False, dint = 10 ^ 38, dexp = 0\<rparr> =
      dec_fix py_context \<lparr>dsign = dsign x, dint = c', dexp = dexp x\<rparr>"
    by (simp add: dec_mul_def c'_def)
  also have "\<dots> = Inl Overflow"
    using assms(2) c0 by (simp add: dec_fix_def Let_def nd py_context_simps)
  finally show ?thesis .
qed

lemma scaling_exact:
  assumes cv: "context_value py_context x"
    and nov: "\<not> (dint x \<noteq> 0 \<and> 999999 < int (ndigits (dint x)) + dexp x + 37)"
  shows "\<exists>z. dec_mul py_context x \<lparr>dsign = False, dint = 10 ^ 38, dexp = 0\<rparr> = Inr z
    \<and> dec_val z = dec_val x * 10 ^ 38"
proof (cases "dint x = 0")
  case True
  then show ?thesis
    by (simp add: dec_mul_def dec_fix_def dec_val_def)
next
  case False
  define L where "L = ndigits (dint x)"
  define sg where "sg = (dsign x \<noteq> False)"
  have L200: "L \<le> 200" and et: "- 1000198 \<le> dexp x"
    using cv by (simp_all add: context_value_def L_def py_context_simps)
  have hi: "int L + dexp x + 37 \<le> 999999" using nov False by (simp add: L_def)
  have nd: "ndigits (dint x * 10 ^ 38) = L + 38"
    unfolding L_def by (rule ndigits_mult_pow10[OF False])
  have c0: "dint x * 10 ^ 38 \<noteq> 0" using False by simp
  have m: "dec_mul py_context x \<lparr>dsign = False, dint = 10 ^ 38, dexp = 0\<rparr> =
      dec_fix py_context \<lparr>dsign = sg, dint = dint x * 10 ^ 38, dexp = dexp x\<rparr>"
    by (simp add: dec_mul_def sg_def)
  show ?thesis
  proof (cases "L + 38 \<le> 200")
    case True
    have "dec_fix py_context \<lparr>dsign = sg, dint = dint x * 10 ^ 38, dexp = dexp x\<rparr> =
        Inr \<lparr>dsign = sg, dint = dint x * 10 ^ 38, dexp = dexp x\<rparr>"
      using True et hi by (intro dec_fix_keep[OF nd c0]) (simp_all add: py_context_simps)
    then show ?thesis
      unfolding m by (simp add: dec_val_def sg_def)
  next
    case False
    define k where "k = L + 38 - 200"
    have k38: "k \<le> 38" and kpos: "0 < k" using False L200 by (simp_all add: k_def)
    define q where "q = dint x * 10 ^ (38 - k)"
    have split: "(10::nat) ^ 38 = 10 ^ (38 - k) * 10 ^ k"
      using k38 by (simp add: power_add[symmetric])
    have c: "dint x * 10 ^ 38 = q * 10 ^ k + 0"
      unfolding q_def split by simp
    have "dint x < 10 ^ L" unfolding L_def by (rule ndigits_upper)
    then have "q < 10 ^ L * 10 ^ (38 - k)" by (simp add: q_def)
    also have "\<dots> = 10 ^ 200" using False k38 by (simp add: power_add[symmetric] k_def)
    finally have qlt: "q < 10 ^ 200" .
    have "dec_fix py_context \<lparr>dsign = sg, dint = dint x * 10 ^ 38, dexp = dexp x\<rparr> =
        Inr \<lparr>dsign = sg, dint = q, dexp = dexp x + int k\<rparr>"
    proof (rule dec_fix_round[OF nd _ _ _ _ c])
      show "prec py_context < L + 38" using False by (simp add: py_context_simps)
      show "k = L + 38 - prec py_context" by (simp add: k_def py_context_simps)
      show "Etiny py_context \<le> dexp x + int k" using et by (simp add: py_context_simps)
      show "dexp x + int k \<le> Etop py_context"
        using hi False by (simp add: py_context_simps k_def)
      show "(0::nat) < 10 ^ k" by simp
      show "q = (if (10::nat) ^ k < 2 * 0 \<or> 2 * 0 = (10::nat) ^ k \<and> odd q then q + 1 else q)"
        by simp
      show "q < 10 ^ prec py_context" using qlt by (simp add: py_context_simps)
      show "0 < prec py_context" by (simp add: py_context_simps)
    qed
    moreover have "real q * 10 powi (dexp x + int k) = real (dint x) * 10 powi dexp x * 10 ^ 38"
    proof -
      have "(10::real) powi (dexp x + int k) = 10 powi dexp x * 10 ^ k"
        by (simp add: power_int_add)
      moreover have "real q = real (dint x) * 10 ^ (38 - k)" by (simp add: q_def)
      moreover have "(10::real) ^ 38 = 10 ^ (38 - k) * 10 ^ k"
        using k38 by (simp add: power_add[symmetric])
      ultimately show ?thesis by simp
    qed
    ultimately show ?thesis
      unfolding m by (simp add: dec_val_def sg_def)
  qed
qed

lemma dec_int_trunc: "dec_int y = trunc_toward_zero (dec_val y)"
proof (cases "0 \<le> dexp y")
  case True
  then have p: "(10::real) powi dexp y = 10 ^ nat (dexp y)" by (simp add: power_int_def)
  have "dec_val y = of_int (dec_int y)"
    using True by (simp add: dec_val_def dec_int_def p)
  then show ?thesis by (simp add: trunc_toward_zero_def)
next
  case False
  define n where "n = nat (- dexp y)"
  have "(10::real) powi dexp y = inverse 10 ^ n"
    using False by (simp add: power_int_def n_def)
  also have "\<dots> = 1 / 10 ^ n" by (simp add: power_one_over inverse_eq_divide)
  finally have p: "(10::real) powi dexp y = 1 / 10 ^ n" .
  have fl: "\<lfloor>real (dint y) / 10 ^ n\<rfloor> = int (dint y div 10 ^ n)"
    using floor_divide_of_nat_eq[of "dint y" "10 ^ n", where ?'a = real] by simp
  have nn: "0 \<le> real (dint y) / 10 ^ n" by simp
  show ?thesis
  proof (cases "dsign y")
    case pos: False
    with False show ?thesis
      using fl nn by (simp add: dec_int_def dec_val_def p trunc_toward_zero_def n_def)
  next
    case neg: True
    show ?thesis
    proof (cases "dint y = 0")
      case True
      with False show ?thesis
        by (simp add: dec_int_def dec_val_def trunc_toward_zero_def)
    next
      case nz: False
      then have "0 < real (dint y) / 10 ^ n" by simp
      then have "\<not> 0 \<le> - (real (dint y) / 10 ^ n)" by linarith
      with False neg show ?thesis
        using fl by (simp add: dec_int_def dec_val_def p trunc_toward_zero_def n_def ceiling_minus)
    qed
  qed
qed

subsection \<open>Underflow\<close>



subsection \<open>The script in exact arithmetic\<close>

lemma real_arith_simps:
  "ar_const real_arith = real" "ar_add real_arith x y = Inr (x + y)"
  "ar_sub real_arith x y = Inr (x - y)" "ar_mul real_arith x y = Inr (x * y)"
  "y \<noteq> 0 \<Longrightarrow> ar_div real_arith x y = Inr (x / y)"
  "0 \<le> x \<Longrightarrow> ar_sqrt real_arith x = Inr (sqrt x)"
  "x \<noteq> 0 \<Longrightarrow> ar_pow real_arith x n = Inr (x ^ n)"
  "n \<noteq> 0 \<Longrightarrow> ar_pow real_arith x n = Inr (x ^ n)"
  "ar_int real_arith = trunc_toward_zero"
  by (simp_all add: real_arith_def)

text \<open>The radicand of \<open>dFactor\<close> in exact arithmetic.\<close>

lemma radicand_pos:
  fixes C S lam p :: real
  assumes "C \<noteq> 0 \<or> S \<noteq> 0" and "lam \<noteq> 0"
  shows "0 < (C + p * S)\<^sup>2 / lam\<^sup>2 + (p * C - S)\<^sup>2"
proof -
  have nn: "0 \<le> (C + p * S)\<^sup>2 / lam\<^sup>2" "0 \<le> (p * C - S)\<^sup>2" by simp_all
  have "\<not> ((C + p * S)\<^sup>2 / lam\<^sup>2 = 0 \<and> (p * C - S)\<^sup>2 = 0)"
  proof
    assume "(C + p * S)\<^sup>2 / lam\<^sup>2 = 0 \<and> (p * C - S)\<^sup>2 = 0"
    with assms(2) have a: "C = - (p * S)" and b: "S = p * C" by simp_all
    from b a have "S = - (p\<^sup>2 * S)" by (simp add: power2_eq_square)
    then have "S * (1 + p\<^sup>2) = 0" by (simp add: algebra_simps)
    moreover have "0 < 1 + p\<^sup>2" by (simp add: add_pos_nonneg)
    ultimately have "S = 0" by simp
    with a assms(1) show False by simp
  qed
  then have "(C + p * S)\<^sup>2 / lam\<^sup>2 \<noteq> 0 \<or> (p * C - S)\<^sup>2 \<noteq> 0" by blast
  then show ?thesis
  proof
    assume "(C + p * S)\<^sup>2 / lam\<^sup>2 \<noteq> 0"
    with nn(1) have "0 < (C + p * S)\<^sup>2 / lam\<^sup>2" by (simp only: less_le) simp
    then show ?thesis using nn(2) by (rule add_pos_nonneg)
  next
    assume "(p * C - S)\<^sup>2 \<noteq> 0"
    with nn(2) have "0 < (p * C - S)\<^sup>2" by (simp only: less_le) simp
    with nn(1) show ?thesis by (rule add_nonneg_pos)
  qed
qed

lemma step1_real:
  "step1 real_arith c s = Inr (c * c + s * s, sqrt (c * c + s * s))"
  by (simp add: step1_def real_arith_simps ebind_simps)

lemma compute_tau_real:
  fixes c s lam p :: real
  assumes cs: "c \<noteq> 0 \<or> s \<noteq> 0" and lam: "lam \<noteq> 0"
  defines "d \<equiv> sqrt (c * c + s * s)"
  defines "R \<equiv> (c / d + p * s / d)\<^sup>2 / lam\<^sup>2 + (p * c / d - s / d)\<^sup>2"
  shows "compute_tau real_arith c s lam d p =
      Inr ((p * c - s) * (1 / sqrt R), (c + s * p) * (1 / sqrt R) / lam)"
    and "0 < d" and "0 < R"
proof -
  have "c * c + s * s \<noteq> 0" using cs by (simp add: sum_squares_eq_zero_iff)
  moreover have "0 \<le> c * c + s * s" by simp
  ultimately have "0 < c * c + s * s" by (simp only: less_le) simp
  then show d: "0 < d" by (simp add: d_def)
  have "c / d \<noteq> 0 \<or> s / d \<noteq> 0" using cs d by simp
  then have "0 < (c / d + p * (s / d))\<^sup>2 / lam\<^sup>2 + (p * (c / d) - s / d)\<^sup>2"
    using lam by (rule radicand_pos)
  then show R: "0 < R" by (simp add: R_def)
  have l2: "lam ^ 2 \<noteq> 0" using lam by simp
  have sR: "sqrt R \<noteq> 0" using R by simp
  have d0: "d \<noteq> 0" using d by simp
  have R0: "0 \<le> R" using R by simp
  show "compute_tau real_arith c s lam d p =
      Inr ((p * c - s) * (1 / sqrt R), (c + s * p) * (1 / sqrt R) / lam)"
    unfolding compute_tau_def
    using d0 l2 sR R0 lam
    by (simp add: real_arith_simps ebind_simps R_def[symmetric])
qed

lemma sanity_norm_real:
  "sanity_norm real_arith lam (x, y) = Inr (sqrt (x\<^sup>2 + (y * lam)\<^sup>2))"
  by (simp add: sanity_norm_def real_arith_simps ebind_simps)





section \<open>The run on the hard-coded parameters\<close>

text \<open>
  Every operation of the run is evaluated on its operands, from the facts about the
  coefficients (products, quotients with their remainders, square roots with theirs)
  that determine its result.
\<close>
lemma work2_simps:
  "prec (work_context py_context 2) = 203" "Emax (work_context py_context 2) = 999999"
  "Etiny (work_context py_context 2) = - 1000201" "Etop (work_context py_context 2) = 999797"
  by (simp_all add: work_context_def py_context_def Etiny_def Etop_def ndigits.simps del: One_nat_def)

lemma work38_simps:
  "prec (work_context py_context 38) = 204" "Emax (work_context py_context 38) = 999999"
  "Etiny (work_context py_context 38) = - 1000202" "Etop (work_context py_context 38) = 999796"
  by (simp_all add: work_context_def py_context_def Etiny_def Etop_def ndigits.simps del: One_nat_def)

lemma arith_simps:
  "ar_const py_arith = Decimal" "ar_add py_arith = dec_add py_context"
  "ar_sub py_arith = dec_sub py_context" "ar_mul py_arith = dec_mul py_context"
  "ar_div py_arith = dec_div py_context" "ar_sqrt py_arith = dec_sqrt py_context"
  "ar_pow py_arith = dec_pow py_context" "ar_int py_arith = dec_int"
  "ebind (Inr v) f = f v" "ebind (Inl err) f = Inl err"
  "Decimal n = \<lparr>dsign = False, dint = n, dexp = 0\<rparr>"
  by (simp_all add: py_arith_def decimal_arith_def ebind_def Decimal_def del: One_nat_def)

lemma ev_fix2: "dec_fix py_context \<lparr>dsign = False, dint = 1035905, dexp = - 6\<rparr> = Inr \<lparr>dsign = False, dint = 1035905, dexp = - 6\<rparr>"
proof -
  have n: "ndigits 1035905 = 7" by (rule ndigits_eqI) (simp_all del: One_nat_def)
  show ?thesis by (rule dec_fix_keep[where L = 7]) (simp_all add: n py_context_simps del: One_nat_def)
qed

lemma ev_div1: "dec_div py_context \<lparr>dsign = False, dint = 1035905000000000000, dexp = 0\<rparr> \<lparr>dsign = False, dint = 1000000000000000000, dexp = 0\<rparr> = Inr \<lparr>dsign = False, dint = 1035905, dexp = - 6\<rparr>"
proof -
  have n1: "ndigits 1035905000000000000 = 19" by (rule ndigits_eqI) (simp_all del: One_nat_def)
  have n2: "ndigits 1000000000000000000 = 19" by (rule ndigits_eqI) (simp_all del: One_nat_def)
  have m: "1035905 mod (10::nat) = 5"
    by (rule div_mod_eqI(2)[where a = 103590]) (simp_all del: One_nat_def)
  show ?thesis
    by (rule dec_div_exactI[where Lx = 19 and Ly = 19 and shift = 201
          and c' = 1035905 and j = 195 and e' = "- 6"])
       (simp_all add: n1 n2 m py_context_simps ev_fix2 del: One_nat_def)
qed

lemma ev_fix4: "dec_fix py_context \<lparr>dsign = False, dint = 1144947, dexp = - 6\<rparr> = Inr \<lparr>dsign = False, dint = 1144947, dexp = - 6\<rparr>"
proof -
  have n: "ndigits 1144947 = 7" by (rule ndigits_eqI) (simp_all del: One_nat_def)
  show ?thesis by (rule dec_fix_keep[where L = 7]) (simp_all add: n py_context_simps del: One_nat_def)
qed

lemma ev_div3: "dec_div py_context \<lparr>dsign = False, dint = 1144947000000000000, dexp = 0\<rparr> \<lparr>dsign = False, dint = 1000000000000000000, dexp = 0\<rparr> = Inr \<lparr>dsign = False, dint = 1144947, dexp = - 6\<rparr>"
proof -
  have n1: "ndigits 1144947000000000000 = 19" by (rule ndigits_eqI) (simp_all del: One_nat_def)
  have n2: "ndigits 1000000000000000000 = 19" by (rule ndigits_eqI) (simp_all del: One_nat_def)
  have m: "1144947 mod (10::nat) = 7"
    by (rule div_mod_eqI(2)[where a = 114494]) (simp_all del: One_nat_def)
  show ?thesis
    by (rule dec_div_exactI[where Lx = 19 and Ly = 19 and shift = 201
          and c' = 1144947 and j = 195 and e' = "- 6"])
       (simp_all add: n1 n2 m py_context_simps ev_fix4 del: One_nat_def)
qed

lemma ev_fix6: "dec_fix py_context \<lparr>dsign = False, dint = 1, dexp = 0\<rparr> = Inr \<lparr>dsign = False, dint = 1, dexp = 0\<rparr>"
proof -
  have n: "ndigits 1 = 1" by (rule ndigits_eqI) (simp_all del: One_nat_def)
  show ?thesis by (rule dec_fix_keep[where L = 1]) (simp_all add: n py_context_simps del: One_nat_def)
qed

lemma ev_div5: "dec_div py_context \<lparr>dsign = False, dint = 1000000000000000000, dexp = 0\<rparr> \<lparr>dsign = False, dint = 1000000000000000000, dexp = 0\<rparr> = Inr \<lparr>dsign = False, dint = 1, dexp = 0\<rparr>"
proof -
  have n1: "ndigits 1000000000000000000 = 19" by (rule ndigits_eqI) (simp_all del: One_nat_def)
  have n2: "ndigits 1000000000000000000 = 19" by (rule ndigits_eqI) (simp_all del: One_nat_def)
  show ?thesis
    by (rule dec_div_exactI[where Lx = 19 and Ly = 19 and shift = 201
          and c' = 1 and j = 201 and e' = "0"])
       (simp_all add: n1 n2 py_context_simps ev_fix6 del: One_nat_def)
qed

lemma ev_fix8: "dec_fix py_context \<lparr>dsign = False, dint = 0, dexp = 0\<rparr> = Inr \<lparr>dsign = False, dint = 0, dexp = 0\<rparr>"
  by (simp add: dec_fix_zero py_context_simps del: One_nat_def)

lemma ev_div7: "dec_div py_context \<lparr>dsign = False, dint = 0, dexp = 0\<rparr> \<lparr>dsign = False, dint = 1000000000000000000, dexp = 0\<rparr> = Inr \<lparr>dsign = False, dint = 0, dexp = 0\<rparr>"
  by (simp add: dec_div_def ev_fix8 del: One_nat_def)

lemma ev_fix10: "dec_fix py_context \<lparr>dsign = False, dint = 50, dexp = 0\<rparr> = Inr \<lparr>dsign = False, dint = 50, dexp = 0\<rparr>"
proof -
  have n: "ndigits 50 = 2" by (rule ndigits_eqI) (simp_all del: One_nat_def)
  show ?thesis by (rule dec_fix_keep[where L = 2]) (simp_all add: n py_context_simps del: One_nat_def)
qed

lemma ev_div9: "dec_div py_context \<lparr>dsign = False, dint = 50000000000000000000, dexp = 0\<rparr> \<lparr>dsign = False, dint = 1000000000000000000, dexp = 0\<rparr> = Inr \<lparr>dsign = False, dint = 50, dexp = 0\<rparr>"
proof -
  have n1: "ndigits 50000000000000000000 = 20" by (rule ndigits_eqI) (simp_all del: One_nat_def)
  have n2: "ndigits 1000000000000000000 = 19" by (rule ndigits_eqI) (simp_all del: One_nat_def)
  show ?thesis
    by (rule dec_div_exactI[where Lx = 20 and Ly = 19 and shift = 200
          and c' = 50 and j = 200 and e' = "0"])
       (simp_all add: n1 n2 py_context_simps ev_fix10 del: One_nat_def)
qed

lemma hard_coded_eval: "with_hard_coded py_arith f = f \<lparr>dsign = False, dint = 1035905, dexp = - 6\<rparr> \<lparr>dsign = False, dint = 1144947, dexp = - 6\<rparr> \<lparr>dsign = False, dint = 1, dexp = 0\<rparr> \<lparr>dsign = False, dint = 0, dexp = 0\<rparr> \<lparr>dsign = False, dint = 50, dexp = 0\<rparr>"
  by (simp add: with_hard_coded_def arith_simps
      ev_div1 ev_div3 ev_div5 ev_div7 ev_div9 del: One_nat_def)

lemma ev_fix12: "dec_fix (work_context py_context 38) \<lparr>dsign = False, dint = 100, dexp = 0\<rparr> = Inr \<lparr>dsign = False, dint = 100, dexp = 0\<rparr>"
proof -
  have n: "ndigits 100 = 3" by (rule ndigits_eqI) (simp_all del: One_nat_def)
  show ?thesis by (rule dec_fix_keep[where L = 3]) (simp_all add: n work38_simps del: One_nat_def)
qed

lemma ev_mul13: "dec_mul (work_context py_context 38) \<lparr>dsign = False, dint = 10, dexp = 0\<rparr> \<lparr>dsign = False, dint = 10, dexp = 0\<rparr> = Inr \<lparr>dsign = False, dint = 100, dexp = 0\<rparr>"
  by (rule dec_mulI[where P = 100]) (simp_all add: ev_fix12 del: One_nat_def)

lemma ev_fix14: "dec_fix (work_context py_context 38) \<lparr>dsign = False, dint = 10000, dexp = 0\<rparr> = Inr \<lparr>dsign = False, dint = 10000, dexp = 0\<rparr>"
proof -
  have n: "ndigits 10000 = 5" by (rule ndigits_eqI) (simp_all del: One_nat_def)
  show ?thesis by (rule dec_fix_keep[where L = 5]) (simp_all add: n work38_simps del: One_nat_def)
qed

lemma ev_mul15: "dec_mul (work_context py_context 38) \<lparr>dsign = False, dint = 100, dexp = 0\<rparr> \<lparr>dsign = False, dint = 100, dexp = 0\<rparr> = Inr \<lparr>dsign = False, dint = 10000, dexp = 0\<rparr>"
  by (rule dec_mulI[where P = 10000]) (simp_all add: ev_fix14 del: One_nat_def)

lemma ev_fix16: "dec_fix (work_context py_context 38) \<lparr>dsign = False, dint = 100000000, dexp = 0\<rparr> = Inr \<lparr>dsign = False, dint = 100000000, dexp = 0\<rparr>"
proof -
  have n: "ndigits 100000000 = 9" by (rule ndigits_eqI) (simp_all del: One_nat_def)
  show ?thesis by (rule dec_fix_keep[where L = 9]) (simp_all add: n work38_simps del: One_nat_def)
qed

lemma ev_mul17: "dec_mul (work_context py_context 38) \<lparr>dsign = False, dint = 10000, dexp = 0\<rparr> \<lparr>dsign = False, dint = 10000, dexp = 0\<rparr> = Inr \<lparr>dsign = False, dint = 100000000, dexp = 0\<rparr>"
  by (rule dec_mulI[where P = 100000000]) (simp_all add: ev_fix16 del: One_nat_def)

lemma ev_fix18: "dec_fix (work_context py_context 38) \<lparr>dsign = False, dint = 1000000000, dexp = 0\<rparr> = Inr \<lparr>dsign = False, dint = 1000000000, dexp = 0\<rparr>"
proof -
  have n: "ndigits 1000000000 = 10" by (rule ndigits_eqI) (simp_all del: One_nat_def)
  show ?thesis by (rule dec_fix_keep[where L = 10]) (simp_all add: n work38_simps del: One_nat_def)
qed

lemma ev_mul19: "dec_mul (work_context py_context 38) \<lparr>dsign = False, dint = 100000000, dexp = 0\<rparr> \<lparr>dsign = False, dint = 10, dexp = 0\<rparr> = Inr \<lparr>dsign = False, dint = 1000000000, dexp = 0\<rparr>"
  by (rule dec_mulI[where P = 1000000000]) (simp_all add: ev_fix18 del: One_nat_def)

lemma ev_fix20: "dec_fix (work_context py_context 38) \<lparr>dsign = False, dint = 1000000000000000000, dexp = 0\<rparr> = Inr \<lparr>dsign = False, dint = 1000000000000000000, dexp = 0\<rparr>"
proof -
  have n: "ndigits 1000000000000000000 = 19" by (rule ndigits_eqI) (simp_all del: One_nat_def)
  show ?thesis by (rule dec_fix_keep[where L = 19]) (simp_all add: n work38_simps del: One_nat_def)
qed

lemma ev_mul21: "dec_mul (work_context py_context 38) \<lparr>dsign = False, dint = 1000000000, dexp = 0\<rparr> \<lparr>dsign = False, dint = 1000000000, dexp = 0\<rparr> = Inr \<lparr>dsign = False, dint = 1000000000000000000, dexp = 0\<rparr>"
  by (rule dec_mulI[where P = 1000000000000000000]) (simp_all add: ev_fix20 del: One_nat_def)

lemma ev_fix22: "dec_fix (work_context py_context 38) \<lparr>dsign = False, dint = 10000000000000000000, dexp = 0\<rparr> = Inr \<lparr>dsign = False, dint = 10000000000000000000, dexp = 0\<rparr>"
proof -
  have n: "ndigits 10000000000000000000 = 20" by (rule ndigits_eqI) (simp_all del: One_nat_def)
  show ?thesis by (rule dec_fix_keep[where L = 20]) (simp_all add: n work38_simps del: One_nat_def)
qed

lemma ev_mul23: "dec_mul (work_context py_context 38) \<lparr>dsign = False, dint = 1000000000000000000, dexp = 0\<rparr> \<lparr>dsign = False, dint = 10, dexp = 0\<rparr> = Inr \<lparr>dsign = False, dint = 10000000000000000000, dexp = 0\<rparr>"
  by (rule dec_mulI[where P = 10000000000000000000]) (simp_all add: ev_fix22 del: One_nat_def)

lemma ev_fix24: "dec_fix (work_context py_context 38) \<lparr>dsign = False, dint = 100000000000000000000000000000000000000, dexp = 0\<rparr> = Inr \<lparr>dsign = False, dint = 100000000000000000000000000000000000000, dexp = 0\<rparr>"
proof -
  have n: "ndigits 100000000000000000000000000000000000000 = 39" by (rule ndigits_eqI) (simp_all del: One_nat_def)
  show ?thesis by (rule dec_fix_keep[where L = 39]) (simp_all add: n work38_simps del: One_nat_def)
qed

lemma ev_mul25: "dec_mul (work_context py_context 38) \<lparr>dsign = False, dint = 10000000000000000000, dexp = 0\<rparr> \<lparr>dsign = False, dint = 10000000000000000000, dexp = 0\<rparr> = Inr \<lparr>dsign = False, dint = 100000000000000000000000000000000000000, dexp = 0\<rparr>"
  by (rule dec_mulI[where P = 100000000000000000000000000000000000000]) (simp_all add: ev_fix24 del: One_nat_def)

lemma ev_fix26: "dec_fix py_context \<lparr>dsign = False, dint = 100000000000000000000000000000000000000, dexp = 0\<rparr> = Inr \<lparr>dsign = False, dint = 100000000000000000000000000000000000000, dexp = 0\<rparr>"
proof -
  have n: "ndigits 100000000000000000000000000000000000000 = 39" by (rule ndigits_eqI) (simp_all del: One_nat_def)
  show ?thesis by (rule dec_fix_keep[where L = 39]) (simp_all add: n py_context_simps del: One_nat_def)
qed

lemma ev_pow11: "dec_pow py_context \<lparr>dsign = False, dint = 10, dexp = 0\<rparr> 38 = Inr \<lparr>dsign = False, dint = 100000000000000000000000000000000000000, dexp = 0\<rparr>"
  by (simp add: dec_pow_def Let_def bits_msb_38 ebind_def ev_mul13 ev_mul15 ev_mul17 ev_mul19 ev_mul21 ev_mul23 ev_mul25 ev_fix26 del: One_nat_def)

lemma SCALE_38_eval: "SCALE_38 py_arith = Inr \<lparr>dsign = False, dint = 100000000000000000000000000000000000000, dexp = 0\<rparr>"
  by (simp add: SCALE_38_def arith_simps
      ev_pow11 del: One_nat_def)

lemma ev_mul27: "dec_mul py_context \<lparr>dsign = False, dint = 1, dexp = 0\<rparr> \<lparr>dsign = False, dint = 1, dexp = 0\<rparr> = Inr \<lparr>dsign = False, dint = 1, dexp = 0\<rparr>"
  by (rule dec_mulI[where P = 1]) (simp_all add: ev_fix6 del: One_nat_def)

lemma ev_mul28: "dec_mul py_context \<lparr>dsign = False, dint = 0, dexp = 0\<rparr> \<lparr>dsign = False, dint = 0, dexp = 0\<rparr> = Inr \<lparr>dsign = False, dint = 0, dexp = 0\<rparr>"
  by (rule dec_mulI[where P = 0]) (simp_all add: ev_fix8 del: One_nat_def)

lemma ev_add29: "dec_add py_context \<lparr>dsign = False, dint = 1, dexp = 0\<rparr> \<lparr>dsign = False, dint = 0, dexp = 0\<rparr> = Inr \<lparr>dsign = False, dint = 1, dexp = 0\<rparr>"
proof -
  show ?thesis
    by (simp add: dec_add_def dec_normalize_def Let_def py_context_simps ev_fix6 del: One_nat_def)
qed

lemma ev_sqrt30: "dec_sqrt py_context \<lparr>dsign = False, dint = 1, dexp = 0\<rparr> = Inr \<lparr>dsign = False, dint = 1, dexp = 0\<rparr>"
proof -
  have n1: "ndigits 1 = 1" by (rule ndigits_eqI) (simp_all del: One_nat_def)
  show ?thesis
    by (rule dec_sqrt_exactI[where L = 1 and c = 1 and l = 1 and shift = 200 and m = 1])
       (simp_all add: n1 py_context_simps ev_fix6 del: One_nat_def)
qed

lemma step1_eval: "step1 py_arith \<lparr>dsign = False, dint = 1, dexp = 0\<rparr> \<lparr>dsign = False, dint = 0, dexp = 0\<rparr> = Inr (\<lparr>dsign = False, dint = 1, dexp = 0\<rparr>, \<lparr>dsign = False, dint = 1, dexp = 0\<rparr>)"
  by (simp add: step1_def arith_simps
      ev_mul27 ev_mul28 ev_add29 ev_sqrt30 del: One_nat_def)

lemma ev_div31: "dec_div py_context \<lparr>dsign = False, dint = 1, dexp = 0\<rparr> \<lparr>dsign = False, dint = 1, dexp = 0\<rparr> = Inr \<lparr>dsign = False, dint = 1, dexp = 0\<rparr>"
proof -
  have n1: "ndigits 1 = 1" by (rule ndigits_eqI) (simp_all del: One_nat_def)
  have n2: "ndigits 1 = 1" by (rule ndigits_eqI) (simp_all del: One_nat_def)
  show ?thesis
    by (rule dec_div_exactI[where Lx = 1 and Ly = 1 and shift = 201
          and c' = 1 and j = 201 and e' = "0"])
       (simp_all add: n1 n2 py_context_simps ev_fix6 del: One_nat_def)
qed

lemma ev_div32: "dec_div py_context \<lparr>dsign = False, dint = 0, dexp = 0\<rparr> \<lparr>dsign = False, dint = 1, dexp = 0\<rparr> = Inr \<lparr>dsign = False, dint = 0, dexp = 0\<rparr>"
  by (simp add: dec_div_def ev_fix8 del: One_nat_def)

lemma ev_fix33: "dec_fix py_context \<lparr>dsign = False, dint = 0, dexp = - 6\<rparr> = Inr \<lparr>dsign = False, dint = 0, dexp = - 6\<rparr>"
  by (simp add: dec_fix_zero py_context_simps del: One_nat_def)

lemma ev_mul34: "dec_mul py_context \<lparr>dsign = False, dint = 1035905, dexp = - 6\<rparr> \<lparr>dsign = False, dint = 0, dexp = 0\<rparr> = Inr \<lparr>dsign = False, dint = 0, dexp = - 6\<rparr>"
  by (rule dec_mulI[where P = 0]) (simp_all add: ev_fix33 del: One_nat_def)

lemma ev_fix35: "dec_fix py_context \<lparr>dsign = False, dint = 1000000, dexp = - 6\<rparr> = Inr \<lparr>dsign = False, dint = 1000000, dexp = - 6\<rparr>"
proof -
  have n: "ndigits 1000000 = 7" by (rule ndigits_eqI) (simp_all del: One_nat_def)
  show ?thesis by (rule dec_fix_keep[where L = 7]) (simp_all add: n py_context_simps del: One_nat_def)
qed

lemma ev_add36: "dec_add py_context \<lparr>dsign = False, dint = 1, dexp = 0\<rparr> \<lparr>dsign = False, dint = 0, dexp = - 6\<rparr> = Inr \<lparr>dsign = False, dint = 1000000, dexp = - 6\<rparr>"
proof -
  show ?thesis
    by (simp add: dec_add_def dec_normalize_def Let_def py_context_simps ev_fix35 del: One_nat_def)
qed

lemma ev_pow37: "dec_pow py_context \<lparr>dsign = False, dint = 1000000, dexp = - 6\<rparr> 2 = Inr \<lparr>dsign = False, dint = 1000000000000, dexp = - 12\<rparr>"
  by (simp add: dec_pow_def py_context_simps del: One_nat_def)

lemma ev_fix39: "dec_fix (work_context py_context 2) \<lparr>dsign = False, dint = 2500, dexp = 0\<rparr> = Inr \<lparr>dsign = False, dint = 2500, dexp = 0\<rparr>"
proof -
  have n: "ndigits 2500 = 4" by (rule ndigits_eqI) (simp_all del: One_nat_def)
  show ?thesis by (rule dec_fix_keep[where L = 4]) (simp_all add: n work2_simps del: One_nat_def)
qed

lemma ev_mul40: "dec_mul (work_context py_context 2) \<lparr>dsign = False, dint = 50, dexp = 0\<rparr> \<lparr>dsign = False, dint = 50, dexp = 0\<rparr> = Inr \<lparr>dsign = False, dint = 2500, dexp = 0\<rparr>"
  by (rule dec_mulI[where P = 2500]) (simp_all add: ev_fix39 del: One_nat_def)

lemma ev_fix41: "dec_fix py_context \<lparr>dsign = False, dint = 2500, dexp = 0\<rparr> = Inr \<lparr>dsign = False, dint = 2500, dexp = 0\<rparr>"
proof -
  have n: "ndigits 2500 = 4" by (rule ndigits_eqI) (simp_all del: One_nat_def)
  show ?thesis by (rule dec_fix_keep[where L = 4]) (simp_all add: n py_context_simps del: One_nat_def)
qed

lemma ev_pow38: "dec_pow py_context \<lparr>dsign = False, dint = 50, dexp = 0\<rparr> 2 = Inr \<lparr>dsign = False, dint = 2500, dexp = 0\<rparr>"
  by (rule dec_pow2I[where ?r1.0 = "\<lparr>dsign = False, dint = 2500, dexp = 0\<rparr>"]) (simp_all add: ev_mul40 ev_fix41 del: One_nat_def)

lemma ev_fix43: "dec_fix py_context \<lparr>dsign = False, dint = 400000000, dexp = - 12\<rparr> = Inr \<lparr>dsign = False, dint = 400000000, dexp = - 12\<rparr>"
proof -
  have n: "ndigits 400000000 = 9" by (rule ndigits_eqI) (simp_all del: One_nat_def)
  show ?thesis by (rule dec_fix_keep[where L = 9]) (simp_all add: n py_context_simps del: One_nat_def)
qed

lemma ev_div42: "dec_div py_context \<lparr>dsign = False, dint = 1000000000000, dexp = - 12\<rparr> \<lparr>dsign = False, dint = 2500, dexp = 0\<rparr> = Inr \<lparr>dsign = False, dint = 400000000, dexp = - 12\<rparr>"
proof -
  have n1: "ndigits 1000000000000 = 13" by (rule ndigits_eqI) (simp_all del: One_nat_def)
  have n2: "ndigits 2500 = 4" by (rule ndigits_eqI) (simp_all del: One_nat_def)
  show ?thesis
    by (rule dec_div_exactI[where Lx = 13 and Ly = 4 and shift = 192
          and c' = 400000000 and j = 192 and e' = "- 12"])
       (simp_all add: n1 n2 py_context_simps ev_fix43 del: One_nat_def)
qed

lemma ev_mul44: "dec_mul py_context \<lparr>dsign = False, dint = 1035905, dexp = - 6\<rparr> \<lparr>dsign = False, dint = 1, dexp = 0\<rparr> = Inr \<lparr>dsign = False, dint = 1035905, dexp = - 6\<rparr>"
  by (rule dec_mulI[where P = 1035905]) (simp_all add: ev_fix2 del: One_nat_def)

lemma ev_sub45: "dec_sub py_context \<lparr>dsign = False, dint = 1035905, dexp = - 6\<rparr> \<lparr>dsign = False, dint = 0, dexp = 0\<rparr> = Inr \<lparr>dsign = False, dint = 1035905, dexp = - 6\<rparr>"
proof -
  show ?thesis
    by (simp add: dec_sub_def dec_add_def dec_normalize_def Let_def py_context_simps ev_fix2 del: One_nat_def)
qed

lemma ev_fix47: "dec_fix (work_context py_context 2) \<lparr>dsign = False, dint = 1073099169025, dexp = - 12\<rparr> = Inr \<lparr>dsign = False, dint = 1073099169025, dexp = - 12\<rparr>"
proof -
  have n: "ndigits 1073099169025 = 13" by (rule ndigits_eqI) (simp_all del: One_nat_def)
  show ?thesis by (rule dec_fix_keep[where L = 13]) (simp_all add: n work2_simps del: One_nat_def)
qed

lemma ev_mul48: "dec_mul (work_context py_context 2) \<lparr>dsign = False, dint = 1035905, dexp = - 6\<rparr> \<lparr>dsign = False, dint = 1035905, dexp = - 6\<rparr> = Inr \<lparr>dsign = False, dint = 1073099169025, dexp = - 12\<rparr>"
  by (rule dec_mulI[where P = 1073099169025]) (simp_all add: ev_fix47 del: One_nat_def)

lemma ev_fix49: "dec_fix py_context \<lparr>dsign = False, dint = 1073099169025, dexp = - 12\<rparr> = Inr \<lparr>dsign = False, dint = 1073099169025, dexp = - 12\<rparr>"
proof -
  have n: "ndigits 1073099169025 = 13" by (rule ndigits_eqI) (simp_all del: One_nat_def)
  show ?thesis by (rule dec_fix_keep[where L = 13]) (simp_all add: n py_context_simps del: One_nat_def)
qed

lemma ev_pow46: "dec_pow py_context \<lparr>dsign = False, dint = 1035905, dexp = - 6\<rparr> 2 = Inr \<lparr>dsign = False, dint = 1073099169025, dexp = - 12\<rparr>"
  by (rule dec_pow2I[where ?r1.0 = "\<lparr>dsign = False, dint = 1073099169025, dexp = - 12\<rparr>"]) (simp_all add: ev_mul48 ev_fix49 del: One_nat_def)

lemma ev_fix50: "dec_fix py_context \<lparr>dsign = False, dint = 1073499169025, dexp = - 12\<rparr> = Inr \<lparr>dsign = False, dint = 1073499169025, dexp = - 12\<rparr>"
proof -
  have n: "ndigits 1073499169025 = 13" by (rule ndigits_eqI) (simp_all del: One_nat_def)
  show ?thesis by (rule dec_fix_keep[where L = 13]) (simp_all add: n py_context_simps del: One_nat_def)
qed

lemma ev_add51: "dec_add py_context \<lparr>dsign = False, dint = 400000000, dexp = - 12\<rparr> \<lparr>dsign = False, dint = 1073099169025, dexp = - 12\<rparr> = Inr \<lparr>dsign = False, dint = 1073499169025, dexp = - 12\<rparr>"
proof -
  have n1: "ndigits 400000000 = 9" by (rule ndigits_eqI) (simp_all del: One_nat_def)
  have n2: "ndigits 1073099169025 = 13" by (rule ndigits_eqI) (simp_all del: One_nat_def)
  show ?thesis
    by (simp add: dec_add_def dec_normalize_def Let_def n1 n2 py_context_simps ev_fix50 del: One_nat_def)
qed

lemma ev_fix53: "dec_fix py_context \<lparr>dsign = False, dint = 103609804990888772543858110408770898619997043024955601338176018854858769470429294271291500174510870465701089918647698089682141248986902555381959457060057618939675145588349332232423442078178877769046026, dexp = - 200\<rparr> = Inr \<lparr>dsign = False, dint = 10360980499088877254385811040877089861999704302495560133817601885485876947042929427129150017451087046570108991864769808968214124898690255538195945706005761893967514558834933223242344207817887776904603, dexp = - 199\<rparr>"
proof -
  have n: "ndigits 103609804990888772543858110408770898619997043024955601338176018854858769470429294271291500174510870465701089918647698089682141248986902555381959457060057618939675145588349332232423442078178877769046026 = 201" by (rule ndigits_eqI) (simp_all del: One_nat_def)
  show ?thesis
    by (rule dec_fix_roundI[where L = 201 and k = 1 and q = 10360980499088877254385811040877089861999704302495560133817601885485876947042929427129150017451087046570108991864769808968214124898690255538195945706005761893967514558834933223242344207817887776904602 and r = 6])
       (simp_all add: n py_context_simps del: One_nat_def)
qed

lemma ev_sqrt52: "dec_sqrt py_context \<lparr>dsign = False, dint = 1073499169025, dexp = - 12\<rparr> = Inr \<lparr>dsign = False, dint = 10360980499088877254385811040877089861999704302495560133817601885485876947042929427129150017451087046570108991864769808968214124898690255538195945706005761893967514558834933223242344207817887776904603, dexp = - 199\<rparr>"
proof -
  have n1: "ndigits 1073499169025 = 13" by (rule ndigits_eqI) (simp_all del: One_nat_def)
  show ?thesis
    by (rule dec_sqrt_inexactI[where L = 13 and c = 1073499169025 and l = 7 and shift = 194
          and n = 103609804990888772543858110408770898619997043024955601338176018854858769470429294271291500174510870465701089918647698089682141248986902555381959457060057618939675145588349332232423442078178877769046025
          and rem = 142745514087610288632378124678331193514274293507380069934668538964399668457944184019272797797007463292890575368663689609450983382531124801401776778775436774441578420096319546696936461216940361431699375
          and a = 20721960998177754508771622081754179723999408604991120267635203770971753894085858854258300034902174093140217983729539617936428249797380511076391891412011523787935029117669866446484688415635775553809205 and b = 0
          and n' = 103609804990888772543858110408770898619997043024955601338176018854858769470429294271291500174510870465701089918647698089682141248986902555381959457060057618939675145588349332232423442078178877769046026])
       (simp_all add: n1 py_context_simps ev_fix53 del: One_nat_def)
qed

lemma ev_fix55: "dec_fix py_context \<lparr>dsign = False, dint = 965159619871823799187110045269193156746859672073844448015510366313287696216615096706702363853847702010344738921934239917211390493343493954289225184992523789994604421658036897635254246145492285459629366, dexp = - 201\<rparr> = Inr \<lparr>dsign = False, dint = 96515961987182379918711004526919315674685967207384444801551036631328769621661509670670236385384770201034473892193423991721139049334349395428922518499252378999460442165803689763525424614549228545962937, dexp = - 200\<rparr>"
proof -
  have n: "ndigits 965159619871823799187110045269193156746859672073844448015510366313287696216615096706702363853847702010344738921934239917211390493343493954289225184992523789994604421658036897635254246145492285459629366 = 201" by (rule ndigits_eqI) (simp_all del: One_nat_def)
  show ?thesis
    by (rule dec_fix_roundI[where L = 201 and k = 1 and q = 96515961987182379918711004526919315674685967207384444801551036631328769621661509670670236385384770201034473892193423991721139049334349395428922518499252378999460442165803689763525424614549228545962936 and r = 6])
       (simp_all add: n py_context_simps del: One_nat_def)
qed

lemma ev_div54: "dec_div py_context \<lparr>dsign = False, dint = 1, dexp = 0\<rparr> \<lparr>dsign = False, dint = 10360980499088877254385811040877089861999704302495560133817601885485876947042929427129150017451087046570108991864769808968214124898690255538195945706005761893967514558834933223242344207817887776904603, dexp = - 199\<rparr> = Inr \<lparr>dsign = False, dint = 96515961987182379918711004526919315674685967207384444801551036631328769621661509670670236385384770201034473892193423991721139049334349395428922518499252378999460442165803689763525424614549228545962937, dexp = - 200\<rparr>"
proof -
  have n1: "ndigits 1 = 1" by (rule ndigits_eqI) (simp_all del: One_nat_def)
  have n2: "ndigits 10360980499088877254385811040877089861999704302495560133817601885485876947042929427129150017451087046570108991864769808968214124898690255538195945706005761893967514558834933223242344207817887776904603 = 200" by (rule ndigits_eqI) (simp_all del: One_nat_def)
  show ?thesis
    by (rule dec_div_inexactI[where Lx = 1 and Ly = 200 and shift = 400
          and coeff = 965159619871823799187110045269193156746859672073844448015510366313287696216615096706702363853847702010344738921934239917211390493343493954289225184992523789994604421658036897635254246145492285459629365
          and rem = 2559914019903091985086429051210781691925161625893626126456485742722845630993906754402158737622208164049736599373788334627197884026583543250532015753797334682354284907064737941419477287972220657532905
          and a = 193031923974364759837422009053838631349371934414768889603102073262657539243323019341340472770769540402068947784386847983442278098668698790857845036998504757998920884331607379527050849229098457091925873 and b = 0
          and coeff' = 965159619871823799187110045269193156746859672073844448015510366313287696216615096706702363853847702010344738921934239917211390493343493954289225184992523789994604421658036897635254246145492285459629366])
       (simp_all add: n1 n2 py_context_simps ev_fix55 del: One_nat_def)
qed

lemma ev_fix56: "dec_fix py_context \<lparr>dsign = False, dint = 99981367602332163269692323144458353703985566859965583292150726601576629094927266175395651222802010375102616677292628880143886546900699210471797981525968035667436069341766871244484804985334618596905736252985, dexp = - 206\<rparr> = Inr \<lparr>dsign = False, dint = 99981367602332163269692323144458353703985566859965583292150726601576629094927266175395651222802010375102616677292628880143886546900699210471797981525968035667436069341766871244484804985334618596905736, dexp = - 200\<rparr>"
proof -
  have n: "ndigits 99981367602332163269692323144458353703985566859965583292150726601576629094927266175395651222802010375102616677292628880143886546900699210471797981525968035667436069341766871244484804985334618596905736252985 = 206" by (rule ndigits_eqI) (simp_all del: One_nat_def)
  show ?thesis
    by (rule dec_fix_roundI[where L = 206 and k = 6 and q = 99981367602332163269692323144458353703985566859965583292150726601576629094927266175395651222802010375102616677292628880143886546900699210471797981525968035667436069341766871244484804985334618596905736 and r = 252985])
       (simp_all add: n py_context_simps del: One_nat_def)
qed

lemma ev_mul57: "dec_mul py_context \<lparr>dsign = False, dint = 1035905, dexp = - 6\<rparr> \<lparr>dsign = False, dint = 96515961987182379918711004526919315674685967207384444801551036631328769621661509670670236385384770201034473892193423991721139049334349395428922518499252378999460442165803689763525424614549228545962937, dexp = - 200\<rparr> = Inr \<lparr>dsign = False, dint = 99981367602332163269692323144458353703985566859965583292150726601576629094927266175395651222802010375102616677292628880143886546900699210471797981525968035667436069341766871244484804985334618596905736, dexp = - 200\<rparr>"
  by (rule dec_mulI[where P = 99981367602332163269692323144458353703985566859965583292150726601576629094927266175395651222802010375102616677292628880143886546900699210471797981525968035667436069341766871244484804985334618596905736252985]) (simp_all add: ev_fix56 del: One_nat_def)

lemma ev_mul58: "dec_mul py_context \<lparr>dsign = False, dint = 0, dexp = 0\<rparr> \<lparr>dsign = False, dint = 1035905, dexp = - 6\<rparr> = Inr \<lparr>dsign = False, dint = 0, dexp = - 6\<rparr>"
  by (rule dec_mulI[where P = 0]) (simp_all add: ev_fix33 del: One_nat_def)

lemma ev_fix59: "dec_fix py_context \<lparr>dsign = False, dint = 96515961987182379918711004526919315674685967207384444801551036631328769621661509670670236385384770201034473892193423991721139049334349395428922518499252378999460442165803689763525424614549228545962937000000, dexp = - 206\<rparr> = Inr \<lparr>dsign = False, dint = 96515961987182379918711004526919315674685967207384444801551036631328769621661509670670236385384770201034473892193423991721139049334349395428922518499252378999460442165803689763525424614549228545962937, dexp = - 200\<rparr>"
proof -
  have n: "ndigits 96515961987182379918711004526919315674685967207384444801551036631328769621661509670670236385384770201034473892193423991721139049334349395428922518499252378999460442165803689763525424614549228545962937000000 = 206" by (rule ndigits_eqI) (simp_all del: One_nat_def)
  show ?thesis
    by (rule dec_fix_roundI[where L = 206 and k = 6 and q = 96515961987182379918711004526919315674685967207384444801551036631328769621661509670670236385384770201034473892193423991721139049334349395428922518499252378999460442165803689763525424614549228545962937 and r = 0])
       (simp_all add: n py_context_simps del: One_nat_def)
qed

lemma ev_mul60: "dec_mul py_context \<lparr>dsign = False, dint = 1000000, dexp = - 6\<rparr> \<lparr>dsign = False, dint = 96515961987182379918711004526919315674685967207384444801551036631328769621661509670670236385384770201034473892193423991721139049334349395428922518499252378999460442165803689763525424614549228545962937, dexp = - 200\<rparr> = Inr \<lparr>dsign = False, dint = 96515961987182379918711004526919315674685967207384444801551036631328769621661509670670236385384770201034473892193423991721139049334349395428922518499252378999460442165803689763525424614549228545962937, dexp = - 200\<rparr>"
  by (rule dec_mulI[where P = 96515961987182379918711004526919315674685967207384444801551036631328769621661509670670236385384770201034473892193423991721139049334349395428922518499252378999460442165803689763525424614549228545962937000000]) (simp_all add: ev_fix59 del: One_nat_def)

lemma ev_fix62: "dec_fix py_context \<lparr>dsign = False, dint = 193031923974364759837422009053838631349371934414768889603102073262657539243323019341340472770769540402068947784386847983442278098668698790857845036998504757998920884331607379527050849229098457091925874, dexp = - 202\<rparr> = Inr \<lparr>dsign = False, dint = 19303192397436475983742200905383863134937193441476888960310207326265753924332301934134047277076954040206894778438684798344227809866869879085784503699850475799892088433160737952705084922909845709192587, dexp = - 201\<rparr>"
proof -
  have n: "ndigits 193031923974364759837422009053838631349371934414768889603102073262657539243323019341340472770769540402068947784386847983442278098668698790857845036998504757998920884331607379527050849229098457091925874 = 201" by (rule ndigits_eqI) (simp_all del: One_nat_def)
  show ?thesis
    by (rule dec_fix_roundI[where L = 201 and k = 1 and q = 19303192397436475983742200905383863134937193441476888960310207326265753924332301934134047277076954040206894778438684798344227809866869879085784503699850475799892088433160737952705084922909845709192587 and r = 4])
       (simp_all add: n py_context_simps del: One_nat_def)
qed

lemma ev_div61: "dec_div py_context \<lparr>dsign = False, dint = 96515961987182379918711004526919315674685967207384444801551036631328769621661509670670236385384770201034473892193423991721139049334349395428922518499252378999460442165803689763525424614549228545962937, dexp = - 200\<rparr> \<lparr>dsign = False, dint = 50, dexp = 0\<rparr> = Inr \<lparr>dsign = False, dint = 19303192397436475983742200905383863134937193441476888960310207326265753924332301934134047277076954040206894778438684798344227809866869879085784503699850475799892088433160737952705084922909845709192587, dexp = - 201\<rparr>"
proof -
  have n1: "ndigits 96515961987182379918711004526919315674685967207384444801551036631328769621661509670670236385384770201034473892193423991721139049334349395428922518499252378999460442165803689763525424614549228545962937 = 200" by (rule ndigits_eqI) (simp_all del: One_nat_def)
  have n2: "ndigits 50 = 2" by (rule ndigits_eqI) (simp_all del: One_nat_def)
  have m: "193031923974364759837422009053838631349371934414768889603102073262657539243323019341340472770769540402068947784386847983442278098668698790857845036998504757998920884331607379527050849229098457091925874 mod (10::nat) = 4"
    by (rule div_mod_eqI(2)[where a = 19303192397436475983742200905383863134937193441476888960310207326265753924332301934134047277076954040206894778438684798344227809866869879085784503699850475799892088433160737952705084922909845709192587]) (simp_all del: One_nat_def)
  show ?thesis
    by (rule dec_div_exactI[where Lx = 200 and Ly = 2 and shift = 3
          and c' = 193031923974364759837422009053838631349371934414768889603102073262657539243323019341340472770769540402068947784386847983442278098668698790857845036998504757998920884331607379527050849229098457091925874 and j = 1 and e' = "- 202"])
       (simp_all add: n1 n2 m py_context_simps ev_fix62 del: One_nat_def)
qed

lemma tauAlpha_eval: "compute_tau py_arith \<lparr>dsign = False, dint = 1, dexp = 0\<rparr> \<lparr>dsign = False, dint = 0, dexp = 0\<rparr> \<lparr>dsign = False, dint = 50, dexp = 0\<rparr> \<lparr>dsign = False, dint = 1, dexp = 0\<rparr> \<lparr>dsign = False, dint = 1035905, dexp = - 6\<rparr> = Inr (\<lparr>dsign = False, dint = 99981367602332163269692323144458353703985566859965583292150726601576629094927266175395651222802010375102616677292628880143886546900699210471797981525968035667436069341766871244484804985334618596905736, dexp = - 200\<rparr>, \<lparr>dsign = False, dint = 19303192397436475983742200905383863134937193441476888960310207326265753924332301934134047277076954040206894778438684798344227809866869879085784503699850475799892088433160737952705084922909845709192587, dexp = - 201\<rparr>)"
  by (simp add: compute_tau_def arith_simps
      ev_div31 ev_div32 ev_mul34 ev_add36 ev_pow37 ev_pow38 ev_div42 ev_mul44 ev_sub45 ev_pow46 ev_add51 ev_sqrt52 ev_div54 ev_mul57 ev_mul58 ev_mul60 ev_div61 del: One_nat_def)

lemma ev_mul63: "dec_mul py_context \<lparr>dsign = False, dint = 1144947, dexp = - 6\<rparr> \<lparr>dsign = False, dint = 0, dexp = 0\<rparr> = Inr \<lparr>dsign = False, dint = 0, dexp = - 6\<rparr>"
  by (rule dec_mulI[where P = 0]) (simp_all add: ev_fix33 del: One_nat_def)

lemma ev_mul64: "dec_mul py_context \<lparr>dsign = False, dint = 1144947, dexp = - 6\<rparr> \<lparr>dsign = False, dint = 1, dexp = 0\<rparr> = Inr \<lparr>dsign = False, dint = 1144947, dexp = - 6\<rparr>"
  by (rule dec_mulI[where P = 1144947]) (simp_all add: ev_fix4 del: One_nat_def)

lemma ev_sub65: "dec_sub py_context \<lparr>dsign = False, dint = 1144947, dexp = - 6\<rparr> \<lparr>dsign = False, dint = 0, dexp = 0\<rparr> = Inr \<lparr>dsign = False, dint = 1144947, dexp = - 6\<rparr>"
proof -
  show ?thesis
    by (simp add: dec_sub_def dec_add_def dec_normalize_def Let_def py_context_simps ev_fix4 del: One_nat_def)
qed

lemma ev_fix67: "dec_fix (work_context py_context 2) \<lparr>dsign = False, dint = 1310903632809, dexp = - 12\<rparr> = Inr \<lparr>dsign = False, dint = 1310903632809, dexp = - 12\<rparr>"
proof -
  have n: "ndigits 1310903632809 = 13" by (rule ndigits_eqI) (simp_all del: One_nat_def)
  show ?thesis by (rule dec_fix_keep[where L = 13]) (simp_all add: n work2_simps del: One_nat_def)
qed

lemma ev_mul68: "dec_mul (work_context py_context 2) \<lparr>dsign = False, dint = 1144947, dexp = - 6\<rparr> \<lparr>dsign = False, dint = 1144947, dexp = - 6\<rparr> = Inr \<lparr>dsign = False, dint = 1310903632809, dexp = - 12\<rparr>"
  by (rule dec_mulI[where P = 1310903632809]) (simp_all add: ev_fix67 del: One_nat_def)

lemma ev_fix69: "dec_fix py_context \<lparr>dsign = False, dint = 1310903632809, dexp = - 12\<rparr> = Inr \<lparr>dsign = False, dint = 1310903632809, dexp = - 12\<rparr>"
proof -
  have n: "ndigits 1310903632809 = 13" by (rule ndigits_eqI) (simp_all del: One_nat_def)
  show ?thesis by (rule dec_fix_keep[where L = 13]) (simp_all add: n py_context_simps del: One_nat_def)
qed

lemma ev_pow66: "dec_pow py_context \<lparr>dsign = False, dint = 1144947, dexp = - 6\<rparr> 2 = Inr \<lparr>dsign = False, dint = 1310903632809, dexp = - 12\<rparr>"
  by (rule dec_pow2I[where ?r1.0 = "\<lparr>dsign = False, dint = 1310903632809, dexp = - 12\<rparr>"]) (simp_all add: ev_mul68 ev_fix69 del: One_nat_def)

lemma ev_fix70: "dec_fix py_context \<lparr>dsign = False, dint = 1311303632809, dexp = - 12\<rparr> = Inr \<lparr>dsign = False, dint = 1311303632809, dexp = - 12\<rparr>"
proof -
  have n: "ndigits 1311303632809 = 13" by (rule ndigits_eqI) (simp_all del: One_nat_def)
  show ?thesis by (rule dec_fix_keep[where L = 13]) (simp_all add: n py_context_simps del: One_nat_def)
qed

lemma ev_add71: "dec_add py_context \<lparr>dsign = False, dint = 400000000, dexp = - 12\<rparr> \<lparr>dsign = False, dint = 1310903632809, dexp = - 12\<rparr> = Inr \<lparr>dsign = False, dint = 1311303632809, dexp = - 12\<rparr>"
proof -
  have n1: "ndigits 400000000 = 9" by (rule ndigits_eqI) (simp_all del: One_nat_def)
  have n2: "ndigits 1310903632809 = 13" by (rule ndigits_eqI) (simp_all del: One_nat_def)
  show ?thesis
    by (simp add: dec_add_def dec_normalize_def Let_def n1 n2 py_context_simps ev_fix70 del: One_nat_def)
qed

lemma ev_fix73: "dec_fix py_context \<lparr>dsign = False, dint = 114512166725156327381617691426796101244902822276258914273395281415974986663759585727840882790319380485089190481428668592762227616999844231529925005195038209627269133145676033973531975870252631050228537, dexp = - 200\<rparr> = Inr \<lparr>dsign = False, dint = 11451216672515632738161769142679610124490282227625891427339528141597498666375958572784088279031938048508919048142866859276222761699984423152992500519503820962726913314567603397353197587025263105022854, dexp = - 199\<rparr>"
proof -
  have n: "ndigits 114512166725156327381617691426796101244902822276258914273395281415974986663759585727840882790319380485089190481428668592762227616999844231529925005195038209627269133145676033973531975870252631050228537 = 201" by (rule ndigits_eqI) (simp_all del: One_nat_def)
  show ?thesis
    by (rule dec_fix_roundI[where L = 201 and k = 1 and q = 11451216672515632738161769142679610124490282227625891427339528141597498666375958572784088279031938048508919048142866859276222761699984423152992500519503820962726913314567603397353197587025263105022853 and r = 7])
       (simp_all add: n py_context_simps del: One_nat_def)
qed

lemma ev_sqrt72: "dec_sqrt py_context \<lparr>dsign = False, dint = 1311303632809, dexp = - 12\<rparr> = Inr \<lparr>dsign = False, dint = 11451216672515632738161769142679610124490282227625891427339528141597498666375958572784088279031938048508919048142866859276222761699984423152992500519503820962726913314567603397353197587025263105022854, dexp = - 199\<rparr>"
proof -
  have n1: "ndigits 1311303632809 = 13" by (rule ndigits_eqI) (simp_all del: One_nat_def)
  show ?thesis
    by (rule dec_sqrt_inexactI[where L = 13 and c = 1311303632809 and l = 7 and shift = 194
          and n = 114512166725156327381617691426796101244902822276258914273395281415974986663759585727840882790319380485089190481428668592762227616999844231529925005195038209627269133145676033973531975870252631050228537
          and rem = 215554717463661162819942530581804126934487303069880246111122491404092881200073194484980515626997876042463650573393381899358782950340784899705037685031343306248045172905002292496213656046415400070839631
          and a = 22902433345031265476323538285359220248980564455251782854679056283194997332751917145568176558063876097017838096285733718552445523399968846305985001039007641925453826629135206794706395174050526210045707 and b = 2
          and n' = 114512166725156327381617691426796101244902822276258914273395281415974986663759585727840882790319380485089190481428668592762227616999844231529925005195038209627269133145676033973531975870252631050228537])
       (simp_all add: n1 py_context_simps ev_fix73 del: One_nat_def)
qed

lemma ev_fix75: "dec_fix py_context \<lparr>dsign = False, dint = 873269652123626639393127954822076247401081352770259335591326274665856267858577956398750568835917473202449475861365615401404983914710769540748315027533604237739200819300214427318421617093426324219700981, dexp = - 201\<rparr> = Inr \<lparr>dsign = False, dint = 87326965212362663939312795482207624740108135277025933559132627466585626785857795639875056883591747320244947586136561540140498391471076954074831502753360423773920081930021442731842161709342632421970098, dexp = - 200\<rparr>"
proof -
  have n: "ndigits 873269652123626639393127954822076247401081352770259335591326274665856267858577956398750568835917473202449475861365615401404983914710769540748315027533604237739200819300214427318421617093426324219700981 = 201" by (rule ndigits_eqI) (simp_all del: One_nat_def)
  show ?thesis
    by (rule dec_fix_roundI[where L = 201 and k = 1 and q = 87326965212362663939312795482207624740108135277025933559132627466585626785857795639875056883591747320244947586136561540140498391471076954074831502753360423773920081930021442731842161709342632421970098 and r = 1])
       (simp_all add: n py_context_simps del: One_nat_def)
qed

lemma ev_div74: "dec_div py_context \<lparr>dsign = False, dint = 1, dexp = 0\<rparr> \<lparr>dsign = False, dint = 11451216672515632738161769142679610124490282227625891427339528141597498666375958572784088279031938048508919048142866859276222761699984423152992500519503820962726913314567603397353197587025263105022854, dexp = - 199\<rparr> = Inr \<lparr>dsign = False, dint = 87326965212362663939312795482207624740108135277025933559132627466585626785857795639875056883591747320244947586136561540140498391471076954074831502753360423773920081930021442731842161709342632421970098, dexp = - 200\<rparr>"
proof -
  have n1: "ndigits 1 = 1" by (rule ndigits_eqI) (simp_all del: One_nat_def)
  have n2: "ndigits 11451216672515632738161769142679610124490282227625891427339528141597498666375958572784088279031938048508919048142866859276222761699984423152992500519503820962726913314567603397353197587025263105022854 = 200" by (rule ndigits_eqI) (simp_all del: One_nat_def)
  show ?thesis
    by (rule dec_div_inexactI[where Lx = 1 and Ly = 200 and shift = 400
          and coeff = 873269652123626639393127954822076247401081352770259335591326274665856267858577956398750568835917473202449475861365615401404983914710769540748315027533604237739200819300214427318421617093426324219700981
          and rem = 1665659057334903245289337780918008333538075444325547033775631012816112009190899658694479606913012885973965532267456023158598816161311554445872267777431580490885729929314653266973687638834676948780226
          and a = 174653930424725327878625590964415249480216270554051867118265254933171253571715591279750113767183494640489895172273123080280996782942153908149663005506720847547840163860042885463684323418685264843940196 and b = 1
          and coeff' = 873269652123626639393127954822076247401081352770259335591326274665856267858577956398750568835917473202449475861365615401404983914710769540748315027533604237739200819300214427318421617093426324219700981])
       (simp_all add: n1 n2 py_context_simps ev_fix75 del: One_nat_def)
qed

lemma ev_fix76: "dec_fix py_context \<lparr>dsign = False, dint = 99984746838998994989324367248967173323312589161025011550728224419984813631587525544488026753697720319072492003904297725699243211819635145337116104582951757118678476045532260791494487522626718963637397794806, dexp = - 206\<rparr> = Inr \<lparr>dsign = False, dint = 99984746838998994989324367248967173323312589161025011550728224419984813631587525544488026753697720319072492003904297725699243211819635145337116104582951757118678476045532260791494487522626718963637398, dexp = - 200\<rparr>"
proof -
  have n: "ndigits 99984746838998994989324367248967173323312589161025011550728224419984813631587525544488026753697720319072492003904297725699243211819635145337116104582951757118678476045532260791494487522626718963637397794806 = 206" by (rule ndigits_eqI) (simp_all del: One_nat_def)
  show ?thesis
    by (rule dec_fix_roundI[where L = 206 and k = 6 and q = 99984746838998994989324367248967173323312589161025011550728224419984813631587525544488026753697720319072492003904297725699243211819635145337116104582951757118678476045532260791494487522626718963637397 and r = 794806])
       (simp_all add: n py_context_simps del: One_nat_def)
qed

lemma ev_mul77: "dec_mul py_context \<lparr>dsign = False, dint = 1144947, dexp = - 6\<rparr> \<lparr>dsign = False, dint = 87326965212362663939312795482207624740108135277025933559132627466585626785857795639875056883591747320244947586136561540140498391471076954074831502753360423773920081930021442731842161709342632421970098, dexp = - 200\<rparr> = Inr \<lparr>dsign = False, dint = 99984746838998994989324367248967173323312589161025011550728224419984813631587525544488026753697720319072492003904297725699243211819635145337116104582951757118678476045532260791494487522626718963637398, dexp = - 200\<rparr>"
  by (rule dec_mulI[where P = 99984746838998994989324367248967173323312589161025011550728224419984813631587525544488026753697720319072492003904297725699243211819635145337116104582951757118678476045532260791494487522626718963637397794806]) (simp_all add: ev_fix76 del: One_nat_def)

lemma ev_mul78: "dec_mul py_context \<lparr>dsign = False, dint = 0, dexp = 0\<rparr> \<lparr>dsign = False, dint = 1144947, dexp = - 6\<rparr> = Inr \<lparr>dsign = False, dint = 0, dexp = - 6\<rparr>"
  by (rule dec_mulI[where P = 0]) (simp_all add: ev_fix33 del: One_nat_def)

lemma ev_fix79: "dec_fix py_context \<lparr>dsign = False, dint = 87326965212362663939312795482207624740108135277025933559132627466585626785857795639875056883591747320244947586136561540140498391471076954074831502753360423773920081930021442731842161709342632421970098000000, dexp = - 206\<rparr> = Inr \<lparr>dsign = False, dint = 87326965212362663939312795482207624740108135277025933559132627466585626785857795639875056883591747320244947586136561540140498391471076954074831502753360423773920081930021442731842161709342632421970098, dexp = - 200\<rparr>"
proof -
  have n: "ndigits 87326965212362663939312795482207624740108135277025933559132627466585626785857795639875056883591747320244947586136561540140498391471076954074831502753360423773920081930021442731842161709342632421970098000000 = 206" by (rule ndigits_eqI) (simp_all del: One_nat_def)
  show ?thesis
    by (rule dec_fix_roundI[where L = 206 and k = 6 and q = 87326965212362663939312795482207624740108135277025933559132627466585626785857795639875056883591747320244947586136561540140498391471076954074831502753360423773920081930021442731842161709342632421970098 and r = 0])
       (simp_all add: n py_context_simps del: One_nat_def)
qed

lemma ev_mul80: "dec_mul py_context \<lparr>dsign = False, dint = 1000000, dexp = - 6\<rparr> \<lparr>dsign = False, dint = 87326965212362663939312795482207624740108135277025933559132627466585626785857795639875056883591747320244947586136561540140498391471076954074831502753360423773920081930021442731842161709342632421970098, dexp = - 200\<rparr> = Inr \<lparr>dsign = False, dint = 87326965212362663939312795482207624740108135277025933559132627466585626785857795639875056883591747320244947586136561540140498391471076954074831502753360423773920081930021442731842161709342632421970098, dexp = - 200\<rparr>"
  by (rule dec_mulI[where P = 87326965212362663939312795482207624740108135277025933559132627466585626785857795639875056883591747320244947586136561540140498391471076954074831502753360423773920081930021442731842161709342632421970098000000]) (simp_all add: ev_fix79 del: One_nat_def)

lemma ev_fix82: "dec_fix py_context \<lparr>dsign = False, dint = 174653930424725327878625590964415249480216270554051867118265254933171253571715591279750113767183494640489895172273123080280996782942153908149663005506720847547840163860042885463684323418685264843940196, dexp = - 202\<rparr> = Inr \<lparr>dsign = False, dint = 17465393042472532787862559096441524948021627055405186711826525493317125357171559127975011376718349464048989517227312308028099678294215390814966300550672084754784016386004288546368432341868526484394020, dexp = - 201\<rparr>"
proof -
  have n: "ndigits 174653930424725327878625590964415249480216270554051867118265254933171253571715591279750113767183494640489895172273123080280996782942153908149663005506720847547840163860042885463684323418685264843940196 = 201" by (rule ndigits_eqI) (simp_all del: One_nat_def)
  show ?thesis
    by (rule dec_fix_roundI[where L = 201 and k = 1 and q = 17465393042472532787862559096441524948021627055405186711826525493317125357171559127975011376718349464048989517227312308028099678294215390814966300550672084754784016386004288546368432341868526484394019 and r = 6])
       (simp_all add: n py_context_simps del: One_nat_def)
qed

lemma ev_div81: "dec_div py_context \<lparr>dsign = False, dint = 87326965212362663939312795482207624740108135277025933559132627466585626785857795639875056883591747320244947586136561540140498391471076954074831502753360423773920081930021442731842161709342632421970098, dexp = - 200\<rparr> \<lparr>dsign = False, dint = 50, dexp = 0\<rparr> = Inr \<lparr>dsign = False, dint = 17465393042472532787862559096441524948021627055405186711826525493317125357171559127975011376718349464048989517227312308028099678294215390814966300550672084754784016386004288546368432341868526484394020, dexp = - 201\<rparr>"
proof -
  have n1: "ndigits 87326965212362663939312795482207624740108135277025933559132627466585626785857795639875056883591747320244947586136561540140498391471076954074831502753360423773920081930021442731842161709342632421970098 = 200" by (rule ndigits_eqI) (simp_all del: One_nat_def)
  have n2: "ndigits 50 = 2" by (rule ndigits_eqI) (simp_all del: One_nat_def)
  have m: "174653930424725327878625590964415249480216270554051867118265254933171253571715591279750113767183494640489895172273123080280996782942153908149663005506720847547840163860042885463684323418685264843940196 mod (10::nat) = 6"
    by (rule div_mod_eqI(2)[where a = 17465393042472532787862559096441524948021627055405186711826525493317125357171559127975011376718349464048989517227312308028099678294215390814966300550672084754784016386004288546368432341868526484394019]) (simp_all del: One_nat_def)
  show ?thesis
    by (rule dec_div_exactI[where Lx = 200 and Ly = 2 and shift = 3
          and c' = 174653930424725327878625590964415249480216270554051867118265254933171253571715591279750113767183494640489895172273123080280996782942153908149663005506720847547840163860042885463684323418685264843940196 and j = 1 and e' = "- 202"])
       (simp_all add: n1 n2 m py_context_simps ev_fix82 del: One_nat_def)
qed

lemma tauBeta_eval: "compute_tau py_arith \<lparr>dsign = False, dint = 1, dexp = 0\<rparr> \<lparr>dsign = False, dint = 0, dexp = 0\<rparr> \<lparr>dsign = False, dint = 50, dexp = 0\<rparr> \<lparr>dsign = False, dint = 1, dexp = 0\<rparr> \<lparr>dsign = False, dint = 1144947, dexp = - 6\<rparr> = Inr (\<lparr>dsign = False, dint = 99984746838998994989324367248967173323312589161025011550728224419984813631587525544488026753697720319072492003904297725699243211819635145337116104582951757118678476045532260791494487522626718963637398, dexp = - 200\<rparr>, \<lparr>dsign = False, dint = 17465393042472532787862559096441524948021627055405186711826525493317125357171559127975011376718349464048989517227312308028099678294215390814966300550672084754784016386004288546368432341868526484394020, dexp = - 201\<rparr>)"
  by (simp add: compute_tau_def arith_simps
      ev_div31 ev_div32 ev_mul63 ev_add36 ev_pow37 ev_pow38 ev_div42 ev_mul64 ev_sub65 ev_pow66 ev_add71 ev_sqrt72 ev_div74 ev_mul77 ev_mul78 ev_mul80 ev_div81 del: One_nat_def)

lemma ev_mul83: "dec_mul py_context \<lparr>dsign = False, dint = 0, dexp = 0\<rparr> \<lparr>dsign = False, dint = 1, dexp = 0\<rparr> = Inr \<lparr>dsign = False, dint = 0, dexp = 0\<rparr>"
  by (rule dec_mulI[where P = 0]) (simp_all add: ev_fix8 del: One_nat_def)

lemma ev_fix84: "dec_fix py_context \<lparr>dsign = False, dint = 3379236666831719632044104508819619327022301059428258577497818408184536660259369092375530895709943969875326611668845555356664918935934865318123056983721451242406703765389547009682537292100366731662, dexp = - 200\<rparr> = Inr \<lparr>dsign = False, dint = 3379236666831719632044104508819619327022301059428258577497818408184536660259369092375530895709943969875326611668845555356664918935934865318123056983721451242406703765389547009682537292100366731662, dexp = - 200\<rparr>"
proof -
  have n: "ndigits 3379236666831719632044104508819619327022301059428258577497818408184536660259369092375530895709943969875326611668845555356664918935934865318123056983721451242406703765389547009682537292100366731662 = 196" by (rule ndigits_eqI) (simp_all del: One_nat_def)
  show ?thesis by (rule dec_fix_keep[where L = 196]) (simp_all add: n py_context_simps del: One_nat_def)
qed

lemma ev_sub85: "dec_sub py_context \<lparr>dsign = False, dint = 99984746838998994989324367248967173323312589161025011550728224419984813631587525544488026753697720319072492003904297725699243211819635145337116104582951757118678476045532260791494487522626718963637398, dexp = - 200\<rparr> \<lparr>dsign = False, dint = 99981367602332163269692323144458353703985566859965583292150726601576629094927266175395651222802010375102616677292628880143886546900699210471797981525968035667436069341766871244484804985334618596905736, dexp = - 200\<rparr> = Inr \<lparr>dsign = False, dint = 3379236666831719632044104508819619327022301059428258577497818408184536660259369092375530895709943969875326611668845555356664918935934865318123056983721451242406703765389547009682537292100366731662, dexp = - 200\<rparr>"
proof -
  have n1: "ndigits 99984746838998994989324367248967173323312589161025011550728224419984813631587525544488026753697720319072492003904297725699243211819635145337116104582951757118678476045532260791494487522626718963637398 = 200" by (rule ndigits_eqI) (simp_all del: One_nat_def)
  have n2: "ndigits 99981367602332163269692323144458353703985566859965583292150726601576629094927266175395651222802010375102616677292628880143886546900699210471797981525968035667436069341766871244484804985334618596905736 = 200" by (rule ndigits_eqI) (simp_all del: One_nat_def)
  show ?thesis
    by (simp add: dec_sub_def dec_add_def dec_normalize_def Let_def n1 n2 py_context_simps ev_fix84 del: One_nat_def)
qed

lemma ev_fix86: "dec_fix py_context \<lparr>dsign = False, dint = 0, dexp = - 200\<rparr> = Inr \<lparr>dsign = False, dint = 0, dexp = - 200\<rparr>"
  by (simp add: dec_fix_zero py_context_simps del: One_nat_def)

lemma ev_mul87: "dec_mul py_context \<lparr>dsign = False, dint = 0, dexp = 0\<rparr> \<lparr>dsign = False, dint = 3379236666831719632044104508819619327022301059428258577497818408184536660259369092375530895709943969875326611668845555356664918935934865318123056983721451242406703765389547009682537292100366731662, dexp = - 200\<rparr> = Inr \<lparr>dsign = False, dint = 0, dexp = - 200\<rparr>"
  by (rule dec_mulI[where P = 0]) (simp_all add: ev_fix86 del: One_nat_def)

lemma ev_fix88: "dec_fix py_context \<lparr>dsign = False, dint = 0, dexp = - 201\<rparr> = Inr \<lparr>dsign = False, dint = 0, dexp = - 201\<rparr>"
  by (simp add: dec_fix_zero py_context_simps del: One_nat_def)

lemma ev_mul89: "dec_mul py_context \<lparr>dsign = False, dint = 0, dexp = 0\<rparr> \<lparr>dsign = False, dint = 17465393042472532787862559096441524948021627055405186711826525493317125357171559127975011376718349464048989517227312308028099678294215390814966300550672084754784016386004288546368432341868526484394020, dexp = - 201\<rparr> = Inr \<lparr>dsign = False, dint = 0, dexp = - 201\<rparr>"
  by (rule dec_mulI[where P = 0]) (simp_all add: ev_fix88 del: One_nat_def)

lemma ev_fix90: "dec_fix py_context \<lparr>dsign = False, dint = 19303192397436475983742200905383863134937193441476888960310207326265753924332301934134047277076954040206894778438684798344227809866869879085784503699850475799892088433160737952705084922909845709192587, dexp = - 201\<rparr> = Inr \<lparr>dsign = False, dint = 19303192397436475983742200905383863134937193441476888960310207326265753924332301934134047277076954040206894778438684798344227809866869879085784503699850475799892088433160737952705084922909845709192587, dexp = - 201\<rparr>"
proof -
  have n: "ndigits 19303192397436475983742200905383863134937193441476888960310207326265753924332301934134047277076954040206894778438684798344227809866869879085784503699850475799892088433160737952705084922909845709192587 = 200" by (rule ndigits_eqI) (simp_all del: One_nat_def)
  show ?thesis by (rule dec_fix_keep[where L = 200]) (simp_all add: n py_context_simps del: One_nat_def)
qed

lemma ev_mul91: "dec_mul py_context \<lparr>dsign = False, dint = 1, dexp = 0\<rparr> \<lparr>dsign = False, dint = 19303192397436475983742200905383863134937193441476888960310207326265753924332301934134047277076954040206894778438684798344227809866869879085784503699850475799892088433160737952705084922909845709192587, dexp = - 201\<rparr> = Inr \<lparr>dsign = False, dint = 19303192397436475983742200905383863134937193441476888960310207326265753924332301934134047277076954040206894778438684798344227809866869879085784503699850475799892088433160737952705084922909845709192587, dexp = - 201\<rparr>"
  by (rule dec_mulI[where P = 19303192397436475983742200905383863134937193441476888960310207326265753924332301934134047277076954040206894778438684798344227809866869879085784503699850475799892088433160737952705084922909845709192587]) (simp_all add: ev_fix90 del: One_nat_def)

lemma ev_add92: "dec_add py_context \<lparr>dsign = False, dint = 0, dexp = - 201\<rparr> \<lparr>dsign = False, dint = 19303192397436475983742200905383863134937193441476888960310207326265753924332301934134047277076954040206894778438684798344227809866869879085784503699850475799892088433160737952705084922909845709192587, dexp = - 201\<rparr> = Inr \<lparr>dsign = False, dint = 19303192397436475983742200905383863134937193441476888960310207326265753924332301934134047277076954040206894778438684798344227809866869879085784503699850475799892088433160737952705084922909845709192587, dexp = - 201\<rparr>"
proof -
  show ?thesis
    by (simp add: dec_add_def dec_normalize_def Let_def py_context_simps ev_fix90 del: One_nat_def)
qed

lemma ev_fix93: "dec_fix py_context \<lparr>dsign = True, dint = 1837799354963943195879641808942338186915566386071702248483681832948628567160742806159035900358604576157905261211372490316128131572654488270818203149178391045108072047156449406336652581041319224798567, dexp = - 201\<rparr> = Inr \<lparr>dsign = True, dint = 1837799354963943195879641808942338186915566386071702248483681832948628567160742806159035900358604576157905261211372490316128131572654488270818203149178391045108072047156449406336652581041319224798567, dexp = - 201\<rparr>"
proof -
  have n: "ndigits 1837799354963943195879641808942338186915566386071702248483681832948628567160742806159035900358604576157905261211372490316128131572654488270818203149178391045108072047156449406336652581041319224798567 = 199" by (rule ndigits_eqI) (simp_all del: One_nat_def)
  show ?thesis by (rule dec_fix_keep[where L = 199]) (simp_all add: n py_context_simps del: One_nat_def)
qed

lemma ev_sub94: "dec_sub py_context \<lparr>dsign = False, dint = 17465393042472532787862559096441524948021627055405186711826525493317125357171559127975011376718349464048989517227312308028099678294215390814966300550672084754784016386004288546368432341868526484394020, dexp = - 201\<rparr> \<lparr>dsign = False, dint = 19303192397436475983742200905383863134937193441476888960310207326265753924332301934134047277076954040206894778438684798344227809866869879085784503699850475799892088433160737952705084922909845709192587, dexp = - 201\<rparr> = Inr \<lparr>dsign = True, dint = 1837799354963943195879641808942338186915566386071702248483681832948628567160742806159035900358604576157905261211372490316128131572654488270818203149178391045108072047156449406336652581041319224798567, dexp = - 201\<rparr>"
proof -
  have n1: "ndigits 17465393042472532787862559096441524948021627055405186711826525493317125357171559127975011376718349464048989517227312308028099678294215390814966300550672084754784016386004288546368432341868526484394020 = 200" by (rule ndigits_eqI) (simp_all del: One_nat_def)
  have n2: "ndigits 19303192397436475983742200905383863134937193441476888960310207326265753924332301934134047277076954040206894778438684798344227809866869879085784503699850475799892088433160737952705084922909845709192587 = 200" by (rule ndigits_eqI) (simp_all del: One_nat_def)
  show ?thesis
    by (simp add: dec_sub_def dec_add_def dec_normalize_def Let_def n1 n2 py_context_simps ev_fix93 del: One_nat_def)
qed

lemma ev_fix95: "dec_fix py_context \<lparr>dsign = True, dint = 0, dexp = - 201\<rparr> = Inr \<lparr>dsign = True, dint = 0, dexp = - 201\<rparr>"
  by (simp add: dec_fix_zero py_context_simps del: One_nat_def)

lemma ev_mul96: "dec_mul py_context \<lparr>dsign = False, dint = 0, dexp = 0\<rparr> \<lparr>dsign = True, dint = 1837799354963943195879641808942338186915566386071702248483681832948628567160742806159035900358604576157905261211372490316128131572654488270818203149178391045108072047156449406336652581041319224798567, dexp = - 201\<rparr> = Inr \<lparr>dsign = True, dint = 0, dexp = - 201\<rparr>"
  by (rule dec_mulI[where P = 0]) (simp_all add: ev_fix95 del: One_nat_def)

lemma ev_fix97: "dec_fix py_context \<lparr>dsign = False, dint = 99984746838998994989324367248967173323312589161025011550728224419984813631587525544488026753697720319072492003904297725699243211819635145337116104582951757118678476045532260791494487522626718963637398, dexp = - 200\<rparr> = Inr \<lparr>dsign = False, dint = 99984746838998994989324367248967173323312589161025011550728224419984813631587525544488026753697720319072492003904297725699243211819635145337116104582951757118678476045532260791494487522626718963637398, dexp = - 200\<rparr>"
proof -
  have n: "ndigits 99984746838998994989324367248967173323312589161025011550728224419984813631587525544488026753697720319072492003904297725699243211819635145337116104582951757118678476045532260791494487522626718963637398 = 200" by (rule ndigits_eqI) (simp_all del: One_nat_def)
  show ?thesis by (rule dec_fix_keep[where L = 200]) (simp_all add: n py_context_simps del: One_nat_def)
qed

lemma ev_mul98: "dec_mul py_context \<lparr>dsign = False, dint = 1, dexp = 0\<rparr> \<lparr>dsign = False, dint = 99984746838998994989324367248967173323312589161025011550728224419984813631587525544488026753697720319072492003904297725699243211819635145337116104582951757118678476045532260791494487522626718963637398, dexp = - 200\<rparr> = Inr \<lparr>dsign = False, dint = 99984746838998994989324367248967173323312589161025011550728224419984813631587525544488026753697720319072492003904297725699243211819635145337116104582951757118678476045532260791494487522626718963637398, dexp = - 200\<rparr>"
  by (rule dec_mulI[where P = 99984746838998994989324367248967173323312589161025011550728224419984813631587525544488026753697720319072492003904297725699243211819635145337116104582951757118678476045532260791494487522626718963637398]) (simp_all add: ev_fix97 del: One_nat_def)

lemma ev_mul99: "dec_mul py_context \<lparr>dsign = False, dint = 0, dexp = 0\<rparr> \<lparr>dsign = False, dint = 99981367602332163269692323144458353703985566859965583292150726601576629094927266175395651222802010375102616677292628880143886546900699210471797981525968035667436069341766871244484804985334618596905736, dexp = - 200\<rparr> = Inr \<lparr>dsign = False, dint = 0, dexp = - 200\<rparr>"
  by (rule dec_mulI[where P = 0]) (simp_all add: ev_fix86 del: One_nat_def)

lemma ev_add100: "dec_add py_context \<lparr>dsign = False, dint = 99984746838998994989324367248967173323312589161025011550728224419984813631587525544488026753697720319072492003904297725699243211819635145337116104582951757118678476045532260791494487522626718963637398, dexp = - 200\<rparr> \<lparr>dsign = False, dint = 0, dexp = - 200\<rparr> = Inr \<lparr>dsign = False, dint = 99984746838998994989324367248967173323312589161025011550728224419984813631587525544488026753697720319072492003904297725699243211819635145337116104582951757118678476045532260791494487522626718963637398, dexp = - 200\<rparr>"
proof -
  show ?thesis
    by (simp add: dec_add_def dec_normalize_def Let_def py_context_simps ev_fix97 del: One_nat_def)
qed

lemma shape_eval: "shape_coefficients py_arith \<lparr>dsign = False, dint = 1, dexp = 0\<rparr> \<lparr>dsign = False, dint = 0, dexp = 0\<rparr> (\<lparr>dsign = False, dint = 99981367602332163269692323144458353703985566859965583292150726601576629094927266175395651222802010375102616677292628880143886546900699210471797981525968035667436069341766871244484804985334618596905736, dexp = - 200\<rparr>, \<lparr>dsign = False, dint = 19303192397436475983742200905383863134937193441476888960310207326265753924332301934134047277076954040206894778438684798344227809866869879085784503699850475799892088433160737952705084922909845709192587, dexp = - 201\<rparr>) (\<lparr>dsign = False, dint = 99984746838998994989324367248967173323312589161025011550728224419984813631587525544488026753697720319072492003904297725699243211819635145337116104582951757118678476045532260791494487522626718963637398, dexp = - 200\<rparr>, \<lparr>dsign = False, dint = 17465393042472532787862559096441524948021627055405186711826525493317125357171559127975011376718349464048989517227312308028099678294215390814966300550672084754784016386004288546368432341868526484394020, dexp = - 201\<rparr>) = Inr (\<lparr>dsign = False, dint = 0, dexp = - 200\<rparr>, \<lparr>dsign = False, dint = 19303192397436475983742200905383863134937193441476888960310207326265753924332301934134047277076954040206894778438684798344227809866869879085784503699850475799892088433160737952705084922909845709192587, dexp = - 201\<rparr>, \<lparr>dsign = True, dint = 0, dexp = - 201\<rparr>, \<lparr>dsign = False, dint = 99984746838998994989324367248967173323312589161025011550728224419984813631587525544488026753697720319072492003904297725699243211819635145337116104582951757118678476045532260791494487522626718963637398, dexp = - 200\<rparr>)"
  by (simp add: shape_coefficients_def arith_simps
      ev_mul83 ev_sub85 ev_mul87 ev_mul28 ev_mul89 ev_mul27 ev_mul91 ev_add92 ev_sub94 ev_mul96 ev_mul98 ev_mul99 ev_add100 del: One_nat_def)

lemma derive_eval: "derive py_arith \<lparr>dsign = False, dint = 1035905, dexp = - 6\<rparr> \<lparr>dsign = False, dint = 1144947, dexp = - 6\<rparr> \<lparr>dsign = False, dint = 1, dexp = 0\<rparr> \<lparr>dsign = False, dint = 0, dexp = 0\<rparr> \<lparr>dsign = False, dint = 50, dexp = 0\<rparr> = Inr \<lparr>val_tauAlpha = (\<lparr>dsign = False, dint = 99981367602332163269692323144458353703985566859965583292150726601576629094927266175395651222802010375102616677292628880143886546900699210471797981525968035667436069341766871244484804985334618596905736, dexp = - 200\<rparr>, \<lparr>dsign = False, dint = 19303192397436475983742200905383863134937193441476888960310207326265753924332301934134047277076954040206894778438684798344227809866869879085784503699850475799892088433160737952705084922909845709192587, dexp = - 201\<rparr>), val_tauBeta = (\<lparr>dsign = False, dint = 99984746838998994989324367248967173323312589161025011550728224419984813631587525544488026753697720319072492003904297725699243211819635145337116104582951757118678476045532260791494487522626718963637398, dexp = - 200\<rparr>, \<lparr>dsign = False, dint = 17465393042472532787862559096441524948021627055405186711826525493317125357171559127975011376718349464048989517227312308028099678294215390814966300550672084754784016386004288546368432341868526484394020, dexp = - 201\<rparr>), val_uvwz = (\<lparr>dsign = False, dint = 0, dexp = - 200\<rparr>, \<lparr>dsign = False, dint = 19303192397436475983742200905383863134937193441476888960310207326265753924332301934134047277076954040206894778438684798344227809866869879085784503699850475799892088433160737952705084922909845709192587, dexp = - 201\<rparr>, \<lparr>dsign = True, dint = 0, dexp = - 201\<rparr>, \<lparr>dsign = False, dint = 99984746838998994989324367248967173323312589161025011550728224419984813631587525544488026753697720319072492003904297725699243211819635145337116104582951757118678476045532260791494487522626718963637398, dexp = - 200\<rparr>), val_dSq = \<lparr>dsign = False, dint = 1, dexp = 0\<rparr>\<rparr>"
  by (simp add: derive_def arith_simps step1_eval tauAlpha_eval tauBeta_eval shape_eval del: One_nat_def)

lemma ev_fix101: "dec_fix py_context \<lparr>dsign = False, dint = 9998136760233216326969232314445835370398556685996558329215072660157662909492726617539565122280201037510261667729262888014388654690069921047179798152596803566743606934176687124448480498533461859690573600000000000000000000000000000000000000, dexp = - 200\<rparr> = Inr \<lparr>dsign = False, dint = 99981367602332163269692323144458353703985566859965583292150726601576629094927266175395651222802010375102616677292628880143886546900699210471797981525968035667436069341766871244484804985334618596905736, dexp = - 162\<rparr>"
proof -
  have n: "ndigits 9998136760233216326969232314445835370398556685996558329215072660157662909492726617539565122280201037510261667729262888014388654690069921047179798152596803566743606934176687124448480498533461859690573600000000000000000000000000000000000000 = 238" by (rule ndigits_eqI) (simp_all del: One_nat_def)
  show ?thesis
    by (rule dec_fix_roundI[where L = 238 and k = 38 and q = 99981367602332163269692323144458353703985566859965583292150726601576629094927266175395651222802010375102616677292628880143886546900699210471797981525968035667436069341766871244484804985334618596905736 and r = 0])
       (simp_all add: n py_context_simps del: One_nat_def)
qed

lemma ev_mul102: "dec_mul py_context \<lparr>dsign = False, dint = 99981367602332163269692323144458353703985566859965583292150726601576629094927266175395651222802010375102616677292628880143886546900699210471797981525968035667436069341766871244484804985334618596905736, dexp = - 200\<rparr> \<lparr>dsign = False, dint = 100000000000000000000000000000000000000, dexp = 0\<rparr> = Inr \<lparr>dsign = False, dint = 99981367602332163269692323144458353703985566859965583292150726601576629094927266175395651222802010375102616677292628880143886546900699210471797981525968035667436069341766871244484804985334618596905736, dexp = - 162\<rparr>"
  by (rule dec_mulI[where P = 9998136760233216326969232314445835370398556685996558329215072660157662909492726617539565122280201037510261667729262888014388654690069921047179798152596803566743606934176687124448480498533461859690573600000000000000000000000000000000000000]) (simp_all add: ev_fix101 del: One_nat_def)

lemma ev_int103: "dec_int \<lparr>dsign = False, dint = 99981367602332163269692323144458353703985566859965583292150726601576629094927266175395651222802010375102616677292628880143886546900699210471797981525968035667436069341766871244484804985334618596905736, dexp = - 162\<rparr> = 99981367602332163269692323144458353703"
  by (rule dec_intI[where n = 99981367602332163269692323144458353703 and r = 985566859965583292150726601576629094927266175395651222802010375102616677292628880143886546900699210471797981525968035667436069341766871244484804985334618596905736]) (simp_all del: One_nat_def)

lemma to_int38_eval1: "to_int38 py_arith \<lparr>dsign = False, dint = 100000000000000000000000000000000000000, dexp = 0\<rparr> \<lparr>dsign = False, dint = 99981367602332163269692323144458353703985566859965583292150726601576629094927266175395651222802010375102616677292628880143886546900699210471797981525968035667436069341766871244484804985334618596905736, dexp = - 200\<rparr> = Inr (99981367602332163269692323144458353703)"
  by (simp add: to_int38_def arith_simps
      ev_mul102 ev_int103 del: One_nat_def)

lemma ev_fix104: "dec_fix py_context \<lparr>dsign = False, dint = 1930319239743647598374220090538386313493719344147688896031020732626575392433230193413404727707695404020689477843868479834422780986686987908578450369985047579989208843316073795270508492290984570919258700000000000000000000000000000000000000, dexp = - 201\<rparr> = Inr \<lparr>dsign = False, dint = 19303192397436475983742200905383863134937193441476888960310207326265753924332301934134047277076954040206894778438684798344227809866869879085784503699850475799892088433160737952705084922909845709192587, dexp = - 163\<rparr>"
proof -
  have n: "ndigits 1930319239743647598374220090538386313493719344147688896031020732626575392433230193413404727707695404020689477843868479834422780986686987908578450369985047579989208843316073795270508492290984570919258700000000000000000000000000000000000000 = 238" by (rule ndigits_eqI) (simp_all del: One_nat_def)
  show ?thesis
    by (rule dec_fix_roundI[where L = 238 and k = 38 and q = 19303192397436475983742200905383863134937193441476888960310207326265753924332301934134047277076954040206894778438684798344227809866869879085784503699850475799892088433160737952705084922909845709192587 and r = 0])
       (simp_all add: n py_context_simps del: One_nat_def)
qed

lemma ev_mul105: "dec_mul py_context \<lparr>dsign = False, dint = 19303192397436475983742200905383863134937193441476888960310207326265753924332301934134047277076954040206894778438684798344227809866869879085784503699850475799892088433160737952705084922909845709192587, dexp = - 201\<rparr> \<lparr>dsign = False, dint = 100000000000000000000000000000000000000, dexp = 0\<rparr> = Inr \<lparr>dsign = False, dint = 19303192397436475983742200905383863134937193441476888960310207326265753924332301934134047277076954040206894778438684798344227809866869879085784503699850475799892088433160737952705084922909845709192587, dexp = - 163\<rparr>"
  by (rule dec_mulI[where P = 1930319239743647598374220090538386313493719344147688896031020732626575392433230193413404727707695404020689477843868479834422780986686987908578450369985047579989208843316073795270508492290984570919258700000000000000000000000000000000000000]) (simp_all add: ev_fix104 del: One_nat_def)

lemma ev_int106: "dec_int \<lparr>dsign = False, dint = 19303192397436475983742200905383863134937193441476888960310207326265753924332301934134047277076954040206894778438684798344227809866869879085784503699850475799892088433160737952705084922909845709192587, dexp = - 163\<rparr> = 1930319239743647598374220090538386313"
  by (rule dec_intI[where n = 1930319239743647598374220090538386313 and r = 4937193441476888960310207326265753924332301934134047277076954040206894778438684798344227809866869879085784503699850475799892088433160737952705084922909845709192587]) (simp_all del: One_nat_def)

lemma to_int38_eval2: "to_int38 py_arith \<lparr>dsign = False, dint = 100000000000000000000000000000000000000, dexp = 0\<rparr> \<lparr>dsign = False, dint = 19303192397436475983742200905383863134937193441476888960310207326265753924332301934134047277076954040206894778438684798344227809866869879085784503699850475799892088433160737952705084922909845709192587, dexp = - 201\<rparr> = Inr (1930319239743647598374220090538386313)"
  by (simp add: to_int38_def arith_simps
      ev_mul105 ev_int106 del: One_nat_def)

lemma ev_fix107: "dec_fix py_context \<lparr>dsign = False, dint = 9998474683899899498932436724896717332331258916102501155072822441998481363158752554448802675369772031907249200390429772569924321181963514533711610458295175711867847604553226079149448752262671896363739800000000000000000000000000000000000000, dexp = - 200\<rparr> = Inr \<lparr>dsign = False, dint = 99984746838998994989324367248967173323312589161025011550728224419984813631587525544488026753697720319072492003904297725699243211819635145337116104582951757118678476045532260791494487522626718963637398, dexp = - 162\<rparr>"
proof -
  have n: "ndigits 9998474683899899498932436724896717332331258916102501155072822441998481363158752554448802675369772031907249200390429772569924321181963514533711610458295175711867847604553226079149448752262671896363739800000000000000000000000000000000000000 = 238" by (rule ndigits_eqI) (simp_all del: One_nat_def)
  show ?thesis
    by (rule dec_fix_roundI[where L = 238 and k = 38 and q = 99984746838998994989324367248967173323312589161025011550728224419984813631587525544488026753697720319072492003904297725699243211819635145337116104582951757118678476045532260791494487522626718963637398 and r = 0])
       (simp_all add: n py_context_simps del: One_nat_def)
qed

lemma ev_mul108: "dec_mul py_context \<lparr>dsign = False, dint = 99984746838998994989324367248967173323312589161025011550728224419984813631587525544488026753697720319072492003904297725699243211819635145337116104582951757118678476045532260791494487522626718963637398, dexp = - 200\<rparr> \<lparr>dsign = False, dint = 100000000000000000000000000000000000000, dexp = 0\<rparr> = Inr \<lparr>dsign = False, dint = 99984746838998994989324367248967173323312589161025011550728224419984813631587525544488026753697720319072492003904297725699243211819635145337116104582951757118678476045532260791494487522626718963637398, dexp = - 162\<rparr>"
  by (rule dec_mulI[where P = 9998474683899899498932436724896717332331258916102501155072822441998481363158752554448802675369772031907249200390429772569924321181963514533711610458295175711867847604553226079149448752262671896363739800000000000000000000000000000000000000]) (simp_all add: ev_fix107 del: One_nat_def)

lemma ev_int109: "dec_int \<lparr>dsign = False, dint = 99984746838998994989324367248967173323312589161025011550728224419984813631587525544488026753697720319072492003904297725699243211819635145337116104582951757118678476045532260791494487522626718963637398, dexp = - 162\<rparr> = 99984746838998994989324367248967173323"
  by (rule dec_intI[where n = 99984746838998994989324367248967173323 and r = 312589161025011550728224419984813631587525544488026753697720319072492003904297725699243211819635145337116104582951757118678476045532260791494487522626718963637398]) (simp_all del: One_nat_def)

lemma to_int38_eval3: "to_int38 py_arith \<lparr>dsign = False, dint = 100000000000000000000000000000000000000, dexp = 0\<rparr> \<lparr>dsign = False, dint = 99984746838998994989324367248967173323312589161025011550728224419984813631587525544488026753697720319072492003904297725699243211819635145337116104582951757118678476045532260791494487522626718963637398, dexp = - 200\<rparr> = Inr (99984746838998994989324367248967173323)"
  by (simp add: to_int38_def arith_simps
      ev_mul108 ev_int109 del: One_nat_def)

lemma ev_fix110: "dec_fix py_context \<lparr>dsign = False, dint = 1746539304247253278786255909644152494802162705540518671182652549331712535717155912797501137671834946404898951722731230802809967829421539081496630055067208475478401638600428854636843234186852648439402000000000000000000000000000000000000000, dexp = - 201\<rparr> = Inr \<lparr>dsign = False, dint = 17465393042472532787862559096441524948021627055405186711826525493317125357171559127975011376718349464048989517227312308028099678294215390814966300550672084754784016386004288546368432341868526484394020, dexp = - 163\<rparr>"
proof -
  have n: "ndigits 1746539304247253278786255909644152494802162705540518671182652549331712535717155912797501137671834946404898951722731230802809967829421539081496630055067208475478401638600428854636843234186852648439402000000000000000000000000000000000000000 = 238" by (rule ndigits_eqI) (simp_all del: One_nat_def)
  show ?thesis
    by (rule dec_fix_roundI[where L = 238 and k = 38 and q = 17465393042472532787862559096441524948021627055405186711826525493317125357171559127975011376718349464048989517227312308028099678294215390814966300550672084754784016386004288546368432341868526484394020 and r = 0])
       (simp_all add: n py_context_simps del: One_nat_def)
qed

lemma ev_mul111: "dec_mul py_context \<lparr>dsign = False, dint = 17465393042472532787862559096441524948021627055405186711826525493317125357171559127975011376718349464048989517227312308028099678294215390814966300550672084754784016386004288546368432341868526484394020, dexp = - 201\<rparr> \<lparr>dsign = False, dint = 100000000000000000000000000000000000000, dexp = 0\<rparr> = Inr \<lparr>dsign = False, dint = 17465393042472532787862559096441524948021627055405186711826525493317125357171559127975011376718349464048989517227312308028099678294215390814966300550672084754784016386004288546368432341868526484394020, dexp = - 163\<rparr>"
  by (rule dec_mulI[where P = 1746539304247253278786255909644152494802162705540518671182652549331712535717155912797501137671834946404898951722731230802809967829421539081496630055067208475478401638600428854636843234186852648439402000000000000000000000000000000000000000]) (simp_all add: ev_fix110 del: One_nat_def)

lemma ev_int112: "dec_int \<lparr>dsign = False, dint = 17465393042472532787862559096441524948021627055405186711826525493317125357171559127975011376718349464048989517227312308028099678294215390814966300550672084754784016386004288546368432341868526484394020, dexp = - 163\<rparr> = 1746539304247253278786255909644152494"
  by (rule dec_intI[where n = 1746539304247253278786255909644152494 and r = 8021627055405186711826525493317125357171559127975011376718349464048989517227312308028099678294215390814966300550672084754784016386004288546368432341868526484394020]) (simp_all del: One_nat_def)

lemma to_int38_eval4: "to_int38 py_arith \<lparr>dsign = False, dint = 100000000000000000000000000000000000000, dexp = 0\<rparr> \<lparr>dsign = False, dint = 17465393042472532787862559096441524948021627055405186711826525493317125357171559127975011376718349464048989517227312308028099678294215390814966300550672084754784016386004288546368432341868526484394020, dexp = - 201\<rparr> = Inr (1746539304247253278786255909644152494)"
  by (simp add: to_int38_def arith_simps
      ev_mul111 ev_int112 del: One_nat_def)

lemma ev_mul113: "dec_mul py_context \<lparr>dsign = False, dint = 0, dexp = - 200\<rparr> \<lparr>dsign = False, dint = 100000000000000000000000000000000000000, dexp = 0\<rparr> = Inr \<lparr>dsign = False, dint = 0, dexp = - 200\<rparr>"
  by (rule dec_mulI[where P = 0]) (simp_all add: ev_fix86 del: One_nat_def)

lemma ev_int114: "dec_int \<lparr>dsign = False, dint = 0, dexp = - 200\<rparr> = 0"
  by (rule dec_intI[where n = 0 and r = 0]) (simp_all del: One_nat_def)

lemma to_int38_eval5: "to_int38 py_arith \<lparr>dsign = False, dint = 100000000000000000000000000000000000000, dexp = 0\<rparr> \<lparr>dsign = False, dint = 0, dexp = - 200\<rparr> = Inr (0)"
  by (simp add: to_int38_def arith_simps
      ev_mul113 ev_int114 del: One_nat_def)

lemma ev_mul115: "dec_mul py_context \<lparr>dsign = True, dint = 0, dexp = - 201\<rparr> \<lparr>dsign = False, dint = 100000000000000000000000000000000000000, dexp = 0\<rparr> = Inr \<lparr>dsign = True, dint = 0, dexp = - 201\<rparr>"
  by (rule dec_mulI[where P = 0]) (simp_all add: ev_fix95 del: One_nat_def)

lemma ev_int116: "dec_int \<lparr>dsign = True, dint = 0, dexp = - 201\<rparr> = 0"
  by (rule dec_intI[where n = 0 and r = 0]) (simp_all del: One_nat_def)

lemma to_int38_eval7: "to_int38 py_arith \<lparr>dsign = False, dint = 100000000000000000000000000000000000000, dexp = 0\<rparr> \<lparr>dsign = True, dint = 0, dexp = - 201\<rparr> = Inr (0)"
  by (simp add: to_int38_def arith_simps
      ev_mul115 ev_int116 del: One_nat_def)

lemma ev_mul117: "dec_mul py_context \<lparr>dsign = False, dint = 1, dexp = 0\<rparr> \<lparr>dsign = False, dint = 100000000000000000000000000000000000000, dexp = 0\<rparr> = Inr \<lparr>dsign = False, dint = 100000000000000000000000000000000000000, dexp = 0\<rparr>"
  by (rule dec_mulI[where P = 100000000000000000000000000000000000000]) (simp_all add: ev_fix26 del: One_nat_def)

lemma ev_int118: "dec_int \<lparr>dsign = False, dint = 100000000000000000000000000000000000000, dexp = 0\<rparr> = 100000000000000000000000000000000000000"
  by (simp add: dec_int_def del: One_nat_def)

lemma to_int38_eval9: "to_int38 py_arith \<lparr>dsign = False, dint = 100000000000000000000000000000000000000, dexp = 0\<rparr> \<lparr>dsign = False, dint = 1, dexp = 0\<rparr> = Inr (100000000000000000000000000000000000000)"
  by (simp add: to_int38_def arith_simps
      ev_mul117 ev_int118 del: One_nat_def)

lemma scale_all_eval: "scale_all py_arith \<lparr>dsign = False, dint = 100000000000000000000000000000000000000, dexp = 0\<rparr> \<lparr>val_tauAlpha = (\<lparr>dsign = False, dint = 99981367602332163269692323144458353703985566859965583292150726601576629094927266175395651222802010375102616677292628880143886546900699210471797981525968035667436069341766871244484804985334618596905736, dexp = - 200\<rparr>, \<lparr>dsign = False, dint = 19303192397436475983742200905383863134937193441476888960310207326265753924332301934134047277076954040206894778438684798344227809866869879085784503699850475799892088433160737952705084922909845709192587, dexp = - 201\<rparr>), val_tauBeta = (\<lparr>dsign = False, dint = 99984746838998994989324367248967173323312589161025011550728224419984813631587525544488026753697720319072492003904297725699243211819635145337116104582951757118678476045532260791494487522626718963637398, dexp = - 200\<rparr>, \<lparr>dsign = False, dint = 17465393042472532787862559096441524948021627055405186711826525493317125357171559127975011376718349464048989517227312308028099678294215390814966300550672084754784016386004288546368432341868526484394020, dexp = - 201\<rparr>), val_uvwz = (\<lparr>dsign = False, dint = 0, dexp = - 200\<rparr>, \<lparr>dsign = False, dint = 19303192397436475983742200905383863134937193441476888960310207326265753924332301934134047277076954040206894778438684798344227809866869879085784503699850475799892088433160737952705084922909845709192587, dexp = - 201\<rparr>, \<lparr>dsign = True, dint = 0, dexp = - 201\<rparr>, \<lparr>dsign = False, dint = 99984746838998994989324367248967173323312589161025011550728224419984813631587525544488026753697720319072492003904297725699243211819635145337116104582951757118678476045532260791494487522626718963637398, dexp = - 200\<rparr>), val_dSq = \<lparr>dsign = False, dint = 1, dexp = 0\<rparr>\<rparr> = Inr \<lparr>tauAlpha_x_38 = 99981367602332163269692323144458353703, tauAlpha_y_38 = 1930319239743647598374220090538386313, tauBeta_x_38 = 99984746838998994989324367248967173323, tauBeta_y_38 = 1746539304247253278786255909644152494, u_38 = 0, v_38 = 1930319239743647598374220090538386313, w_38 = 0, z_38 = 99984746838998994989324367248967173323, dSq_38 = 100000000000000000000000000000000000000\<rparr>"
  by (simp add: scale_all_def arith_simps to_int38_eval1 to_int38_eval2 to_int38_eval3 to_int38_eval4 to_int38_eval5 to_int38_eval7 to_int38_eval9 del: One_nat_def)

lemma script_eval: "script py_arith \<lparr>dsign = False, dint = 1035905, dexp = - 6\<rparr> \<lparr>dsign = False, dint = 1144947, dexp = - 6\<rparr> \<lparr>dsign = False, dint = 1, dexp = 0\<rparr> \<lparr>dsign = False, dint = 0, dexp = 0\<rparr> \<lparr>dsign = False, dint = 50, dexp = 0\<rparr> = Inr \<lparr>tauAlpha_x_38 = 99981367602332163269692323144458353703, tauAlpha_y_38 = 1930319239743647598374220090538386313, tauBeta_x_38 = 99984746838998994989324367248967173323, tauBeta_y_38 = 1746539304247253278786255909644152494, u_38 = 0, v_38 = 1930319239743647598374220090538386313, w_38 = 0, z_38 = 99984746838998994989324367248967173323, dSq_38 = 100000000000000000000000000000000000000\<rparr>"
  by (simp add: script_def arith_simps SCALE_38_eval derive_eval scale_all_eval del: One_nat_def)

lemma main_eval: "main = Inr \<lparr>tauAlpha_x_38 = 99981367602332163269692323144458353703, tauAlpha_y_38 = 1930319239743647598374220090538386313, tauBeta_x_38 = 99984746838998994989324367248967173323, tauBeta_y_38 = 1746539304247253278786255909644152494, u_38 = 0, v_38 = 1930319239743647598374220090538386313, w_38 = 0, z_38 = 99984746838998994989324367248967173323, dSq_38 = 100000000000000000000000000000000000000\<rparr>"
  by (simp add: main_def hard_coded_eval script_eval del: One_nat_def)

lemma ev_fix120: "dec_fix (work_context py_context 2) \<lparr>dsign = False, dint = 9996273867632675506346091183924659116715053108794836591326815535911075876764114293488472316332820740256837107522324567641972609490628012552037941713766758823784269766309798844233902736159595882832033437087209923943923662267429690679181034623615423874419756639392779279048348199883762873730518162697096565307576102139943199050727209677531125546901733702486839186434524386930350381183083434153669701696, dexp = - 400\<rparr> = Inr \<lparr>dsign = False, dint = 99962738676326755063460911839246591167150531087948365913268155359110758767641142934884723163328207402568371075223245676419726094906280125520379417137667588237842697663097988442339027361595958828320334371, dexp = - 203\<rparr>"
proof -
  have n: "ndigits 9996273867632675506346091183924659116715053108794836591326815535911075876764114293488472316332820740256837107522324567641972609490628012552037941713766758823784269766309798844233902736159595882832033437087209923943923662267429690679181034623615423874419756639392779279048348199883762873730518162697096565307576102139943199050727209677531125546901733702486839186434524386930350381183083434153669701696 = 400" by (rule ndigits_eqI) (simp_all del: One_nat_def)
  show ?thesis
    by (rule dec_fix_roundI[where L = 400 and k = 197 and q = 99962738676326755063460911839246591167150531087948365913268155359110758767641142934884723163328207402568371075223245676419726094906280125520379417137667588237842697663097988442339027361595958828320334370 and r = 87209923943923662267429690679181034623615423874419756639392779279048348199883762873730518162697096565307576102139943199050727209677531125546901733702486839186434524386930350381183083434153669701696])
       (simp_all add: n work2_simps del: One_nat_def)
qed

lemma ev_mul121: "dec_mul (work_context py_context 2) \<lparr>dsign = False, dint = 99981367602332163269692323144458353703985566859965583292150726601576629094927266175395651222802010375102616677292628880143886546900699210471797981525968035667436069341766871244484804985334618596905736, dexp = - 200\<rparr> \<lparr>dsign = False, dint = 99981367602332163269692323144458353703985566859965583292150726601576629094927266175395651222802010375102616677292628880143886546900699210471797981525968035667436069341766871244484804985334618596905736, dexp = - 200\<rparr> = Inr \<lparr>dsign = False, dint = 99962738676326755063460911839246591167150531087948365913268155359110758767641142934884723163328207402568371075223245676419726094906280125520379417137667588237842697663097988442339027361595958828320334371, dexp = - 203\<rparr>"
  by (rule dec_mulI[where P = 9996273867632675506346091183924659116715053108794836591326815535911075876764114293488472316332820740256837107522324567641972609490628012552037941713766758823784269766309798844233902736159595882832033437087209923943923662267429690679181034623615423874419756639392779279048348199883762873730518162697096565307576102139943199050727209677531125546901733702486839186434524386930350381183083434153669701696]) (simp_all add: ev_fix120 del: One_nat_def)

lemma ev_fix122: "dec_fix py_context \<lparr>dsign = False, dint = 99962738676326755063460911839246591167150531087948365913268155359110758767641142934884723163328207402568371075223245676419726094906280125520379417137667588237842697663097988442339027361595958828320334371, dexp = - 203\<rparr> = Inr \<lparr>dsign = False, dint = 99962738676326755063460911839246591167150531087948365913268155359110758767641142934884723163328207402568371075223245676419726094906280125520379417137667588237842697663097988442339027361595958828320334, dexp = - 200\<rparr>"
proof -
  have n: "ndigits 99962738676326755063460911839246591167150531087948365913268155359110758767641142934884723163328207402568371075223245676419726094906280125520379417137667588237842697663097988442339027361595958828320334371 = 203" by (rule ndigits_eqI) (simp_all del: One_nat_def)
  show ?thesis
    by (rule dec_fix_roundI[where L = 203 and k = 3 and q = 99962738676326755063460911839246591167150531087948365913268155359110758767641142934884723163328207402568371075223245676419726094906280125520379417137667588237842697663097988442339027361595958828320334 and r = 371])
       (simp_all add: n py_context_simps del: One_nat_def)
qed

lemma ev_pow119: "dec_pow py_context \<lparr>dsign = False, dint = 99981367602332163269692323144458353703985566859965583292150726601576629094927266175395651222802010375102616677292628880143886546900699210471797981525968035667436069341766871244484804985334618596905736, dexp = - 200\<rparr> 2 = Inr \<lparr>dsign = False, dint = 99962738676326755063460911839246591167150531087948365913268155359110758767641142934884723163328207402568371075223245676419726094906280125520379417137667588237842697663097988442339027361595958828320334, dexp = - 200\<rparr>"
  by (rule dec_pow2I[where ?r1.0 = "\<lparr>dsign = False, dint = 99962738676326755063460911839246591167150531087948365913268155359110758767641142934884723163328207402568371075223245676419726094906280125520379417137667588237842697663097988442339027361595958828320334371, dexp = - 203\<rparr>"]) (simp_all add: ev_mul121 ev_fix122 del: One_nat_def)

lemma ev_fix123: "dec_fix py_context \<lparr>dsign = False, dint = 965159619871823799187110045269193156746859672073844448015510366313287696216615096706702363853847702010344738921934239917211390493343493954289225184992523789994604421658036897635254246145492285459629350, dexp = - 201\<rparr> = Inr \<lparr>dsign = False, dint = 96515961987182379918711004526919315674685967207384444801551036631328769621661509670670236385384770201034473892193423991721139049334349395428922518499252378999460442165803689763525424614549228545962935, dexp = - 200\<rparr>"
proof -
  have n: "ndigits 965159619871823799187110045269193156746859672073844448015510366313287696216615096706702363853847702010344738921934239917211390493343493954289225184992523789994604421658036897635254246145492285459629350 = 201" by (rule ndigits_eqI) (simp_all del: One_nat_def)
  show ?thesis
    by (rule dec_fix_roundI[where L = 201 and k = 1 and q = 96515961987182379918711004526919315674685967207384444801551036631328769621661509670670236385384770201034473892193423991721139049334349395428922518499252378999460442165803689763525424614549228545962935 and r = 0])
       (simp_all add: n py_context_simps del: One_nat_def)
qed

lemma ev_mul124: "dec_mul py_context \<lparr>dsign = False, dint = 19303192397436475983742200905383863134937193441476888960310207326265753924332301934134047277076954040206894778438684798344227809866869879085784503699850475799892088433160737952705084922909845709192587, dexp = - 201\<rparr> \<lparr>dsign = False, dint = 50, dexp = 0\<rparr> = Inr \<lparr>dsign = False, dint = 96515961987182379918711004526919315674685967207384444801551036631328769621661509670670236385384770201034473892193423991721139049334349395428922518499252378999460442165803689763525424614549228545962935, dexp = - 200\<rparr>"
  by (rule dec_mulI[where P = 965159619871823799187110045269193156746859672073844448015510366313287696216615096706702363853847702010344738921934239917211390493343493954289225184992523789994604421658036897635254246145492285459629350]) (simp_all add: ev_fix123 del: One_nat_def)

lemma ev_fix126: "dec_fix (work_context py_context 2) \<lparr>dsign = False, dint = 9315330918311234134772040188352208212367228012908521682961160222310308089714266278819209167948149357907231194188580895068476273429968619905145715583102940539325584225502889415243159601010292919914446183297833595412917614873138965098222165516431018299208950827005936562372244856015403199272687589773204254088551849634582605292247049738179395205104059571529024311758327063691174757064739803886393814225, dexp = - 400\<rparr> = Inr \<lparr>dsign = False, dint = 93153309183112341347720401883522082123672280129085216829611602223103080897142662788192091679481493579072311941885808950684762734299686199051457155831029405393255842255028894152431596010102929199144461833, dexp = - 203\<rparr>"
proof -
  have n: "ndigits 9315330918311234134772040188352208212367228012908521682961160222310308089714266278819209167948149357907231194188580895068476273429968619905145715583102940539325584225502889415243159601010292919914446183297833595412917614873138965098222165516431018299208950827005936562372244856015403199272687589773204254088551849634582605292247049738179395205104059571529024311758327063691174757064739803886393814225 = 400" by (rule ndigits_eqI) (simp_all del: One_nat_def)
  show ?thesis
    by (rule dec_fix_roundI[where L = 400 and k = 197 and q = 93153309183112341347720401883522082123672280129085216829611602223103080897142662788192091679481493579072311941885808950684762734299686199051457155831029405393255842255028894152431596010102929199144461832 and r = 97833595412917614873138965098222165516431018299208950827005936562372244856015403199272687589773204254088551849634582605292247049738179395205104059571529024311758327063691174757064739803886393814225])
       (simp_all add: n work2_simps del: One_nat_def)
qed

lemma ev_mul127: "dec_mul (work_context py_context 2) \<lparr>dsign = False, dint = 96515961987182379918711004526919315674685967207384444801551036631328769621661509670670236385384770201034473892193423991721139049334349395428922518499252378999460442165803689763525424614549228545962935, dexp = - 200\<rparr> \<lparr>dsign = False, dint = 96515961987182379918711004526919315674685967207384444801551036631328769621661509670670236385384770201034473892193423991721139049334349395428922518499252378999460442165803689763525424614549228545962935, dexp = - 200\<rparr> = Inr \<lparr>dsign = False, dint = 93153309183112341347720401883522082123672280129085216829611602223103080897142662788192091679481493579072311941885808950684762734299686199051457155831029405393255842255028894152431596010102929199144461833, dexp = - 203\<rparr>"
  by (rule dec_mulI[where P = 9315330918311234134772040188352208212367228012908521682961160222310308089714266278819209167948149357907231194188580895068476273429968619905145715583102940539325584225502889415243159601010292919914446183297833595412917614873138965098222165516431018299208950827005936562372244856015403199272687589773204254088551849634582605292247049738179395205104059571529024311758327063691174757064739803886393814225]) (simp_all add: ev_fix126 del: One_nat_def)

lemma ev_fix128: "dec_fix py_context \<lparr>dsign = False, dint = 93153309183112341347720401883522082123672280129085216829611602223103080897142662788192091679481493579072311941885808950684762734299686199051457155831029405393255842255028894152431596010102929199144461833, dexp = - 203\<rparr> = Inr \<lparr>dsign = False, dint = 93153309183112341347720401883522082123672280129085216829611602223103080897142662788192091679481493579072311941885808950684762734299686199051457155831029405393255842255028894152431596010102929199144462, dexp = - 200\<rparr>"
proof -
  have n: "ndigits 93153309183112341347720401883522082123672280129085216829611602223103080897142662788192091679481493579072311941885808950684762734299686199051457155831029405393255842255028894152431596010102929199144461833 = 203" by (rule ndigits_eqI) (simp_all del: One_nat_def)
  show ?thesis
    by (rule dec_fix_roundI[where L = 203 and k = 3 and q = 93153309183112341347720401883522082123672280129085216829611602223103080897142662788192091679481493579072311941885808950684762734299686199051457155831029405393255842255028894152431596010102929199144461 and r = 833])
       (simp_all add: n py_context_simps del: One_nat_def)
qed

lemma ev_pow125: "dec_pow py_context \<lparr>dsign = False, dint = 96515961987182379918711004526919315674685967207384444801551036631328769621661509670670236385384770201034473892193423991721139049334349395428922518499252378999460442165803689763525424614549228545962935, dexp = - 200\<rparr> 2 = Inr \<lparr>dsign = False, dint = 93153309183112341347720401883522082123672280129085216829611602223103080897142662788192091679481493579072311941885808950684762734299686199051457155831029405393255842255028894152431596010102929199144462, dexp = - 200\<rparr>"
  by (rule dec_pow2I[where ?r1.0 = "\<lparr>dsign = False, dint = 93153309183112341347720401883522082123672280129085216829611602223103080897142662788192091679481493579072311941885808950684762734299686199051457155831029405393255842255028894152431596010102929199144461833, dexp = - 203\<rparr>"]) (simp_all add: ev_mul127 ev_fix128 del: One_nat_def)

lemma ev_fix129: "dec_fix py_context \<lparr>dsign = False, dint = 193116047859439096411181313722768673290822811217033582742879757582213839664783805723076814842809700981640683017109054627104488829205966324571836572968696993631098539918126882594770623371698888027464796, dexp = - 200\<rparr> = Inr \<lparr>dsign = False, dint = 19311604785943909641118131372276867329082281121703358274287975758221383966478380572307681484280970098164068301710905462710448882920596632457183657296869699363109853991812688259477062337169888802746480, dexp = - 199\<rparr>"
proof -
  have n: "ndigits 193116047859439096411181313722768673290822811217033582742879757582213839664783805723076814842809700981640683017109054627104488829205966324571836572968696993631098539918126882594770623371698888027464796 = 201" by (rule ndigits_eqI) (simp_all del: One_nat_def)
  show ?thesis
    by (rule dec_fix_roundI[where L = 201 and k = 1 and q = 19311604785943909641118131372276867329082281121703358274287975758221383966478380572307681484280970098164068301710905462710448882920596632457183657296869699363109853991812688259477062337169888802746479 and r = 6])
       (simp_all add: n py_context_simps del: One_nat_def)
qed

lemma ev_add130: "dec_add py_context \<lparr>dsign = False, dint = 99962738676326755063460911839246591167150531087948365913268155359110758767641142934884723163328207402568371075223245676419726094906280125520379417137667588237842697663097988442339027361595958828320334, dexp = - 200\<rparr> \<lparr>dsign = False, dint = 93153309183112341347720401883522082123672280129085216829611602223103080897142662788192091679481493579072311941885808950684762734299686199051457155831029405393255842255028894152431596010102929199144462, dexp = - 200\<rparr> = Inr \<lparr>dsign = False, dint = 19311604785943909641118131372276867329082281121703358274287975758221383966478380572307681484280970098164068301710905462710448882920596632457183657296869699363109853991812688259477062337169888802746480, dexp = - 199\<rparr>"
proof -
  have n1: "ndigits 99962738676326755063460911839246591167150531087948365913268155359110758767641142934884723163328207402568371075223245676419726094906280125520379417137667588237842697663097988442339027361595958828320334 = 200" by (rule ndigits_eqI) (simp_all del: One_nat_def)
  have n2: "ndigits 93153309183112341347720401883522082123672280129085216829611602223103080897142662788192091679481493579072311941885808950684762734299686199051457155831029405393255842255028894152431596010102929199144462 = 200" by (rule ndigits_eqI) (simp_all del: One_nat_def)
  show ?thesis
    by (simp add: dec_add_def dec_normalize_def Let_def n1 n2 py_context_simps ev_fix129 del: One_nat_def)
qed

lemma ev_fix132: "dec_fix py_context \<lparr>dsign = False, dint = 138966200156526945460901451996805157161971798348531650634803130668956605064309940637208132383037593815546187691217892102320447562039843342620249108966014731512433012946299597363826132487224385278082991, dexp = - 200\<rparr> = Inr \<lparr>dsign = False, dint = 13896620015652694546090145199680515716197179834853165063480313066895660506430994063720813238303759381554618769121789210232044756203984334262024910896601473151243301294629959736382613248722438527808299, dexp = - 199\<rparr>"
proof -
  have n: "ndigits 138966200156526945460901451996805157161971798348531650634803130668956605064309940637208132383037593815546187691217892102320447562039843342620249108966014731512433012946299597363826132487224385278082991 = 201" by (rule ndigits_eqI) (simp_all del: One_nat_def)
  show ?thesis
    by (rule dec_fix_roundI[where L = 201 and k = 1 and q = 13896620015652694546090145199680515716197179834853165063480313066895660506430994063720813238303759381554618769121789210232044756203984334262024910896601473151243301294629959736382613248722438527808299 and r = 1])
       (simp_all add: n py_context_simps del: One_nat_def)
qed

lemma ev_sqrt131: "dec_sqrt py_context \<lparr>dsign = False, dint = 19311604785943909641118131372276867329082281121703358274287975758221383966478380572307681484280970098164068301710905462710448882920596632457183657296869699363109853991812688259477062337169888802746480, dexp = - 199\<rparr> = Inr \<lparr>dsign = False, dint = 13896620015652694546090145199680515716197179834853165063480313066895660506430994063720813238303759381554618769121789210232044756203984334262024910896601473151243301294629959736382613248722438527808299, dexp = - 199\<rparr>"
proof -
  have n1: "ndigits 19311604785943909641118131372276867329082281121703358274287975758221383966478380572307681484280970098164068301710905462710448882920596632457183657296869699363109853991812688259477062337169888802746480 = 200" by (rule ndigits_eqI) (simp_all del: One_nat_def)
  show ?thesis
    by (rule dec_sqrt_inexactI[where L = 200 and c = 193116047859439096411181313722768673290822811217033582742879757582213839664783805723076814842809700981640683017109054627104488829205966324571836572968696993631098539918126882594770623371698888027464800 and l = 101 and shift = 100
          and n = 138966200156526945460901451996805157161971798348531650634803130668956605064309940637208132383037593815546187691217892102320447562039843342620249108966014731512433012946299597363826132487224385278082990
          and rem = 216330128218849212144823564877818902417267991753450086982083958587893350173442481839995350298138845895505522964780227224987456824151555078242540419669328030141611555999896981137004787359247550672659900
          and a = 27793240031305389092180290399361031432394359669706330126960626133791321012861988127441626476607518763109237538243578420464089512407968668524049821793202946302486602589259919472765226497444877055616598 and b = 0
          and n' = 138966200156526945460901451996805157161971798348531650634803130668956605064309940637208132383037593815546187691217892102320447562039843342620249108966014731512433012946299597363826132487224385278082991])
       (simp_all add: n1 py_context_simps ev_fix132 del: One_nat_def)
qed

lemma sanity_alpha_eval: "sanity_norm py_arith \<lparr>dsign = False, dint = 50, dexp = 0\<rparr> (\<lparr>dsign = False, dint = 99981367602332163269692323144458353703985566859965583292150726601576629094927266175395651222802010375102616677292628880143886546900699210471797981525968035667436069341766871244484804985334618596905736, dexp = - 200\<rparr>, \<lparr>dsign = False, dint = 19303192397436475983742200905383863134937193441476888960310207326265753924332301934134047277076954040206894778438684798344227809866869879085784503699850475799892088433160737952705084922909845709192587, dexp = - 201\<rparr>) = Inr \<lparr>dsign = False, dint = 13896620015652694546090145199680515716197179834853165063480313066895660506430994063720813238303759381554618769121789210232044756203984334262024910896601473151243301294629959736382613248722438527808299, dexp = - 199\<rparr>"
  by (simp add: sanity_norm_def arith_simps
      ev_pow119 ev_mul124 ev_pow125 ev_add130 ev_sqrt131 del: One_nat_def)

lemma ev_fix134: "dec_fix (work_context py_context 2) \<lparr>dsign = False, dint = 9996949600458719520445052735093737876041485758869947232079513289449711330346703053858023043612571461037049646500961446266109472631062945642378939872649904810929576536060393205962798626928607417152914701577704532661270221900612305147748635396659366025741683253801839840223900982379117451198440680493492573799409812730219467547214516425206570867439812343658702794936013292355342746478246196562824210404, dexp = - 400\<rparr> = Inr \<lparr>dsign = False, dint = 99969496004587195204450527350937378760414857588699472320795132894497113303467030538580230436125714610370496465009614462661094726310629456423789398726499048109295765360603932059627986269286074171529147016, dexp = - 203\<rparr>"
proof -
  have n: "ndigits 9996949600458719520445052735093737876041485758869947232079513289449711330346703053858023043612571461037049646500961446266109472631062945642378939872649904810929576536060393205962798626928607417152914701577704532661270221900612305147748635396659366025741683253801839840223900982379117451198440680493492573799409812730219467547214516425206570867439812343658702794936013292355342746478246196562824210404 = 400" by (rule ndigits_eqI) (simp_all del: One_nat_def)
  show ?thesis
    by (rule dec_fix_roundI[where L = 400 and k = 197 and q = 99969496004587195204450527350937378760414857588699472320795132894497113303467030538580230436125714610370496465009614462661094726310629456423789398726499048109295765360603932059627986269286074171529147015 and r = 77704532661270221900612305147748635396659366025741683253801839840223900982379117451198440680493492573799409812730219467547214516425206570867439812343658702794936013292355342746478246196562824210404])
       (simp_all add: n work2_simps del: One_nat_def)
qed

lemma ev_mul135: "dec_mul (work_context py_context 2) \<lparr>dsign = False, dint = 99984746838998994989324367248967173323312589161025011550728224419984813631587525544488026753697720319072492003904297725699243211819635145337116104582951757118678476045532260791494487522626718963637398, dexp = - 200\<rparr> \<lparr>dsign = False, dint = 99984746838998994989324367248967173323312589161025011550728224419984813631587525544488026753697720319072492003904297725699243211819635145337116104582951757118678476045532260791494487522626718963637398, dexp = - 200\<rparr> = Inr \<lparr>dsign = False, dint = 99969496004587195204450527350937378760414857588699472320795132894497113303467030538580230436125714610370496465009614462661094726310629456423789398726499048109295765360603932059627986269286074171529147016, dexp = - 203\<rparr>"
  by (rule dec_mulI[where P = 9996949600458719520445052735093737876041485758869947232079513289449711330346703053858023043612571461037049646500961446266109472631062945642378939872649904810929576536060393205962798626928607417152914701577704532661270221900612305147748635396659366025741683253801839840223900982379117451198440680493492573799409812730219467547214516425206570867439812343658702794936013292355342746478246196562824210404]) (simp_all add: ev_fix134 del: One_nat_def)

lemma ev_fix136: "dec_fix py_context \<lparr>dsign = False, dint = 99969496004587195204450527350937378760414857588699472320795132894497113303467030538580230436125714610370496465009614462661094726310629456423789398726499048109295765360603932059627986269286074171529147016, dexp = - 203\<rparr> = Inr \<lparr>dsign = False, dint = 99969496004587195204450527350937378760414857588699472320795132894497113303467030538580230436125714610370496465009614462661094726310629456423789398726499048109295765360603932059627986269286074171529147, dexp = - 200\<rparr>"
proof -
  have n: "ndigits 99969496004587195204450527350937378760414857588699472320795132894497113303467030538580230436125714610370496465009614462661094726310629456423789398726499048109295765360603932059627986269286074171529147016 = 203" by (rule ndigits_eqI) (simp_all del: One_nat_def)
  show ?thesis
    by (rule dec_fix_roundI[where L = 203 and k = 3 and q = 99969496004587195204450527350937378760414857588699472320795132894497113303467030538580230436125714610370496465009614462661094726310629456423789398726499048109295765360603932059627986269286074171529147 and r = 16])
       (simp_all add: n py_context_simps del: One_nat_def)
qed

lemma ev_pow133: "dec_pow py_context \<lparr>dsign = False, dint = 99984746838998994989324367248967173323312589161025011550728224419984813631587525544488026753697720319072492003904297725699243211819635145337116104582951757118678476045532260791494487522626718963637398, dexp = - 200\<rparr> 2 = Inr \<lparr>dsign = False, dint = 99969496004587195204450527350937378760414857588699472320795132894497113303467030538580230436125714610370496465009614462661094726310629456423789398726499048109295765360603932059627986269286074171529147, dexp = - 200\<rparr>"
  by (rule dec_pow2I[where ?r1.0 = "\<lparr>dsign = False, dint = 99969496004587195204450527350937378760414857588699472320795132894497113303467030538580230436125714610370496465009614462661094726310629456423789398726499048109295765360603932059627986269286074171529147016, dexp = - 203\<rparr>"]) (simp_all add: ev_mul135 ev_fix136 del: One_nat_def)

lemma ev_fix137: "dec_fix py_context \<lparr>dsign = False, dint = 873269652123626639393127954822076247401081352770259335591326274665856267858577956398750568835917473202449475861365615401404983914710769540748315027533604237739200819300214427318421617093426324219701000, dexp = - 201\<rparr> = Inr \<lparr>dsign = False, dint = 87326965212362663939312795482207624740108135277025933559132627466585626785857795639875056883591747320244947586136561540140498391471076954074831502753360423773920081930021442731842161709342632421970100, dexp = - 200\<rparr>"
proof -
  have n: "ndigits 873269652123626639393127954822076247401081352770259335591326274665856267858577956398750568835917473202449475861365615401404983914710769540748315027533604237739200819300214427318421617093426324219701000 = 201" by (rule ndigits_eqI) (simp_all del: One_nat_def)
  show ?thesis
    by (rule dec_fix_roundI[where L = 201 and k = 1 and q = 87326965212362663939312795482207624740108135277025933559132627466585626785857795639875056883591747320244947586136561540140498391471076954074831502753360423773920081930021442731842161709342632421970100 and r = 0])
       (simp_all add: n py_context_simps del: One_nat_def)
qed

lemma ev_mul138: "dec_mul py_context \<lparr>dsign = False, dint = 17465393042472532787862559096441524948021627055405186711826525493317125357171559127975011376718349464048989517227312308028099678294215390814966300550672084754784016386004288546368432341868526484394020, dexp = - 201\<rparr> \<lparr>dsign = False, dint = 50, dexp = 0\<rparr> = Inr \<lparr>dsign = False, dint = 87326965212362663939312795482207624740108135277025933559132627466585626785857795639875056883591747320244947586136561540140498391471076954074831502753360423773920081930021442731842161709342632421970100, dexp = - 200\<rparr>"
  by (rule dec_mulI[where P = 873269652123626639393127954822076247401081352770259335591326274665856267858577956398750568835917473202449475861365615401404983914710769540748315027533604237739200819300214427318421617093426324219701000]) (simp_all add: ev_fix137 del: One_nat_def)

lemma ev_fix140: "dec_fix (work_context py_context 2) \<lparr>dsign = False, dint = 7625998853201198887368162265655309896285602825131919801216776375721674133242365354942390968571347407375883747596384334726318422342635894052650318375237972676058659849016985093003432678481457117712384452547453908551524799171084721246751073253222168005686102899942746728809257292378478580676476740436188852999298204120564028491703483328356070514484774466241352872981271181893894102386896665165294010000, dexp = - 400\<rparr> = Inr \<lparr>dsign = False, dint = 76259988532011988873681622656553098962856028251319198012167763757216741332423653549423909685713474073758837475963843347263184223426358940526503183752379726760586598490169850930034326784814571177123844525, dexp = - 203\<rparr>"
proof -
  have n: "ndigits 7625998853201198887368162265655309896285602825131919801216776375721674133242365354942390968571347407375883747596384334726318422342635894052650318375237972676058659849016985093003432678481457117712384452547453908551524799171084721246751073253222168005686102899942746728809257292378478580676476740436188852999298204120564028491703483328356070514484774466241352872981271181893894102386896665165294010000 = 400" by (rule ndigits_eqI) (simp_all del: One_nat_def)
  show ?thesis
    by (rule dec_fix_roundI[where L = 400 and k = 197 and q = 76259988532011988873681622656553098962856028251319198012167763757216741332423653549423909685713474073758837475963843347263184223426358940526503183752379726760586598490169850930034326784814571177123844525 and r = 47453908551524799171084721246751073253222168005686102899942746728809257292378478580676476740436188852999298204120564028491703483328356070514484774466241352872981271181893894102386896665165294010000])
       (simp_all add: n work2_simps del: One_nat_def)
qed

lemma ev_mul141: "dec_mul (work_context py_context 2) \<lparr>dsign = False, dint = 87326965212362663939312795482207624740108135277025933559132627466585626785857795639875056883591747320244947586136561540140498391471076954074831502753360423773920081930021442731842161709342632421970100, dexp = - 200\<rparr> \<lparr>dsign = False, dint = 87326965212362663939312795482207624740108135277025933559132627466585626785857795639875056883591747320244947586136561540140498391471076954074831502753360423773920081930021442731842161709342632421970100, dexp = - 200\<rparr> = Inr \<lparr>dsign = False, dint = 76259988532011988873681622656553098962856028251319198012167763757216741332423653549423909685713474073758837475963843347263184223426358940526503183752379726760586598490169850930034326784814571177123844525, dexp = - 203\<rparr>"
  by (rule dec_mulI[where P = 7625998853201198887368162265655309896285602825131919801216776375721674133242365354942390968571347407375883747596384334726318422342635894052650318375237972676058659849016985093003432678481457117712384452547453908551524799171084721246751073253222168005686102899942746728809257292378478580676476740436188852999298204120564028491703483328356070514484774466241352872981271181893894102386896665165294010000]) (simp_all add: ev_fix140 del: One_nat_def)

lemma ev_fix142: "dec_fix py_context \<lparr>dsign = False, dint = 76259988532011988873681622656553098962856028251319198012167763757216741332423653549423909685713474073758837475963843347263184223426358940526503183752379726760586598490169850930034326784814571177123844525, dexp = - 203\<rparr> = Inr \<lparr>dsign = False, dint = 76259988532011988873681622656553098962856028251319198012167763757216741332423653549423909685713474073758837475963843347263184223426358940526503183752379726760586598490169850930034326784814571177123845, dexp = - 200\<rparr>"
proof -
  have n: "ndigits 76259988532011988873681622656553098962856028251319198012167763757216741332423653549423909685713474073758837475963843347263184223426358940526503183752379726760586598490169850930034326784814571177123844525 = 203" by (rule ndigits_eqI) (simp_all del: One_nat_def)
  show ?thesis
    by (rule dec_fix_roundI[where L = 203 and k = 3 and q = 76259988532011988873681622656553098962856028251319198012167763757216741332423653549423909685713474073758837475963843347263184223426358940526503183752379726760586598490169850930034326784814571177123844 and r = 525])
       (simp_all add: n py_context_simps del: One_nat_def)
qed

lemma ev_pow139: "dec_pow py_context \<lparr>dsign = False, dint = 87326965212362663939312795482207624740108135277025933559132627466585626785857795639875056883591747320244947586136561540140498391471076954074831502753360423773920081930021442731842161709342632421970100, dexp = - 200\<rparr> 2 = Inr \<lparr>dsign = False, dint = 76259988532011988873681622656553098962856028251319198012167763757216741332423653549423909685713474073758837475963843347263184223426358940526503183752379726760586598490169850930034326784814571177123845, dexp = - 200\<rparr>"
  by (rule dec_pow2I[where ?r1.0 = "\<lparr>dsign = False, dint = 76259988532011988873681622656553098962856028251319198012167763757216741332423653549423909685713474073758837475963843347263184223426358940526503183752379726760586598490169850930034326784814571177123844525, dexp = - 203\<rparr>"]) (simp_all add: ev_mul141 ev_fix142 del: One_nat_def)

lemma ev_fix143: "dec_fix py_context \<lparr>dsign = False, dint = 176229484536599184078132150007490477723270885840018670332962896651713854635890684088004140121839188684129333940973457809924278949736988396950292582478878774869882363850773782989662313054100645348652992, dexp = - 200\<rparr> = Inr \<lparr>dsign = False, dint = 17622948453659918407813215000749047772327088584001867033296289665171385463589068408800414012183918868412933394097345780992427894973698839695029258247887877486988236385077378298966231305410064534865299, dexp = - 199\<rparr>"
proof -
  have n: "ndigits 176229484536599184078132150007490477723270885840018670332962896651713854635890684088004140121839188684129333940973457809924278949736988396950292582478878774869882363850773782989662313054100645348652992 = 201" by (rule ndigits_eqI) (simp_all del: One_nat_def)
  show ?thesis
    by (rule dec_fix_roundI[where L = 201 and k = 1 and q = 17622948453659918407813215000749047772327088584001867033296289665171385463589068408800414012183918868412933394097345780992427894973698839695029258247887877486988236385077378298966231305410064534865299 and r = 2])
       (simp_all add: n py_context_simps del: One_nat_def)
qed

lemma ev_add144: "dec_add py_context \<lparr>dsign = False, dint = 99969496004587195204450527350937378760414857588699472320795132894497113303467030538580230436125714610370496465009614462661094726310629456423789398726499048109295765360603932059627986269286074171529147, dexp = - 200\<rparr> \<lparr>dsign = False, dint = 76259988532011988873681622656553098962856028251319198012167763757216741332423653549423909685713474073758837475963843347263184223426358940526503183752379726760586598490169850930034326784814571177123845, dexp = - 200\<rparr> = Inr \<lparr>dsign = False, dint = 17622948453659918407813215000749047772327088584001867033296289665171385463589068408800414012183918868412933394097345780992427894973698839695029258247887877486988236385077378298966231305410064534865299, dexp = - 199\<rparr>"
proof -
  have n1: "ndigits 99969496004587195204450527350937378760414857588699472320795132894497113303467030538580230436125714610370496465009614462661094726310629456423789398726499048109295765360603932059627986269286074171529147 = 200" by (rule ndigits_eqI) (simp_all del: One_nat_def)
  have n2: "ndigits 76259988532011988873681622656553098962856028251319198012167763757216741332423653549423909685713474073758837475963843347263184223426358940526503183752379726760586598490169850930034326784814571177123845 = 200" by (rule ndigits_eqI) (simp_all del: One_nat_def)
  show ?thesis
    by (simp add: dec_add_def dec_normalize_def Let_def n1 n2 py_context_simps ev_fix143 del: One_nat_def)
qed

lemma ev_fix146: "dec_fix py_context \<lparr>dsign = False, dint = 132751453678142140364883435445651130130589775770770476917895906677637064496567468571323188833724014997934996283594962221356404641947301072852990106203364479335989245219669730095281555341027476445870904, dexp = - 200\<rparr> = Inr \<lparr>dsign = False, dint = 13275145367814214036488343544565113013058977577077047691789590667763706449656746857132318883372401499793499628359496222135640464194730107285299010620336447933598924521966973009528155534102747644587090, dexp = - 199\<rparr>"
proof -
  have n: "ndigits 132751453678142140364883435445651130130589775770770476917895906677637064496567468571323188833724014997934996283594962221356404641947301072852990106203364479335989245219669730095281555341027476445870904 = 201" by (rule ndigits_eqI) (simp_all del: One_nat_def)
  show ?thesis
    by (rule dec_fix_roundI[where L = 201 and k = 1 and q = 13275145367814214036488343544565113013058977577077047691789590667763706449656746857132318883372401499793499628359496222135640464194730107285299010620336447933598924521966973009528155534102747644587090 and r = 4])
       (simp_all add: n py_context_simps del: One_nat_def)
qed

lemma ev_sqrt145: "dec_sqrt py_context \<lparr>dsign = False, dint = 17622948453659918407813215000749047772327088584001867033296289665171385463589068408800414012183918868412933394097345780992427894973698839695029258247887877486988236385077378298966231305410064534865299, dexp = - 199\<rparr> = Inr \<lparr>dsign = False, dint = 13275145367814214036488343544565113013058977577077047691789590667763706449656746857132318883372401499793499628359496222135640464194730107285299010620336447933598924521966973009528155534102747644587090, dexp = - 199\<rparr>"
proof -
  have n1: "ndigits 17622948453659918407813215000749047772327088584001867033296289665171385463589068408800414012183918868412933394097345780992427894973698839695029258247887877486988236385077378298966231305410064534865299 = 200" by (rule ndigits_eqI) (simp_all del: One_nat_def)
  show ?thesis
    by (rule dec_sqrt_inexactI[where L = 200 and c = 176229484536599184078132150007490477723270885840018670332962896651713854635890684088004140121839188684129333940973457809924278949736988396950292582478878774869882363850773782989662313054100645348652990 and l = 101 and shift = 100
          and n = 132751453678142140364883435445651130130589775770770476917895906677637064496567468571323188833724014997934996283594962221356404641947301072852990106203364479335989245219669730095281555341027476445870904
          and rem = 36487742581919141989650184203864435368785981654201497380793196636559785831597068791401872215675805370601706288255123241708358304472564886522200810062389369060048116183651514184209525775282528966222784
          and a = 26550290735628428072976687089130226026117955154154095383579181335527412899313493714264637766744802999586999256718992444271280928389460214570598021240672895867197849043933946019056311068205495289174180 and b = 4
          and n' = 132751453678142140364883435445651130130589775770770476917895906677637064496567468571323188833724014997934996283594962221356404641947301072852990106203364479335989245219669730095281555341027476445870904])
       (simp_all add: n1 py_context_simps ev_fix146 del: One_nat_def)
qed

lemma sanity_beta_eval: "sanity_norm py_arith \<lparr>dsign = False, dint = 50, dexp = 0\<rparr> (\<lparr>dsign = False, dint = 99984746838998994989324367248967173323312589161025011550728224419984813631587525544488026753697720319072492003904297725699243211819635145337116104582951757118678476045532260791494487522626718963637398, dexp = - 200\<rparr>, \<lparr>dsign = False, dint = 17465393042472532787862559096441524948021627055405186711826525493317125357171559127975011376718349464048989517227312308028099678294215390814966300550672084754784016386004288546368432341868526484394020, dexp = - 201\<rparr>) = Inr \<lparr>dsign = False, dint = 13275145367814214036488343544565113013058977577077047691789590667763706449656746857132318883372401499793499628359496222135640464194730107285299010620336447933598924521966973009528155534102747644587090, dexp = - 199\<rparr>"
  by (simp add: sanity_norm_def arith_simps
      ev_pow133 ev_mul138 ev_pow139 ev_add144 ev_sqrt145 del: One_nat_def)

lemma main_sanity_eval: "main_sanity = Inr (\<lparr>dsign = False, dint = 13896620015652694546090145199680515716197179834853165063480313066895660506430994063720813238303759381554618769121789210232044756203984334262024910896601473151243301294629959736382613248722438527808299, dexp = - 199\<rparr>, \<lparr>dsign = False, dint = 13275145367814214036488343544565113013058977577077047691789590667763706449656746857132318883372401499793499628359496222135640464194730107285299010620336447933598924521966973009528155534102747644587090, dexp = - 199\<rparr>, \<lparr>dsign = False, dint = 1, dexp = 0\<rparr>)"
  by (simp add: main_sanity_def hard_coded_eval sanity_checks_def arith_simps derive_eval
      sanity_alpha_eval sanity_beta_eval del: One_nat_def)


























section \<open>The properties\<close>

text \<open>
  C1. For every price bound \<open>p\<close>, and for the inputs \<open>c\<close>, \<open>s\<close>, \<open>lambda\<close> and \<open>d\<close> the
  program has set up, \<open>compute_tau\<close> returns what the reference algorithm of the
  specification states: \<open>tau.x = (p*c - s) * dFactor\<close> and
  \<open>tau.y = (c + s*p) * dFactor / lambda\<close> with
  \<open>dFactor = 1 / sqrt(((c/d + p*s/d)^2) / lambda^2 + (p*c/d - s/d)^2)\<close>; and the shape
  coefficients are those of the reference algorithm.  The equality holds in every
  arithmetic, so also in the 200-digit decimal arithmetic of the program, where it
  includes the errors raised.
\<close>

theorem C1_tau_and_shape_follow_reference:
  "compute_tau A c s lam d p = spec_tau A c s lam d p
   \<and> shape_coefficients A c s tauAlpha tauBeta = spec_shape A c s tauAlpha tauBeta"
proof
  show "compute_tau A c s lam d p = spec_tau A c s lam d p"
  proof (cases "ar_div A c d")
    case (Inl e)
    then show ?thesis
      by (simp add: compute_tau_def spec_tau_def spec_dFactor_def lift1_def lift2_def
          ebind_simps ebind_assoc)
  next
    case cd: (Inr c_over_d)
    show ?thesis
    proof (cases "ar_div A s d")
      case (Inl e)
      with cd show ?thesis
        by (simp add: compute_tau_def spec_tau_def spec_dFactor_def lift1_def lift2_def
            ebind_simps ebind_assoc)
    next
      case (Inr s_over_d)
      with cd show ?thesis
        by (simp add: compute_tau_def spec_tau_def spec_dFactor_def lift1_def lift2_def
            ebind_simps ebind_assoc)
    qed
  qed
  show "shape_coefficients A c s tauAlpha tauBeta = spec_shape A c s tauAlpha tauBeta"
    by (cases tauAlpha, cases tauBeta)
      (simp add: shape_coefficients_def spec_shape_def lift1_def lift2_def
        ebind_simps ebind_assoc)
qed

text \<open>
  C2. Every decimal value \<open>x\<close> that a run of the script passes to the scaling step is
  scaled to \<open>floor(x * 10^38)\<close> when \<open>x \<ge> 0\<close> and to \<open>ceil(x * 10^38)\<close> when \<open>x < 0\<close>:
  the product with \<open>10^38\<close> is exact and the conversion truncates toward zero.  The only
  other outcome is the overflow of the product, for a value of \<open>10^999962\<close> or more.
\<close>

theorem C2_scaling_truncates_toward_zero:
  assumes "derive py_arith alpha beta c s lam = Inr r" and "x \<in> set (scaled_values r)"
  shows "ebind (SCALE_38 py_arith) (\<lambda>scale. to_int38 py_arith scale x) =
     (if dint x \<noteq> 0 \<and> Emax py_context < int (ndigits (dint x)) + dexp x + 37
      then Inl Overflow
      else Inr (if 0 \<le> dec_val x then \<lfloor>dec_val x * 10 ^ 38\<rfloor> else \<lceil>dec_val x * 10 ^ 38\<rceil>))"
proof -
  have cv: "context_value py_context x" by (rule derive_context_value[OF assms])
  have lit: "(100000000000000000000000000000000000000::nat) = 10 ^ 38" by simp
  have sc: "SCALE_38 py_arith = Inr \<lparr>dsign = False, dint = 10 ^ 38, dexp = 0\<rparr>"
    unfolding SCALE_38_eval lit ..
  have t: "to_int38 py_arith \<lparr>dsign = False, dint = 10 ^ 38, dexp = 0\<rparr> x =
      ebind (dec_mul py_context x \<lparr>dsign = False, dint = 10 ^ 38, dexp = 0\<rparr>) (\<lambda>y. Inr (dec_int y))"
    by (simp add: to_int38_def py_arith_def decimal_arith_def)
  have em: "Emax py_context = 999999" by (simp add: py_context_simps)
  have "to_int38 py_arith \<lparr>dsign = False, dint = 10 ^ 38, dexp = 0\<rparr> x =
       (if dint x \<noteq> 0 \<and> Emax py_context < int (ndigits (dint x)) + dexp x + 37
        then Inl Overflow
        else Inr (if 0 \<le> dec_val x then \<lfloor>dec_val x * 10 ^ 38\<rfloor> else \<lceil>dec_val x * 10 ^ 38\<rceil>))"
  proof (cases "dint x \<noteq> 0 \<and> 999999 < int (ndigits (dint x)) + dexp x + 37")
    case True
    then have "dec_mul py_context x \<lparr>dsign = False, dint = 10 ^ 38, dexp = 0\<rparr> = Inl Overflow"
      using scaling_overflows by blast
    then have "to_int38 py_arith \<lparr>dsign = False, dint = 10 ^ 38, dexp = 0\<rparr> x = Inl Overflow"
      unfolding t by (simp only: ebind_def sum.case)
    with True show ?thesis unfolding em by simp
  next
    case False
    from scaling_exact[OF cv False] obtain z
      where z: "dec_mul py_context x \<lparr>dsign = False, dint = 10 ^ 38, dexp = 0\<rparr> = Inr z"
        and v: "dec_val z = dec_val x * 10 ^ 38" by blast
    have "(0 \<le> dec_val x * 10 ^ 38) = (0 \<le> dec_val x)"
      by (simp add: zero_le_mult_iff)
    then have tr: "trunc_toward_zero (dec_val z) =
        (if 0 \<le> dec_val x then \<lfloor>dec_val x * 10 ^ 38\<rfloor> else \<lceil>dec_val x * 10 ^ 38\<rceil>)"
      unfolding v trunc_toward_zero_def by simp
    have "to_int38 py_arith \<lparr>dsign = False, dint = 10 ^ 38, dexp = 0\<rparr> x =
        Inr (trunc_toward_zero (dec_val z))"
      unfolding t z by (simp only: ebind_def sum.case dec_int_trunc)
    with False show ?thesis unfolding em tr by simp
  qed
  then show ?thesis unfolding sc by (simp only: ebind_simps)
qed

text \<open>C2 at the first value scaled in the run on the hard-coded parameters, \<open>tauAlpha.x\<close>.\<close>

theorem C2_witness:
  "derive py_arith \<lparr>dsign = False, dint = 1035905, dexp = - 6\<rparr>
       \<lparr>dsign = False, dint = 1144947, dexp = - 6\<rparr>
       \<lparr>dsign = False, dint = 1, dexp = 0\<rparr>
       \<lparr>dsign = False, dint = 0, dexp = 0\<rparr>
       \<lparr>dsign = False, dint = 50, dexp = 0\<rparr> =
     Inr \<lparr>val_tauAlpha = (\<lparr>dsign = False, dint = 99981367602332163269692323144458353703985566859965583292150726601576629094927266175395651222802010375102616677292628880143886546900699210471797981525968035667436069341766871244484804985334618596905736, dexp = - 200\<rparr>, \<lparr>dsign = False, dint = 19303192397436475983742200905383863134937193441476888960310207326265753924332301934134047277076954040206894778438684798344227809866869879085784503699850475799892088433160737952705084922909845709192587, dexp = - 201\<rparr>), val_tauBeta = (\<lparr>dsign = False, dint = 99984746838998994989324367248967173323312589161025011550728224419984813631587525544488026753697720319072492003904297725699243211819635145337116104582951757118678476045532260791494487522626718963637398, dexp = - 200\<rparr>, \<lparr>dsign = False, dint = 17465393042472532787862559096441524948021627055405186711826525493317125357171559127975011376718349464048989517227312308028099678294215390814966300550672084754784016386004288546368432341868526484394020, dexp = - 201\<rparr>), val_uvwz = (\<lparr>dsign = False, dint = 0, dexp = - 200\<rparr>, \<lparr>dsign = False, dint = 19303192397436475983742200905383863134937193441476888960310207326265753924332301934134047277076954040206894778438684798344227809866869879085784503699850475799892088433160737952705084922909845709192587, dexp = - 201\<rparr>, \<lparr>dsign = True, dint = 0, dexp = - 201\<rparr>, \<lparr>dsign = False, dint = 99984746838998994989324367248967173323312589161025011550728224419984813631587525544488026753697720319072492003904297725699243211819635145337116104582951757118678476045532260791494487522626718963637398, dexp = - 200\<rparr>), val_dSq = \<lparr>dsign = False, dint = 1, dexp = 0\<rparr>\<rparr>
   \<and> \<lparr>dsign = False, dint = 99981367602332163269692323144458353703985566859965583292150726601576629094927266175395651222802010375102616677292628880143886546900699210471797981525968035667436069341766871244484804985334618596905736, dexp = - 200\<rparr>
       \<in> set (scaled_values \<lparr>val_tauAlpha = (\<lparr>dsign = False, dint = 99981367602332163269692323144458353703985566859965583292150726601576629094927266175395651222802010375102616677292628880143886546900699210471797981525968035667436069341766871244484804985334618596905736, dexp = - 200\<rparr>, \<lparr>dsign = False, dint = 19303192397436475983742200905383863134937193441476888960310207326265753924332301934134047277076954040206894778438684798344227809866869879085784503699850475799892088433160737952705084922909845709192587, dexp = - 201\<rparr>), val_tauBeta = (\<lparr>dsign = False, dint = 99984746838998994989324367248967173323312589161025011550728224419984813631587525544488026753697720319072492003904297725699243211819635145337116104582951757118678476045532260791494487522626718963637398, dexp = - 200\<rparr>, \<lparr>dsign = False, dint = 17465393042472532787862559096441524948021627055405186711826525493317125357171559127975011376718349464048989517227312308028099678294215390814966300550672084754784016386004288546368432341868526484394020, dexp = - 201\<rparr>), val_uvwz = (\<lparr>dsign = False, dint = 0, dexp = - 200\<rparr>, \<lparr>dsign = False, dint = 19303192397436475983742200905383863134937193441476888960310207326265753924332301934134047277076954040206894778438684798344227809866869879085784503699850475799892088433160737952705084922909845709192587, dexp = - 201\<rparr>, \<lparr>dsign = True, dint = 0, dexp = - 201\<rparr>, \<lparr>dsign = False, dint = 99984746838998994989324367248967173323312589161025011550728224419984813631587525544488026753697720319072492003904297725699243211819635145337116104582951757118678476045532260791494487522626718963637398, dexp = - 200\<rparr>), val_dSq = \<lparr>dsign = False, dint = 1, dexp = 0\<rparr>\<rparr>)
   \<and> ebind (SCALE_38 py_arith) (\<lambda>scale. to_int38 py_arith scale \<lparr>dsign = False, dint = 99981367602332163269692323144458353703985566859965583292150726601576629094927266175395651222802010375102616677292628880143886546900699210471797981525968035667436069341766871244484804985334618596905736, dexp = - 200\<rparr>) =
     (if dint \<lparr>dsign = False, dint = 99981367602332163269692323144458353703985566859965583292150726601576629094927266175395651222802010375102616677292628880143886546900699210471797981525968035667436069341766871244484804985334618596905736, dexp = - 200\<rparr> \<noteq> 0
        \<and> Emax py_context < int (ndigits (dint \<lparr>dsign = False, dint = 99981367602332163269692323144458353703985566859965583292150726601576629094927266175395651222802010375102616677292628880143886546900699210471797981525968035667436069341766871244484804985334618596905736, dexp = - 200\<rparr>)) + dexp \<lparr>dsign = False, dint = 99981367602332163269692323144458353703985566859965583292150726601576629094927266175395651222802010375102616677292628880143886546900699210471797981525968035667436069341766871244484804985334618596905736, dexp = - 200\<rparr> + 37
      then Inl Overflow
      else Inr (if 0 \<le> dec_val \<lparr>dsign = False, dint = 99981367602332163269692323144458353703985566859965583292150726601576629094927266175395651222802010375102616677292628880143886546900699210471797981525968035667436069341766871244484804985334618596905736, dexp = - 200\<rparr>
                then \<lfloor>dec_val \<lparr>dsign = False, dint = 99981367602332163269692323144458353703985566859965583292150726601576629094927266175395651222802010375102616677292628880143886546900699210471797981525968035667436069341766871244484804985334618596905736, dexp = - 200\<rparr> * 10 ^ 38\<rfloor>
                else \<lceil>dec_val \<lparr>dsign = False, dint = 99981367602332163269692323144458353703985566859965583292150726601576629094927266175395651222802010375102616677292628880143886546900699210471797981525968035667436069341766871244484804985334618596905736, dexp = - 200\<rparr> * 10 ^ 38\<rceil>))"
proof -
  have m: "\<lparr>dsign = False, dint = 99981367602332163269692323144458353703985566859965583292150726601576629094927266175395651222802010375102616677292628880143886546900699210471797981525968035667436069341766871244484804985334618596905736, dexp = - 200\<rparr>
       \<in> set (scaled_values \<lparr>val_tauAlpha = (\<lparr>dsign = False, dint = 99981367602332163269692323144458353703985566859965583292150726601576629094927266175395651222802010375102616677292628880143886546900699210471797981525968035667436069341766871244484804985334618596905736, dexp = - 200\<rparr>, \<lparr>dsign = False, dint = 19303192397436475983742200905383863134937193441476888960310207326265753924332301934134047277076954040206894778438684798344227809866869879085784503699850475799892088433160737952705084922909845709192587, dexp = - 201\<rparr>), val_tauBeta = (\<lparr>dsign = False, dint = 99984746838998994989324367248967173323312589161025011550728224419984813631587525544488026753697720319072492003904297725699243211819635145337116104582951757118678476045532260791494487522626718963637398, dexp = - 200\<rparr>, \<lparr>dsign = False, dint = 17465393042472532787862559096441524948021627055405186711826525493317125357171559127975011376718349464048989517227312308028099678294215390814966300550672084754784016386004288546368432341868526484394020, dexp = - 201\<rparr>), val_uvwz = (\<lparr>dsign = False, dint = 0, dexp = - 200\<rparr>, \<lparr>dsign = False, dint = 19303192397436475983742200905383863134937193441476888960310207326265753924332301934134047277076954040206894778438684798344227809866869879085784503699850475799892088433160737952705084922909845709192587, dexp = - 201\<rparr>, \<lparr>dsign = True, dint = 0, dexp = - 201\<rparr>, \<lparr>dsign = False, dint = 99984746838998994989324367248967173323312589161025011550728224419984813631587525544488026753697720319072492003904297725699243211819635145337116104582951757118678476045532260791494487522626718963637398, dexp = - 200\<rparr>), val_dSq = \<lparr>dsign = False, dint = 1, dexp = 0\<rparr>\<rparr>)"
    by (simp add: scaled_values_def del: One_nat_def)
  show ?thesis
    using derive_eval m C2_scaling_truncates_toward_zero[OF derive_eval m] by (intro conjI)
qed

text \<open>
  C3. On the parameters hard-coded in the source (alpha = 1.035905, beta = 1.144947,
  c = 1, s = 0, lambda = 50) the script runs to its end and the constant it prints for
  \<open>dSq\<close> is exactly \<open>10^38\<close>.
\<close>

theorem C3_dSq_scaled_is_1e38:
  "\<exists>k. main = Inr k \<and> dSq_38 k = 100000000000000000000000000000000000000"
  by (simp add: main_eval)

text \<open>
  C4. Whenever the input \<open>s\<close> is zero, the constants that a run of the script prints for
  \<open>u\<close> and for \<open>w\<close> are both \<open>0\<close>.
\<close>

theorem C4_zero_s_gives_zero_u_w:
  assumes "dec_val s = 0" and "script py_arith alpha beta c s lam = Inr k"
  shows "u_38 k = 0 \<and> w_38 k = 0"
proof -
  from assms(1) have s0: "dint s = 0" by (simp add: dec_val_zero_iff)
  from assms(2) obtain sc r where r: "derive py_arith alpha beta c s lam = Inr r"
    and k: "scale_all py_arith sc r = Inr k"
    unfolding script_def by (auto simp add: ebind_Inr_iff)
  obtain u v w z where uvwz: "val_uvwz r = (u, v, w, z)" by (cases "val_uvwz r") auto
  from r obtain ta tb where "shape_coefficients py_arith c s ta tb = Inr (val_uvwz r)"
    unfolding derive_def by (auto simp add: ebind_Inr_iff)
  then have z: "dint u = 0 \<and> dint w = 0"
    unfolding py_arith_def uvwz by (rule shape_coefficients_zero_s) (rule s0)
  from k obtain ku kw where ku: "to_int38 py_arith sc u = Inr ku" and kw: "to_int38 py_arith sc w = Inr kw"
    and "u_38 k = ku" and "w_38 k = kw"
    unfolding scale_all_def uvwz by (auto simp add: ebind_Inr_iff)
  moreover from ku z have "ku = 0" unfolding py_arith_def by (auto dest: to_int38_zero_coeff)
  moreover from kw z have "kw = 0" unfolding py_arith_def by (auto dest: to_int38_zero_coeff)
  ultimately show ?thesis by simp
qed


text \<open>C4 at the hard-coded parameters, whose \<open>s\<close> is zero.\<close>

theorem C4_witness:
  "dec_val \<lparr>dsign = False, dint = 0, dexp = 0\<rparr> = 0
   \<and> script py_arith \<lparr>dsign = False, dint = 1035905, dexp = - 6\<rparr>
       \<lparr>dsign = False, dint = 1144947, dexp = - 6\<rparr>
       \<lparr>dsign = False, dint = 1, dexp = 0\<rparr>
       \<lparr>dsign = False, dint = 0, dexp = 0\<rparr>
       \<lparr>dsign = False, dint = 50, dexp = 0\<rparr> =
     Inr \<lparr>tauAlpha_x_38 = 99981367602332163269692323144458353703, tauAlpha_y_38 = 1930319239743647598374220090538386313, tauBeta_x_38 = 99984746838998994989324367248967173323, tauBeta_y_38 = 1746539304247253278786255909644152494, u_38 = 0, v_38 = 1930319239743647598374220090538386313, w_38 = 0, z_38 = 99984746838998994989324367248967173323, dSq_38 = 100000000000000000000000000000000000000\<rparr>
   \<and> u_38 \<lparr>tauAlpha_x_38 = 99981367602332163269692323144458353703, tauAlpha_y_38 = 1930319239743647598374220090538386313, tauBeta_x_38 = 99984746838998994989324367248967173323, tauBeta_y_38 = 1746539304247253278786255909644152494, u_38 = 0, v_38 = 1930319239743647598374220090538386313, w_38 = 0, z_38 = 99984746838998994989324367248967173323, dSq_38 = 100000000000000000000000000000000000000\<rparr> = 0
   \<and> w_38 \<lparr>tauAlpha_x_38 = 99981367602332163269692323144458353703, tauAlpha_y_38 = 1930319239743647598374220090538386313, tauBeta_x_38 = 99984746838998994989324367248967173323, tauBeta_y_38 = 1746539304247253278786255909644152494, u_38 = 0, v_38 = 1930319239743647598374220090538386313, w_38 = 0, z_38 = 99984746838998994989324367248967173323, dSq_38 = 100000000000000000000000000000000000000\<rparr> = 0"
proof -
  have z: "dec_val \<lparr>dsign = False, dint = 0, dexp = 0\<rparr> = 0" by (simp add: dec_val_zero_iff)
  show ?thesis
    using z script_eval C4_zero_s_gives_zero_u_w[OF z script_eval] by (intro conjI) simp_all
qed

















text \<open>
  C7.  On the hard-coded parameters the sanity section does not print three values
  near 1: the norms it recomputes, with \<open>tau.y\<close> multiplied by \<open>lambda\<close>, are
  \<open>1.3896...\<close> for \<open>tauAlpha\<close> and \<open>1.3275...\<close> for \<open>tauBeta\<close>; only \<open>dSq\<close> is 1.
\<close>

theorem C7_sanity_norms_are_not_one:
  "\<exists>na nb dq. main_sanity = Inr (na, nb, dq)
     \<and> 138 / 100 < dec_val na \<and> dec_val na < 139 / 100
     \<and> 132 / 100 < dec_val nb \<and> dec_val nb < 133 / 100
     \<and> dec_val dq = 1"
  by (simp add: main_sanity_eval dec_val_neg_exp) (simp add: dec_val_def)

text \<open>
  C8. On the hard-coded parameters each of the nine constants the script prints lies in
  the range of a signed 256-bit integer.
\<close>

theorem C8_constants_fit_int256:
  "\<exists>k. main = Inr k \<and> in_int256 (tauAlpha_x_38 k) \<and> in_int256 (tauAlpha_y_38 k)
     \<and> in_int256 (tauBeta_x_38 k) \<and> in_int256 (tauBeta_y_38 k)
     \<and> in_int256 (u_38 k) \<and> in_int256 (v_38 k) \<and> in_int256 (w_38 k)
     \<and> in_int256 (z_38 k) \<and> in_int256 (dSq_38 k)"
  by (simp add: main_eval in_int256_def)

text \<open>
  C10. In exact real arithmetic, for every price bound \<open>p > 0\<close>, every \<open>c\<close> and \<open>s\<close> not
  both zero and every \<open>lambda > 0\<close>, the point that \<open>compute_tau\<close> returns satisfies
  \<open>tau.x^2 + tau.y^2 = dSq\<close>, whereas the sanity section takes the norm of
  \<open>(tau.x, tau.y * lambda)\<close>.
\<close>

theorem C10_tau_norm_is_dSq:
  fixes c s lam p :: real
  assumes "0 < p" and "c \<noteq> 0 \<or> s \<noteq> 0" and "0 < lam"
  shows "\<exists>dSq d x y. step1 real_arith c s = Inr (dSq, d)
    \<and> compute_tau real_arith c s lam d p = Inr (x, y)
    \<and> x\<^sup>2 + y\<^sup>2 = dSq
    \<and> sanity_norm real_arith lam (x, y) = Inr (sqrt (x\<^sup>2 + (y * lam)\<^sup>2))"
proof -
  define dSq where "dSq = c * c + s * s"
  define d where "d = sqrt dSq"
  define R where "R = (c / d + p * s / d)\<^sup>2 / lam\<^sup>2 + (p * c / d - s / d)\<^sup>2"
  define x where "x = (p * c - s) * (1 / sqrt R)"
  define y where "y = (c + s * p) * (1 / sqrt R) / lam"
  have lam0: "lam \<noteq> 0" using assms(3) by simp
  have ct: "compute_tau real_arith c s lam d p = Inr (x, y)"
    unfolding x_def y_def R_def d_def dSq_def by (rule compute_tau_real(1)[OF assms(2) lam0])
  have d: "0 < d"
    unfolding d_def dSq_def by (rule compute_tau_real(2)[OF assms(2) lam0])
  have R: "0 < R"
    unfolding R_def d_def dSq_def by (rule compute_tau_real(3)[OF assms(2) lam0])
  have dd: "d\<^sup>2 = dSq" using d by (simp add: d_def)
  have a: "c / d + p * s / d = (c + p * s) / d" by (simp add: add_divide_distrib)
  have b: "p * c / d - s / d = (p * c - s) / d" by (simp add: diff_divide_distrib)
  have "((c + p * s) / d)\<^sup>2 / lam\<^sup>2 = (c + p * s)\<^sup>2 / lam\<^sup>2 / d\<^sup>2"
    by (simp only: power_divide divide_divide_eq_left mult.commute)
  moreover have "((p * c - s) / d)\<^sup>2 = (p * c - s)\<^sup>2 / d\<^sup>2"
    by (simp only: power_divide)
  ultimately have "R = ((c + p * s)\<^sup>2 / lam\<^sup>2 + (p * c - s)\<^sup>2) / d\<^sup>2"
    unfolding R_def a b by (simp only: add_divide_distrib)
  then have "R * d\<^sup>2 = (c + p * s)\<^sup>2 / lam\<^sup>2 + (p * c - s)\<^sup>2"
    using d by simp
  then have e: "(p * c - s)\<^sup>2 + (c + s * p)\<^sup>2 / lam\<^sup>2 = R * dSq"
    by (simp add: dd mult.commute add.commute)
  define F where "F = 1 / sqrt R"
  have x2: "x\<^sup>2 = (p * c - s)\<^sup>2 * F\<^sup>2"
    by (simp only: x_def F_def[symmetric] power_mult_distrib)
  have "y = (c + s * p) / lam * F"
    by (simp only: y_def F_def[symmetric] times_divide_eq_left)
  then have y2: "y\<^sup>2 = (c + s * p)\<^sup>2 / lam\<^sup>2 * F\<^sup>2"
    by (simp only: power_mult_distrib power_divide)
  have F2: "F\<^sup>2 = 1 / R" using R by (simp add: F_def power_divide)
  have "x\<^sup>2 + y\<^sup>2 = ((p * c - s)\<^sup>2 + (c + s * p)\<^sup>2 / lam\<^sup>2) * F\<^sup>2"
    by (simp only: x2 y2 distrib_right)
  also have "\<dots> = R * dSq * (1 / R)"
    by (simp only: e F2)
  also have "\<dots> = dSq" using R by simp
  finally have n: "x\<^sup>2 + y\<^sup>2 = dSq" .
  have "step1 real_arith c s = Inr (dSq, d)" by (simp add: step1_real dSq_def d_def)
  moreover have "compute_tau real_arith c s lam d p = Inr (x, y)" by (rule ct)
  ultimately show ?thesis using n sanity_norm_real by blast
qed

theorem C10_witness:
  "(0::real) < 1 \<and> (1::real) \<noteq> 0 \<and> (0::real) < 50
   \<and> (\<exists>dSq d x y. step1 real_arith 1 0 = Inr (dSq, d)
    \<and> compute_tau real_arith 1 0 50 d 1 = Inr (x, y)
    \<and> x\<^sup>2 + y\<^sup>2 = dSq
    \<and> sanity_norm real_arith 50 (x, y) = Inr (sqrt (x\<^sup>2 + (y * 50)\<^sup>2)))"
  using C10_tau_norm_is_dSq[of 1 1 0 50] by simp


end
